theory Spec2Isabelle
  imports Complex_Main
begin

section \<open>Scope tree (utils/tree.go)\<close>

text \<open>
  A \<open>*Tree\<close> is a pointer, and the operations mutate the node it points to. The
  embedding keeps the nodes in an explicit store: a list of nodes, the address of a node
  being its index. \<open>Downs\<close> and \<open>Up\<close> hold addresses. A receiver that is not
  allocated (Go's nil pointer, which panics at \<open>self.mu.Lock()\<close>) makes an operation
  return \<open>None\<close>. Every structural operation runs under the node's write lock, so the
  operations of concurrent callers are serialised: a run is a list of operations applied
  one after the other.
\<close>

record 'v Tree =
  Name :: string
  Data :: "(string \<times> 'v) list"
  Up :: "nat option"
  Downs :: "nat list"

type_synonym 'v store = "'v Tree list"

definition NewTree :: "string \<Rightarrow> 'v Tree" where
  "NewTree name = \<lparr>Name = name, Data = [], Up = None, Downs = []\<rparr>"

fun findNodeByName :: "'v store \<Rightarrow> nat list \<Rightarrow> string \<Rightarrow> nat option" where
  "findNodeByName h [] name = None"
| "findNodeByName h (down # downs) name =
     (if Name (h ! down) = name then Some down else findNodeByName h downs name)"

definition AddNode :: "'v store \<Rightarrow> nat \<Rightarrow> string \<Rightarrow> ('v store \<times> nat) option" where
  "AddNode h self name =
     (if \<not> self < length h then None
      else case findNodeByName h (Downs (h ! self)) name of
        Some first \<Rightarrow> Some (h, first)
      | None \<Rightarrow>
          (let child = length h;
               h1 = h @ [NewTree name];
               h2 = h1[self := (h1 ! self)\<lparr>Downs := Downs (h1 ! self) @ [child]\<rparr>];
               h3 = h2[child := (h2 ! child)\<lparr>Up := Some self\<rparr>]
           in Some (h3, child)))"

fun AddNodes_loop :: "'v store \<Rightarrow> nat \<Rightarrow> string list \<Rightarrow> ('v store \<times> nat) option" where
  "AddNodes_loop h node [] = Some (h, node)"
| "AddNodes_loop h node (name # names) =
     (case AddNode h node name of
        None \<Rightarrow> None
      | Some (h', node') \<Rightarrow> AddNodes_loop h' node' names)"

definition AddNodes :: "'v store \<Rightarrow> nat \<Rightarrow> string \<Rightarrow> string list \<Rightarrow> ('v store \<times> nat) option" where
  "AddNodes h self tag names =
     (case AddNode h self tag of
        None \<Rightarrow> None
      | Some (h', node) \<Rightarrow> AddNodes_loop h' node names)"

text \<open>The loop of \<open>DeleteNode\<close>: the index of the first child named \<open>name\<close>.\<close>

fun first_index :: "'v store \<Rightarrow> nat list \<Rightarrow> string \<Rightarrow> nat option" where
  "first_index h [] name = None"
| "first_index h (item # items) name =
     (if Name (h ! item) = name then Some 0
      else map_option Suc (first_index h items name))"

definition DeleteNode :: "'v store \<Rightarrow> nat \<Rightarrow> string \<Rightarrow> 'v store option" where
  "DeleteNode h self name =
     (if \<not> self < length h then None
      else let downs = Downs (h ! self) in
        case first_index h downs name of
          None \<Rightarrow> Some h
        | Some i \<Rightarrow>
            (if i + 1 = length downs
             then Some (h[self := (h ! self)\<lparr>Downs := take i downs\<rparr>])
             else Some (h[self := (h ! self)\<lparr>Downs := take i downs @ drop (i + 1) downs\<rparr>])))"

datatype tree_op =
  OpAddNode nat string
| OpAddNodes nat string "string list"
| OpDeleteNode nat string

fun apply_tree_op :: "'v store \<Rightarrow> tree_op \<Rightarrow> 'v store option" where
  "apply_tree_op h (OpAddNode self name) = map_option fst (AddNode h self name)"
| "apply_tree_op h (OpAddNodes self tag names) = map_option fst (AddNodes h self tag names)"
| "apply_tree_op h (OpDeleteNode self name) = DeleteNode h self name"

fun run_tree_ops :: "'v store \<Rightarrow> tree_op list \<Rightarrow> 'v store option" where
  "run_tree_ops h [] = Some h"
| "run_tree_ops h (op # ops) =
     (case apply_tree_op h op of
        None \<Rightarrow> None
      | Some h' \<Rightarrow> run_tree_ops h' ops)"

text \<open>Every child address is allocated, and the names of a node's children are
  pairwise distinct.\<close>

definition child_names :: "'v store \<Rightarrow> nat \<Rightarrow> string list" where
  "child_names h a = map (\<lambda>c. Name (h ! c)) (Downs (h ! a))"

definition children_allocated :: "'v store \<Rightarrow> bool" where
  "children_allocated h = (\<forall>a < length h. \<forall>c \<in> set (Downs (h ! a)). c < length h)"

definition siblings_distinct :: "'v store \<Rightarrow> bool" where
  "siblings_distinct h = (\<forall>a < length h. distinct (child_names h a))"

definition tree_inv :: "'v store \<Rightarrow> bool" where
  "tree_inv h = (children_allocated h \<and> siblings_distinct h)"

text \<open>A run of the operations from a fresh root, and the store it ends in.\<close>

definition example_tree_ops :: "tree_op list" where
  "example_tree_ops =
     [OpAddNode 0 ''a'', OpAddNode 0 ''a'', OpAddNodes 0 ''b'' [''c''],
      OpAddNode 0 ''d'', OpDeleteNode 0 ''a'', OpAddNode 2 ''c'']"

definition example_tree_store :: "unit store" where
  "example_tree_store =
     [\<lparr>Name = ''var'', Data = [], Up = None, Downs = [2, 4]\<rparr>,
      \<lparr>Name = ''a'', Data = [], Up = Some 0, Downs = []\<rparr>,
      \<lparr>Name = ''b'', Data = [], Up = Some 0, Downs = [3]\<rparr>,
      \<lparr>Name = ''c'', Data = [], Up = Some 2, Downs = []\<rparr>,
      \<lparr>Name = ''d'', Data = [], Up = Some 0, Downs = []\<rparr>]"

section \<open>Tagged values, Go types and Go values\<close>

text \<open>
  A \<open>cty.Value\<close> is a tagged value. Its numbers are \<open>big.Float\<close>s; the finite ones
  are rational numbers, and the embedding keeps a number as a \<open>rat\<close> (the infinities,
  which no literal of a document denotes, are left out).
\<close>

datatype cty_type = CtyTString | CtyTNumber | CtyTBool | CtyTList cty_type | CtyTMap cty_type
  | CtyTDynamic | CtyTTuple | CtyTObject

datatype cty =
  CtyNull
| CtyString string
| CtyNumber rat
| CtyBool bool
| CtyTuple "cty list"
| CtyList cty_type "cty list"
| CtyObject "(string \<times> cty) list"
| CtyMap cty_type "(string \<times> cty) list"

fun IsNull :: "cty \<Rightarrow> bool" where
  "IsNull CtyNull = True"
| "IsNull _ = False"

fun IsObjectType :: "cty \<Rightarrow> bool" where
  "IsObjectType (CtyObject _) = True"
| "IsObjectType _ = False"

fun IsTupleType :: "cty \<Rightarrow> bool" where
  "IsTupleType (CtyTuple _) = True"
| "IsTupleType _ = False"

fun IsNumber :: "cty \<Rightarrow> bool" where
  "IsNumber (CtyNumber _) = True"
| "IsNumber _ = False"

text \<open>\<open>reflect.Type\<close> and \<open>reflect.Kind\<close>. A struct type carries its name and
  its fields in declaration order, each field being its name, its raw struct tag,
  whether it is embedded (\<open>Anonymous\<close>) and its type (\<open>reflect.StructField\<close>).\<close>

datatype int_kind = KInt | KInt8 | KInt16 | KInt32 | KInt64 | KUint | KUint8 | KUint16 | KUint32 | KUint64

datatype float_kind = KFloat32 | KFloat64

datatype gotype =
  TBool
| TInteger int_kind
| TFloat float_kind
| TString
| TInterface
| TPtr gotype
| TSlice gotype
| TArray nat gotype
| TMap gotype gotype
| TStruct string "(string \<times> string \<times> bool \<times> gotype) list"

datatype kind = Kind_Bool | Kind_Integer int_kind | Kind_Float float_kind | Kind_String | Kind_Interface
  | Kind_Pointer | Kind_Slice | Kind_Array | Kind_Map | Kind_Struct

fun Kind :: "gotype \<Rightarrow> kind" where
  "Kind TBool = Kind_Bool"
| "Kind (TInteger k) = Kind_Integer k"
| "Kind (TFloat k) = Kind_Float k"
| "Kind TString = Kind_String"
| "Kind TInterface = Kind_Interface"
| "Kind (TPtr _) = Kind_Pointer"
| "Kind (TSlice _) = Kind_Slice"
| "Kind (TArray _ _) = Kind_Array"
| "Kind (TMap _ _) = Kind_Map"
| "Kind (TStruct _ _) = Kind_Struct"

text \<open>The element type, \<open>Type.Elem()\<close>; it panics on a type that has none, which the
  callers exclude by testing the kind first.\<close>

fun Elem :: "gotype \<Rightarrow> gotype" where
  "Elem (TPtr t) = t"
| "Elem (TSlice t) = t"
| "Elem (TArray _ t) = t"
| "Elem (TMap _ t) = t"
| "Elem t = t"

text \<open>The name a type prints with under \<open>%v\<close>.\<close>

fun int_kind_name :: "int_kind \<Rightarrow> string" where
  "int_kind_name KInt = ''int''"
| "int_kind_name KInt8 = ''int8''"
| "int_kind_name KInt16 = ''int16''"
| "int_kind_name KInt32 = ''int32''"
| "int_kind_name KInt64 = ''int64''"
| "int_kind_name KUint = ''uint''"
| "int_kind_name KUint8 = ''uint8''"
| "int_kind_name KUint16 = ''uint16''"
| "int_kind_name KUint32 = ''uint32''"
| "int_kind_name KUint64 = ''uint64''"

fun type_name :: "gotype \<Rightarrow> string" where
  "type_name TBool = ''bool''"
| "type_name (TInteger k) = int_kind_name k"
| "type_name (TFloat KFloat32) = ''float32''"
| "type_name (TFloat KFloat64) = ''float64''"
| "type_name TString = ''string''"
| "type_name TInterface = ''interface {}''"
| "type_name (TPtr t) = ''*'' @ type_name t"
| "type_name (TSlice t) = ''[]'' @ type_name t"
| "type_name (TArray n t) = ''[...]'' @ type_name t"
| "type_name (TMap k t) = ''map['' @ type_name k @ '']'' @ type_name t"
| "type_name (TStruct n _) = n"

text \<open>
  Go values. An integer or a float carries its dynamic type, which is what tells an
  \<open>int\<close> from an \<open>int64\<close> inside an \<open>any\<close>. \<open>GNil\<close> is the nil interface or
  pointer; a nil slice and a nil map are values of their own, different from the empty
  slice and the empty map. A pointer is an address of the store of structs. A map is a
  list of entries with distinct keys (a key of type \<open>[2]string\<close> is an array of two
  strings); a struct is its type's name and its fields in declaration order.
\<close>

datatype gvalue =
  GNil
| GBool bool
| GString string
| GInt int_kind int
| GFloat float_kind rat
| GNilSlice
| GSlice "gvalue list"
| GArray "gvalue list"
| GNilMap
| GMap "(gvalue \<times> gvalue) list"
| GStruct string "(string \<times> gvalue) list"
| GPtr nat

type_synonym gerror = string

text \<open>The width of the platform's \<open>int\<close> and \<open>uint\<close> is 32 or 64 bits; it is a
  parameter \<open>w\<close> of everything that depends on it.\<close>

fun Bits :: "nat \<Rightarrow> int_kind \<Rightarrow> nat" where
  "Bits w KInt = w"
| "Bits w KInt8 = 8"
| "Bits w KInt16 = 16"
| "Bits w KInt32 = 32"
| "Bits w KInt64 = 64"
| "Bits w KUint = w"
| "Bits w KUint8 = 8"
| "Bits w KUint16 = 16"
| "Bits w KUint32 = 32"
| "Bits w KUint64 = 64"

fun is_signed :: "int_kind \<Rightarrow> bool" where
  "is_signed KInt = True"
| "is_signed KInt8 = True"
| "is_signed KInt16 = True"
| "is_signed KInt32 = True"
| "is_signed KInt64 = True"
| "is_signed _ = False"

definition int_min :: "nat \<Rightarrow> int_kind \<Rightarrow> int" where
  "int_min w k = (if is_signed k then - (2 ^ (Bits w k - 1)) else 0)"

definition int_max :: "nat \<Rightarrow> int_kind \<Rightarrow> int" where
  "int_max w k = (if is_signed k then 2 ^ (Bits w k - 1) - 1 else 2 ^ Bits w k - 1)"

section \<open>Format conversion (convert/convert.go)\<close>

text \<open>
  \<open>convertFormat\<close> takes the two codecs as function values. An \<open>UnmarshalFunc\<close>
  fills the object behind its pointer argument and returns an error or nil: here it
  takes the object and returns the filled object with the error. A \<open>MarshalFunc\<close>
  returns bytes (nil is \<open>None\<close>) and an error or nil. The readers and writers of JSON
  and YAML and the two entry points of \<open>dethcl\<close> are the fields of \<open>codecs\<close>: the six
  public functions are stated for any behaviour of theirs.
\<close>

type_synonym UnmarshalFunc = "string \<Rightarrow> gvalue \<Rightarrow> gvalue \<times> gerror option"

type_synonym MarshalFunc = "gvalue \<Rightarrow> string option \<times> gerror option"

definition convertFormat ::
  "string \<Rightarrow> UnmarshalFunc \<Rightarrow> MarshalFunc \<Rightarrow> string option \<times> gerror option" where
  "convertFormat raw unmarshal marshal =
     (if length raw = 0 then (None, Some ''input is empty'')
      else let obj = GMap [] in
        case unmarshal raw obj of
          (obj', Some err) \<Rightarrow> (None, Some (''failed to unmarshal input: '' @ err))
        | (obj', None) \<Rightarrow>
            (case marshal obj' of
               (result, Some err) \<Rightarrow> (None, Some (''failed to marshal output: '' @ err))
             | (result, None) \<Rightarrow> (result, None)))"

record codecs =
  json_Unmarshal :: UnmarshalFunc
  json_Marshal :: MarshalFunc
  yaml_Unmarshal :: UnmarshalFunc
  yaml_Marshal :: MarshalFunc
  dethcl_Unmarshal :: UnmarshalFunc
  dethcl_Marshal :: MarshalFunc

definition hclUnmarshal :: "codecs \<Rightarrow> UnmarshalFunc" where
  "hclUnmarshal c data v = dethcl_Unmarshal c data v"

definition JSONToYAML :: "codecs \<Rightarrow> string \<Rightarrow> string option \<times> gerror option" where
  "JSONToYAML c raw = convertFormat raw (json_Unmarshal c) (yaml_Marshal c)"

definition YAMLToJSON :: "codecs \<Rightarrow> string \<Rightarrow> string option \<times> gerror option" where
  "YAMLToJSON c raw = convertFormat raw (yaml_Unmarshal c) (json_Marshal c)"

definition JSONToHCL :: "codecs \<Rightarrow> string \<Rightarrow> string option \<times> gerror option" where
  "JSONToHCL c raw = convertFormat raw (json_Unmarshal c) (dethcl_Marshal c)"

definition HCLToJSON :: "codecs \<Rightarrow> string \<Rightarrow> string option \<times> gerror option" where
  "HCLToJSON c raw = convertFormat raw (hclUnmarshal c) (json_Marshal c)"

definition YAMLToHCL :: "codecs \<Rightarrow> string \<Rightarrow> string option \<times> gerror option" where
  "YAMLToHCL c raw = convertFormat raw (yaml_Unmarshal c) (dethcl_Marshal c)"

definition HCLToYAML :: "codecs \<Rightarrow> string \<Rightarrow> string option \<times> gerror option" where
  "HCLToYAML c raw = convertFormat raw (hclUnmarshal c) (yaml_Marshal c)"

text \<open>The six public functions, each with the unmarshal and the marshal step it is
  built from.\<close>

definition converters ::
  "codecs \<Rightarrow> ((string \<Rightarrow> string option \<times> gerror option) \<times> UnmarshalFunc \<times> MarshalFunc) list" where
  "converters c =
     [(JSONToYAML c, json_Unmarshal c, yaml_Marshal c),
      (YAMLToJSON c, yaml_Unmarshal c, json_Marshal c),
      (JSONToHCL c, json_Unmarshal c, dethcl_Marshal c),
      (HCLToJSON c, dethcl_Unmarshal c, json_Marshal c),
      (YAMLToHCL c, yaml_Unmarshal c, dethcl_Marshal c),
      (HCLToYAML c, dethcl_Unmarshal c, yaml_Marshal c)]"

text \<open>Codecs to run the functions on: the reader accepts the one document \<open>{}\<close>, and
  the writer prints a map as \<open>{}\<close>.\<close>

definition example_codecs :: codecs where
  "example_codecs =
     (let um = (\<lambda>raw obj. if raw = ''{}'' then (obj, None) else (obj, Some ''syntax error''));
          m = (\<lambda>obj. case obj of GMap _ \<Rightarrow> (Some ''{}'', None) | _ \<Rightarrow> (None, Some ''unsupported''))
      in \<lparr>json_Unmarshal = um, json_Marshal = m, yaml_Unmarshal = um, yaml_Marshal = m,
          dethcl_Unmarshal = um, dethcl_Marshal = m\<rparr>)"

section \<open>Value conversion (utils, the numeric part)\<close>

text \<open>
  \<open>math/big\<close>: the accuracy a conversion of a \<open>big.Float\<close> reports, and the three
  integer conversions the code calls, as their documentation states them. \<open>Int64\<close>
  and \<open>Uint64\<close> truncate toward zero and saturate; the accuracy is \<open>Exact\<close> for an
  integer in range, and otherwise \<open>Above\<close> or \<open>Below\<close> as the result lies above or
  below the number.
\<close>

datatype accuracy = Below | Exact | Above

definition is_integral :: "rat \<Rightarrow> bool" where
  "is_integral x = (of_int \<lfloor>x\<rfloor> = x)"

definition trunc :: "rat \<Rightarrow> int" where
  "trunc x = (if x < 0 then \<lceil>x\<rceil> else \<lfloor>x\<rfloor>)"

definition MinInt64 :: int where
  "MinInt64 = - (2 ^ 63)"

definition MaxInt64 :: int where
  "MaxInt64 = 2 ^ 63 - 1"

definition MaxUint64 :: int where
  "MaxUint64 = 2 ^ 64 - 1"

definition Float_Int64 :: "rat \<Rightarrow> int \<times> accuracy" where
  "Float_Int64 x =
     (if x < of_int MinInt64 then (MinInt64, Above)
      else if x > of_int MaxInt64 then (MaxInt64, Below)
      else if is_integral x then (trunc x, Exact)
      else if x < 0 then (trunc x, Above)
      else (trunc x, Below))"

definition Float_Uint64 :: "rat \<Rightarrow> int \<times> accuracy" where
  "Float_Uint64 x =
     (if x < 0 then (0, Above)
      else if x > of_int MaxUint64 then (MaxUint64, Below)
      else if is_integral x then (trunc x, Exact)
      else (trunc x, Below))"

definition Float_Int :: "rat \<Rightarrow> int \<times> accuracy" where
  "Float_Int x =
     (if is_integral x then (trunc x, Exact)
      else if x > 0 then (trunc x, Below)
      else (trunc x, Above))"

text \<open>
  What the repository takes from \<open>go-cty\<close> and \<open>math/big\<close> without the claims
  depending on how it is computed: the conversion between tagged types
  (\<open>convert.Convert\<close>), \<open>gocty.FromCtyValue\<close> into a target that is not a number
  kind, the accuracy \<open>big.Float.Float32\<close> reports (\<open>Exact\<close> when the number is a
  float32, \<open>Above\<close> or \<open>Below\<close> as the nearest float32 lies above or below it), the
  roundings to the nearest float64 and float32, and whether the nearest float64 is an
  infinity.
\<close>

record gocty_lib =
  convert_Convert :: "cty \<Rightarrow> cty_type \<Rightarrow> gerror + cty"
  FromCtyValue_other :: "cty \<Rightarrow> gotype \<Rightarrow> gerror + gvalue"
  Float32_accuracy :: "rat \<Rightarrow> accuracy"
  to_float64 :: "rat \<Rightarrow> rat"
  to_float32 :: "rat \<Rightarrow> rat"
  float64_IsInf :: "rat \<Rightarrow> bool"

text \<open>
  Modelled from the spec: \<open>gocty.FromCtyValue\<close> on a number, a function of the
  library \<open>github.com/zclconf/go-cty\<close>, which is not under \<open>src/\<close>. The spec calls it
  an exact, type-directed conversion that fails if the number does not fit the target's
  bit width or sign. Into an integer target it accepts a whole number between the
  least and the greatest value of the target's width and sign, and stores it; anything
  else is an error that leaves the target at its zero value. Into a float target it
  fails only when the rounding is an infinity.
\<close>

definition fromCtyNumberInt :: "nat \<Rightarrow> int_kind \<Rightarrow> rat \<Rightarrow> gerror + int" where
  "fromCtyNumberInt w k bf =
     (let (iv, acc) = Float_Int64 bf in
      if acc \<noteq> Exact \<or> iv < int_min w k \<or> iv > int_max w k
      then Inl ''value must be a whole number, between min and max''
      else Inr iv)"

definition fromCtyNumberUInt :: "nat \<Rightarrow> int_kind \<Rightarrow> rat \<Rightarrow> gerror + int" where
  "fromCtyNumberUInt w k bf =
     (let (iv, acc) = Float_Uint64 bf in
      if acc \<noteq> Exact \<or> iv > int_max w k
      then Inl ''value must be a whole number, between 0 and max inclusive''
      else Inr iv)"

definition fromCtyNumberFloat :: "gocty_lib \<Rightarrow> float_kind \<Rightarrow> rat \<Rightarrow> gerror + rat" where
  "fromCtyNumberFloat lib k bf =
     (if float64_IsInf lib bf then Inl ''value must be between min and max inclusive''
      else Inr (case k of KFloat64 \<Rightarrow> to_float64 lib bf
                        | KFloat32 \<Rightarrow> to_float32 lib (to_float64 lib bf)))"

fun FromCtyValue :: "nat \<Rightarrow> gocty_lib \<Rightarrow> cty \<Rightarrow> gotype \<Rightarrow> gerror + gvalue" where
  "FromCtyValue w lib (CtyNumber bf) (TInteger k) =
     (case (if is_signed k then fromCtyNumberInt w k bf else fromCtyNumberUInt w k bf) of
        Inl err \<Rightarrow> Inl err
      | Inr iv \<Rightarrow> Inr (GInt k iv))"
| "FromCtyValue w lib (CtyNumber bf) (TFloat k) =
     (case fromCtyNumberFloat lib k bf of
        Inl err \<Rightarrow> Inl err
      | Inr fv \<Rightarrow> Inr (GFloat k fv))"
| "FromCtyValue w lib val ty = FromCtyValue_other lib val ty"

text \<open>The conversion \<open>int(x)\<close> of an int64 to the platform's int keeps the low \<open>w\<close>
  bits.\<close>

definition to_int :: "nat \<Rightarrow> int \<Rightarrow> int" where
  "to_int w x = (x + 2 ^ (w - 1)) mod 2 ^ w - 2 ^ (w - 1)"

text \<open>\<open>CtyNumberToNative\<close>, on the number \<open>v = val.AsBigFloat()\<close>. Go returns the
  value together with the error; a failed \<open>FromCtyValue\<close> leaves \<open>x\<close> at zero.\<close>

definition CtyNumberToNative :: "nat \<Rightarrow> gocty_lib \<Rightarrow> rat \<Rightarrow> gvalue \<times> gerror option" where
  "CtyNumberToNative w lib v =
     (if snd (Float_Int64 v) = Exact \<or> snd (Float_Int64 v) = Above then
        (let (x, err) = (case fromCtyNumberInt w KInt64 v of
                           Inl e \<Rightarrow> (0, Some e) | Inr iv \<Rightarrow> (iv, None))
         in if x > 0x7FFFFFFF \<or> x < - 0x80000000 then (GInt KInt64 x, err)
            else (GInt KInt (to_int w x), err))
      else if snd (Float_Int v) = Exact \<or> snd (Float_Int v) = Above then
        (case fromCtyNumberInt w KInt v of
           Inl e \<Rightarrow> (GInt KInt 0, Some e) | Inr iv \<Rightarrow> (GInt KInt iv, None))
      else if Float32_accuracy lib v = Exact \<or> Float32_accuracy lib v = Above then
        (case fromCtyNumberFloat lib KFloat32 v of
           Inl e \<Rightarrow> (GFloat KFloat32 0, Some e) | Inr fv \<Rightarrow> (GFloat KFloat32 fv, None))
      else
        (case fromCtyNumberFloat lib KFloat64 v of
           Inl e \<Rightarrow> (GFloat KFloat64 0, Some e) | Inr fv \<Rightarrow> (GFloat KFloat64 fv, None)))"

text \<open>The zero value of a type, \<open>reflect.Zero\<close>.\<close>

fun Zero :: "gotype \<Rightarrow> gvalue" where
  "Zero TBool = GBool False"
| "Zero (TInteger k) = GInt k 0"
| "Zero (TFloat k) = GFloat k 0"
| "Zero TString = GString []"
| "Zero TInterface = GNil"
| "Zero (TPtr _) = GNil"
| "Zero (TSlice _) = GNilSlice"
| "Zero (TArray n t) = GArray (replicate n (Zero t))"
| "Zero (TMap _ _) = GNilMap"
| "Zero (TStruct name fs) = GStruct name (map (\<lambda>(fname, tag, anon, t). (fname, Zero t)) fs)"

definition ConvertCtyToFieldType ::
  "nat \<Rightarrow> gocty_lib \<Rightarrow> cty \<Rightarrow> gotype \<Rightarrow> gvalue \<times> gerror option" where
  "ConvertCtyToFieldType w lib ctyVal targetType =
     (if IsNull ctyVal then (Zero targetType, None)
      else
        let v1 = (if Kind targetType = Kind_String \<and> IsNumber ctyVal
                  then (case convert_Convert lib ctyVal CtyTString of
                          Inr convertedVal \<Rightarrow> convertedVal | Inl err \<Rightarrow> ctyVal)
                  else ctyVal);
            v2 = (if Kind targetType = Kind_Map \<and> IsObjectType v1
                  then (let elemType = Elem targetType;
                            targetCtyElemType =
                              (if Kind elemType = Kind_String then CtyTString
                               else if Kind elemType = Kind_Slice \<and> Kind (Elem elemType) = Kind_String
                               then CtyTList CtyTString
                               else CtyTDynamic)
                        in case convert_Convert lib v1 (CtyTMap targetCtyElemType) of
                             Inr convertedVal \<Rightarrow> convertedVal | Inl err \<Rightarrow> v1)
                  else v1);
            v3 = (if Kind targetType = Kind_Slice \<and> IsTupleType v2
                  then (let elemType = Elem targetType;
                            listType = (if Kind elemType = Kind_String then CtyTList CtyTString
                                        else CtyTList CtyTDynamic)
                        in case convert_Convert lib v2 listType of
                             Inr convertedVal \<Rightarrow> convertedVal | Inl err \<Rightarrow> v2)
                  else v2)
        in case FromCtyValue w lib v3 targetType of
             Inl err \<Rightarrow>
               (GNil, Some (''failed to convert cty.Value to '' @ type_name targetType @ '': '' @ err))
           | Inr x \<Rightarrow> (x, None))"

text \<open>A number fits an integer kind when it is whole and lies between the least and the
  greatest value of the kind.\<close>

definition fits :: "nat \<Rightarrow> int_kind \<Rightarrow> rat \<Rightarrow> bool" where
  "fits w k x = (is_integral x \<and> int_min w k \<le> \<lfloor>x\<rfloor> \<and> \<lfloor>x\<rfloor> \<le> int_max w k)"

text \<open>A library instance to run the functions on: it converts nothing beyond numbers,
  rounds to the number itself, and reports the accuracy \<open>Above\<close> for \<open>1/10\<close> (whose
  nearest float32 is greater) and \<open>Exact\<close> elsewhere.\<close>

definition example_lib :: gocty_lib where
  "example_lib =
     \<lparr>convert_Convert = (\<lambda>v t. Inl ''unsupported''),
      FromCtyValue_other = (\<lambda>v t. Inl ''unsupported''),
      Float32_accuracy = (\<lambda>x. if x = 1 / 10 then Above else Exact),
      to_float64 = (\<lambda>x. x),
      to_float32 = (\<lambda>x. x),
      float64_IsInf = (\<lambda>x. False)\<rparr>"

text \<open>A library instance with three answers of IEEE 754 arithmetic about numbers that
  are not whole: \<open>1/2\<close> is a float32; the float32 nearest to \<open>7/10\<close> is smaller than
  \<open>7/10\<close>, and the float64 nearest to it is \<open>3152519739159347 / 2^52\<close>; the float32
  nearest to \<open>1/10\<close> is \<open>13421773 / 2^27\<close>, which is greater than \<open>1/10\<close>. No
  rounding is an infinity.\<close>

definition float_lib :: gocty_lib where
  "float_lib =
     \<lparr>convert_Convert = (\<lambda>v t. Inl ''unsupported''),
      FromCtyValue_other = (\<lambda>v t. Inl ''unsupported''),
      Float32_accuracy = (\<lambda>x. if x = 7 / 10 then Below else if x = 1 / 10 then Above else Exact),
      to_float64 = (\<lambda>x. if x = 7 / 10 then 3152519739159347 / 4503599627370496 else x),
      to_float32 = (\<lambda>x. if x = 1 / 10 then 13421773 / 134217728 else x),
      float64_IsInf = (\<lambda>x. False)\<rparr>"

section \<open>Struct tags, the store of structs and field access (dethcl)\<close>

type_synonym StructField = "string \<times> string \<times> bool \<times> gotype"

definition field_Name :: "StructField \<Rightarrow> string" where
  "field_Name f = fst f"

definition field_Tag :: "StructField \<Rightarrow> string" where
  "field_Tag f = fst (snd f)"

definition field_Anonymous :: "StructField \<Rightarrow> bool" where
  "field_Anonymous f = fst (snd (snd f))"

definition field_Type :: "StructField \<Rightarrow> gotype" where
  "field_Type f = snd (snd (snd f))"

text \<open>\<open>strings.Fields\<close>, \<open>strings.ToLower\<close> on ASCII, and \<open>strings.SplitN(s, ",", 2)\<close>.\<close>

definition isSpace :: "char \<Rightarrow> bool" where
  "isSpace c = (c \<in> set [CHR '' '', CHR 0x09, CHR 0x0A, CHR 0x0B, CHR 0x0C, CHR 0x0D])"

fun strings_Fields_acc :: "string \<Rightarrow> string \<Rightarrow> string list" where
  "strings_Fields_acc [] cur = (if cur = [] then [] else [cur])"
| "strings_Fields_acc (c # cs) cur =
     (if isSpace c then (if cur = [] then strings_Fields_acc cs [] else cur # strings_Fields_acc cs [])
      else strings_Fields_acc cs (cur @ [c]))"

definition strings_Fields :: "string \<Rightarrow> string list" where
  "strings_Fields s = strings_Fields_acc s []"

definition lower_char :: "char \<Rightarrow> char" where
  "lower_char c =
     (if (65::nat) \<le> of_char c \<and> of_char c \<le> (90::nat) then char_of (of_char c + (32::nat)) else c)"

definition strings_ToLower :: "string \<Rightarrow> string" where
  "strings_ToLower s = map lower_char s"

fun strings_SplitN2 :: "string \<Rightarrow> string \<Rightarrow> string list" where
  "strings_SplitN2 [] cur = [cur]"
| "strings_SplitN2 (c # cs) cur =
     (if c = CHR '','' then [cur, cs] else strings_SplitN2 cs (cur @ [c]))"

definition tagPrefixHCL :: string where
  "tagPrefixHCL = ''hcl:'' @ [CHR 0x22]"

definition tagPrefixHCLLength :: nat where
  "tagPrefixHCLLength = 5"

definition tagModifierLabel :: string where
  "tagModifierLabel = ''label''"

definition tagIgnore :: string where
  "tagIgnore = ''-''"

definition tagIgnoreSuffix :: string where
  "tagIgnoreSuffix = '',-''"

text \<open>\<open>parseHCLTag\<close>: the name and the modifier of the first \<open>hcl:"..."\<close> entry of a
  struct tag. The slice \<open>tagStr[5 : len(tagStr)-1]\<close> drops the prefix and the closing
  quote (on the five characters \<open>hcl:"\<close> alone the source panics; here the slice is
  empty).\<close>

fun parseHCLTag_loop :: "string list \<Rightarrow> string \<times> string" where
  "parseHCLTag_loop [] = ([], [])"
| "parseHCLTag_loop (tagStr # rest) =
     (if length tagStr \<ge> tagPrefixHCLLength
         \<and> strings_ToLower (take tagPrefixHCLLength tagStr) = tagPrefixHCL
      then (let tagStr' = take (length tagStr - 1 - tagPrefixHCLLength) (drop tagPrefixHCLLength tagStr);
                parts = strings_SplitN2 tagStr' []
            in if length parts = 2 then (parts ! 0, parts ! 1) else (parts ! 0, []))
      else parseHCLTag_loop rest)"

definition parseHCLTag :: "string \<Rightarrow> string \<times> string" where
  "parseHCLTag tag = parseHCLTag_loop (strings_Fields tag)"

text \<open>A struct tag \<open>hcl:"s"\<close>, to write examples with.\<close>

definition hcl_tag :: "string \<Rightarrow> string" where
  "hcl_tag s = ''hcl:'' @ [CHR 0x22] @ s @ [CHR 0x22]"

text \<open>
  What a function that returns an \<open>error\<close> does: it returns nil, returns an error, or
  panics. The store of structs is a list of cells, the address of a cell being its
  index; a cell holds the struct's type and its value.
\<close>

datatype outcome = Done | Failed gerror | Panicked string

type_synonym heap = "(gotype \<times> gvalue) list"

fun struct_fields :: "gotype \<Rightarrow> StructField list" where
  "struct_fields (TStruct name fs) = fs"
| "struct_fields _ = []"

fun lookup :: "('k \<times> 'v) list \<Rightarrow> 'k \<Rightarrow> 'v option" where
  "lookup [] k = None"
| "lookup ((k', v) # kvs) k = (if k' = k then Some v else lookup kvs k)"

fun put :: "'k \<Rightarrow> 'v \<Rightarrow> ('k \<times> 'v) list \<Rightarrow> ('k \<times> 'v) list" where
  "put k v [] = [(k, v)]"
| "put k v ((k', v') # kvs) = (if k' = k then (k, v) # kvs else (k', v') # put k v kvs)"

text \<open>\<open>Value.FieldByName\<close> on a struct value: the field of that name among the
  struct's own fields, or else among the fields of its embedded structs, in
  declaration order. The result is the path of field names that leads to it.\<close>

fun FieldByName_path :: "StructField list \<Rightarrow> string \<Rightarrow> string list option"
  and FieldByName_embedded :: "StructField list \<Rightarrow> string \<Rightarrow> string list option" where
  "FieldByName_path fs name =
     (if name \<in> set (map fst fs) then Some [name] else FieldByName_embedded fs name)"
| "FieldByName_embedded [] name = None"
| "FieldByName_embedded ((fname, tag, anon, t) # fs) name =
     (case (if anon then (case t of TStruct n fs' \<Rightarrow> FieldByName_path fs' name | _ \<Rightarrow> None) else None) of
        Some p \<Rightarrow> Some (fname # p)
      | None \<Rightarrow> FieldByName_embedded fs name)"

fun get_path :: "gvalue \<Rightarrow> string list \<Rightarrow> gvalue option" where
  "get_path v [] = Some v"
| "get_path (GStruct n fvs) (name # p) =
     (case lookup fvs name of None \<Rightarrow> None | Some v \<Rightarrow> get_path v p)"
| "get_path _ (name # p) = None"

fun set_path :: "gvalue \<Rightarrow> string list \<Rightarrow> gvalue \<Rightarrow> gvalue option" where
  "set_path v [] x = Some x"
| "set_path (GStruct n fvs) (name # p) x =
     (case lookup fvs name of
        None \<Rightarrow> None
      | Some v \<Rightarrow> (case set_path v p x of
                    None \<Rightarrow> None
                  | Some v' \<Rightarrow> Some (GStruct n (put name v' fvs))))"
| "set_path _ (name # p) x = None"

text \<open>Reading and writing the field \<open>name\<close> of the struct behind a pointer
  (\<open>oriTobe.Elem().FieldByName(name)\<close> and \<open>f.Set(x)\<close>). A nil or dangling pointer
  and a field that does not exist have no value.\<close>

definition get_field :: "heap \<Rightarrow> nat \<Rightarrow> string \<Rightarrow> gvalue option" where
  "get_field h a name =
     (if \<not> a < length h then None
      else case FieldByName_path (struct_fields (fst (h ! a))) name of
        None \<Rightarrow> None
      | Some p \<Rightarrow> get_path (snd (h ! a)) p)"

definition set_field :: "heap \<Rightarrow> nat \<Rightarrow> string \<Rightarrow> gvalue \<Rightarrow> heap option" where
  "set_field h a name x =
     (if \<not> a < length h then None
      else case FieldByName_path (struct_fields (fst (h ! a))) name of
        None \<Rightarrow> None
      | Some p \<Rightarrow> (case set_path (snd (h ! a)) p x of
                    None \<Rightarrow> None
                  | Some v' \<Rightarrow> Some (h[a := (fst (h ! a), v')])))"

text \<open>\<open>Value.String()\<close>: the string of a string value, and a description in angle
  brackets of any other value.\<close>

fun Value_String :: "gvalue \<Rightarrow> string" where
  "Value_String (GString s) = s"
| "Value_String _ = ''<Value>''"

fun is_string :: "gvalue \<Rightarrow> bool" where
  "is_string (GString s) = True"
| "is_string _ = False"

section \<open>The syntax tree of a document and the evaluation of expressions\<close>

text \<open>
  The parser of the block syntax is outside the repository: a document reaches the
  code as an \<open>hclsyntax.Body\<close>, its attributes (a Go map: the names are distinct, the
  order is that of the iteration) and its blocks in source order. The bytes between the
  braces of a block, which the decoder parses again, are the block's body. For an
  attribute written with an equals sign and braces, the decoder also cuts the bytes of
  the value at every match of the pattern \<open>{[^}]+}\<close> and parses what is between the
  braces of each match as a body: the third component of a body gives, per attribute
  name, the bodies these pieces parse to (\<open>None\<close> for a piece with a syntax error).
\<close>

datatype expr =
  LiteralValueExpr cty
| TupleConsExpr "expr list"
| ObjectConsExpr "ObjectConsItem list"
| FunctionCallExpr string "expr list"
| ScopeTraversalExpr "string list"
| OtherExpr nat
and ObjectConsItem = ObjectConsItem expr expr

datatype body = Body "(string \<times> expr) list" "block list" "(string \<times> body option list) list"
  and block = Block string "string list" body

fun Attributes :: "body \<Rightarrow> (string \<times> expr) list" where
  "Attributes (Body attrs blocks frags) = attrs"

fun Blocks :: "body \<Rightarrow> block list" where
  "Blocks (Body attrs blocks frags) = blocks"

fun Fragments :: "body \<Rightarrow> (string \<times> body option list) list" where
  "Fragments (Body attrs blocks frags) = frags"

fun block_Type :: "block \<Rightarrow> string" where
  "block_Type (Block t labels b) = t"

fun block_Labels :: "block \<Rightarrow> string list" where
  "block_Labels (Block t labels b) = labels"

fun block_Body :: "block \<Rightarrow> body" where
  "block_Body (Block t labels b) = b"

text \<open>
  \<open>Expression.Value(ctx)\<close> belongs to the parser's library. A literal evaluates to
  its value; every other expression is handed to the library's evaluator, a parameter
  \<open>ev\<close>. The context holds what the code puts into \<open>hcl.EvalContext\<close>: whether a
  table of functions is present, and the scope tree the variables are read from.
\<close>

record EvalContext =
  ctx_Variables :: "(cty store \<times> nat) option"
  ctx_Functions :: bool

type_synonym evaluator = "EvalContext option \<Rightarrow> expr \<Rightarrow> gerror + cty"

fun expr_Value :: "evaluator \<Rightarrow> EvalContext option \<Rightarrow> expr \<Rightarrow> gerror + cty" where
  "expr_Value ev ctx (LiteralValueExpr v) = Inr v"
| "expr_Value ev ctx e = ev ctx e"

text \<open>An evaluator to run examples with: it knows no variable and no function.\<close>

definition no_evaluator :: evaluator where
  "no_evaluator ctx e = Inl ''unsupported expression''"

section \<open>Shape specification, type registry and the state of a decode call\<close>

text \<open>
  The shape specification (\<open>utils.Struct\<close> and \<open>utils.Value\<close>): a class name with,
  per field, a single class, a list of classes, a map from one label to a class, or a
  map from two labels to a class. The Go maps are lists of entries with distinct keys.
\<close>

datatype Struct = Struct string "(string \<times> Value) list"
  and Value =
    SingleStruct Struct
  | ListStruct "Struct list"
  | MapStruct "(string \<times> Struct) list"
  | Map2Struct "(string \<times> (string \<times> Struct) list) list"

fun ClassName :: "Struct \<Rightarrow> string" where
  "ClassName (Struct className fs) = className"

fun GetFields :: "Struct \<Rightarrow> (string \<times> Value) list" where
  "GetFields (Struct className fs) = fs"

text \<open>\<open>NewStruct\<close> with no field specifications, and the three calls of \<open>NewValue\<close>
  the decoder makes: on a class name, on a one-element list of class names, and on
  the map \<open>{{"", ""}: typeName}\<close>. An empty class name is an error.\<close>

definition NewStruct :: "string \<Rightarrow> gerror + Struct" where
  "NewStruct className =
     (if className = [] then Inl ''className cannot be empty'' else Inr (Struct className []))"

definition NewValue_string :: "string \<Rightarrow> gerror + Value" where
  "NewValue_string className =
     (case NewStruct className of
        Inl err \<Rightarrow> Inl (''failed to create SingleStruct: '' @ err)
      | Inr s \<Rightarrow> Inr (SingleStruct s))"

definition NewValue_strings1 :: "string \<Rightarrow> gerror + Value" where
  "NewValue_strings1 className =
     (case NewStruct className of
        Inl err \<Rightarrow> Inl (''failed to create ListStruct: invalid specification at index 0: '' @ err)
      | Inr s \<Rightarrow> Inr (ListStruct [s]))"

definition NewValue_map2 :: "string \<Rightarrow> gerror + Value" where
  "NewValue_map2 className =
     (case NewStruct className of
        Inl err \<Rightarrow> Inl (''failed to create Map2Struct: invalid specification for first-level key : ''
                       @ ''invalid specification for key : '' @ err)
      | Inr s \<Rightarrow> Inr (Map2Struct [([], [([], s)])]))"

text \<open>
  The registry \<open>ref\<close> is a Go map the caller shares with the decoder: class names to
  pointers to prototype instances, and the two entries \<open>ATTRIBUTES\<close> (the root of the
  scope tree) and \<open>FUNCTIONS\<close>, which \<open>NewTreeCtyFunction\<close> puts there. It is part of
  the state, since the decoder writes the struct types it discovers into it; \<open>None\<close>
  is the nil map. The state of a decode call is the scope tree, the store of structs
  and the registry.
\<close>

record ref_map =
  classes :: "(string \<times> nat) list"
  ATTRIBUTES :: "nat option"
  FUNCTIONS :: bool

record dstate =
  trees :: "cty store"
  heap :: heap
  ref :: "ref_map option"

text \<open>A result that is a value, a returned error, or a panic.\<close>

datatype 'a res = Ok 'a | Err gerror | Panic string

definition ref_lookup :: "dstate \<Rightarrow> string \<Rightarrow> nat option" where
  "ref_lookup st className =
     (case ref st of None \<Rightarrow> None | Some r \<Rightarrow> lookup (classes r) className)"

text \<open>\<open>ref[typeName] = reflect.New(t).Interface()\<close>: a new zero value of \<open>t\<close> is
  allocated and its address registered; on the nil map the assignment panics.\<close>

definition register_type :: "dstate \<Rightarrow> string \<Rightarrow> gotype \<Rightarrow> dstate option" where
  "register_type st typeName t =
     (case ref st of
        None \<Rightarrow> None
      | Some r \<Rightarrow>
          Some (st\<lparr>heap := heap st @ [(t, Zero t)],
                   ref := Some (r\<lparr>classes := put typeName (length (heap st)) (classes r)\<rparr>)\<rparr>))"

text \<open>\<open>Tree.AddItem\<close>, \<open>Data.Load\<close> and \<open>Tree.GetNode\<close> on the store of tree nodes.\<close>

definition AddItem :: "'v store \<Rightarrow> nat \<Rightarrow> string \<Rightarrow> 'v \<Rightarrow> 'v store option" where
  "AddItem h self k v =
     (if \<not> self < length h then None
      else Some (h[self := (h ! self)\<lparr>Data := put k v (Data (h ! self))\<rparr>]))"

definition Data_Load :: "'v store \<Rightarrow> nat \<Rightarrow> string \<Rightarrow> 'v option" where
  "Data_Load h self k = (if \<not> self < length h then None else lookup (Data (h ! self)) k)"

fun GetNode_loop :: "'v store \<Rightarrow> nat \<Rightarrow> string list \<Rightarrow> nat option" where
  "GetNode_loop h down [] = Some down"
| "GetNode_loop h down (name # names) =
     (case findNodeByName h (Downs (h ! down)) name of
        None \<Rightarrow> None
      | Some next \<Rightarrow> GetNode_loop h next names)"

definition GetNode :: "'v store \<Rightarrow> nat \<Rightarrow> string \<Rightarrow> string list \<Rightarrow> nat option" where
  "GetNode h self tag names =
     (if tag = [] then Some self
      else case findNodeByName h (Downs (h ! self)) tag of
        None \<Rightarrow> None
      | Some down \<Rightarrow> GetNode_loop h down names)"

text \<open>
  \<open>clone\<close>, in its two forms. In \<open>dethcl/util.go\<close> it allocates a new struct of the
  prototype's type and copies every settable field, that is every exported field, from
  the prototype. In the other form it allocates the zero value of the prototype's
  type. Both return the new address; the argument is a pointer into the store.
\<close>

definition IsUpper :: "char \<Rightarrow> bool" where
  "IsUpper c = ((65::nat) \<le> of_char c \<and> of_char c \<le> (90::nat))"

definition exported :: "string \<Rightarrow> bool" where
  "exported name = (case name of [] \<Rightarrow> False | c # cs \<Rightarrow> IsUpper c)"

fun copy_fields :: "(string \<times> gvalue) list \<Rightarrow> (string \<times> gvalue) list \<Rightarrow> (string \<times> gvalue) list" where
  "copy_fields [] olds = []"
| "copy_fields ((name, zero) # news) olds =
     (name, (if exported name then (case lookup olds name of Some v \<Rightarrow> v | None \<Rightarrow> zero) else zero))
       # copy_fields news olds"

definition clone_copy :: "heap \<Rightarrow> nat \<Rightarrow> (heap \<times> nat) option" where
  "clone_copy h old =
     (if \<not> old < length h then None
      else case (Zero (fst (h ! old)), snd (h ! old)) of
        (GStruct n news, GStruct n' olds) \<Rightarrow>
          Some (h @ [(fst (h ! old), GStruct n (copy_fields news olds))], length h)
      | _ \<Rightarrow> None)"

definition clone_zero :: "heap \<Rightarrow> nat \<Rightarrow> (heap \<times> nat) option" where
  "clone_zero h old =
     (if \<not> old < length h then None
      else Some (h @ [(fst (h ! old), Zero (fst (h ! old)))], length h))"

section \<open>Evaluation of attributes and decoding into generic maps and slices\<close>

text \<open>\<open>CtyToExpression\<close>: the expression an evaluated value is put back as.\<close>

fun CtyToExpression :: "cty \<Rightarrow> expr" where
  "CtyToExpression (CtyList t items) =
     (if t = CtyTString \<or> t = CtyTNumber \<or> t = CtyTBool
      then TupleConsExpr (map LiteralValueExpr items)
      else LiteralValueExpr (CtyList t items))"
| "CtyToExpression (CtyMap t items) =
     (if t = CtyTString \<or> t = CtyTNumber \<or> t = CtyTBool
      then ObjectConsExpr (map (\<lambda>(k, item). ObjectConsItem (LiteralValueExpr (CtyString k)) (LiteralValueExpr item)) items)
      else LiteralValueExpr (CtyMap t items))"
| "CtyToExpression cv = LiteralValueExpr cv"

text \<open>
  \<open>ExpressionToCty\<close>. Tuples and objects are evaluated element by element; a call of
  \<open>null\<close> is the null value when the registry carries a table of functions; every other
  expression is evaluated by \<open>Value\<close> in a context made from the registry. The key of
  an object item must evaluate to a string (\<open>AsString\<close> panics otherwise); a later item
  with the same key replaces an earlier one.
\<close>

fun ExpressionToCty :: "evaluator \<Rightarrow> EvalContext \<Rightarrow> expr \<Rightarrow> cty res"
  and ExpressionToCty_list :: "evaluator \<Rightarrow> EvalContext \<Rightarrow> expr list \<Rightarrow> cty list res"
  and ExpressionToCty_items ::
    "evaluator \<Rightarrow> EvalContext \<Rightarrow> ObjectConsItem list \<Rightarrow> (string \<times> cty) list \<Rightarrow> (string \<times> cty) list res" where
  "ExpressionToCty ev ctx (TupleConsExpr es) =
     (case ExpressionToCty_list ev ctx es of
        Ok u \<Rightarrow> Ok (CtyTuple u) | Err e \<Rightarrow> Err e | Panic p \<Rightarrow> Panic p)"
| "ExpressionToCty ev ctx (ObjectConsExpr items) =
     (case ExpressionToCty_items ev ctx items [] of
        Ok u \<Rightarrow> Ok (CtyObject u) | Err e \<Rightarrow> Err e | Panic p \<Rightarrow> Panic p)"
| "ExpressionToCty ev ctx (FunctionCallExpr name args) =
     (if ctx_Functions ctx \<and> name = ''null'' then Ok CtyNull
      else case expr_Value ev (Some ctx) (FunctionCallExpr name args) of
        Inl diags \<Rightarrow> Err diags | Inr cv \<Rightarrow> Ok cv)"
| "ExpressionToCty ev ctx (LiteralValueExpr v) =
     (case expr_Value ev (Some ctx) (LiteralValueExpr v) of Inl diags \<Rightarrow> Err diags | Inr cv \<Rightarrow> Ok cv)"
| "ExpressionToCty ev ctx (ScopeTraversalExpr t) =
     (case expr_Value ev (Some ctx) (ScopeTraversalExpr t) of Inl diags \<Rightarrow> Err diags | Inr cv \<Rightarrow> Ok cv)"
| "ExpressionToCty ev ctx (OtherExpr n) =
     (case expr_Value ev (Some ctx) (OtherExpr n) of Inl diags \<Rightarrow> Err diags | Inr cv \<Rightarrow> Ok cv)"
| "ExpressionToCty_list ev ctx [] = Ok []"
| "ExpressionToCty_list ev ctx (item # rest) =
     (case ExpressionToCty ev ctx item of
        Err e \<Rightarrow> Err e
      | Panic p \<Rightarrow> Panic p
      | Ok cv \<Rightarrow> (case ExpressionToCty_list ev ctx rest of
                    Ok u \<Rightarrow> Ok (cv # u) | Err e \<Rightarrow> Err e | Panic p \<Rightarrow> Panic p))"
| "ExpressionToCty_items ev ctx [] u = Ok u"
| "ExpressionToCty_items ev ctx (ObjectConsItem keyExpr valueExpr # rest) u =
     (case ExpressionToCty ev ctx keyExpr of
        Err e \<Rightarrow> Err e
      | Panic p \<Rightarrow> Panic p
      | Ok key \<Rightarrow>
          (case ExpressionToCty ev ctx valueExpr of
             Err e \<Rightarrow> Err e
           | Panic p \<Rightarrow> Panic p
           | Ok val \<Rightarrow>
               (case key of
                  CtyString k \<Rightarrow> ExpressionToCty_items ev ctx rest (put k val u)
                | _ \<Rightarrow> Panic ''cty: AsString'')))"

text \<open>The context \<open>ExpressionToCty\<close> builds from the registry: the variables are those
  of the scope tree under \<open>ref[ATTRIBUTES]\<close>, the functions those of \<open>ref[FUNCTIONS]\<close>.\<close>

definition make_ctx :: "dstate \<Rightarrow> EvalContext" where
  "make_ctx st =
     (case ref st of
        None \<Rightarrow> \<lparr>ctx_Variables = None, ctx_Functions = False\<rparr>
      | Some r \<Rightarrow>
          \<lparr>ctx_Variables = (case ATTRIBUTES r of None \<Rightarrow> None | Some a \<Rightarrow> Some (trees st, a)),
           ctx_Functions = FUNCTIONS r\<rparr>)"

text \<open>The context of a call that passes \<open>nil\<close> for the registry.\<close>

definition nil_ref_ctx :: EvalContext where
  "nil_ref_ctx = \<lparr>ctx_Variables = None, ctx_Functions = False\<rparr>"

text \<open>\<open>CtyToNative\<close>: entries and elements whose native value is nil are dropped; a
  map or a slice that keeps nothing is the nil map or the nil slice.\<close>

fun CtyToNative :: "nat \<Rightarrow> gocty_lib \<Rightarrow> cty \<Rightarrow> gvalue res"
  and CtyToNative_map :: "nat \<Rightarrow> gocty_lib \<Rightarrow> (string \<times> cty) list \<Rightarrow> (gvalue \<times> gvalue) list res"
  and CtyToNative_slice :: "nat \<Rightarrow> gocty_lib \<Rightarrow> cty list \<Rightarrow> gvalue list res" where
  "CtyToNative w lib CtyNull = Ok GNil"
| "CtyToNative w lib (CtyString s) = Ok (GString s)"
| "CtyToNative w lib (CtyNumber n) =
     (case CtyNumberToNative w lib n of (x, None) \<Rightarrow> Ok x | (x, Some err) \<Rightarrow> Err err)"
| "CtyToNative w lib (CtyBool b) = Ok (GBool b)"
| "CtyToNative w lib (CtyObject kvs) =
     (case CtyToNative_map w lib kvs of
        Ok u \<Rightarrow> Ok (if u = [] then GNilMap else GMap u) | Err e \<Rightarrow> Err e | Panic p \<Rightarrow> Panic p)"
| "CtyToNative w lib (CtyMap t kvs) =
     (case CtyToNative_map w lib kvs of
        Ok u \<Rightarrow> Ok (if u = [] then GNilMap else GMap u) | Err e \<Rightarrow> Err e | Panic p \<Rightarrow> Panic p)"
| "CtyToNative w lib (CtyTuple vs) =
     (case CtyToNative_slice w lib vs of
        Ok u \<Rightarrow> Ok (if u = [] then GNilSlice else GSlice u) | Err e \<Rightarrow> Err e | Panic p \<Rightarrow> Panic p)"
| "CtyToNative w lib (CtyList t vs) =
     (case CtyToNative_slice w lib vs of
        Ok u \<Rightarrow> Ok (if u = [] then GNilSlice else GSlice u) | Err e \<Rightarrow> Err e | Panic p \<Rightarrow> Panic p)"
| "CtyToNative_map w lib [] = Ok []"
| "CtyToNative_map w lib ((k, v) # kvs) =
     (case CtyToNative w lib v of
        Err e \<Rightarrow> Err e
      | Panic p \<Rightarrow> Panic p
      | Ok x \<Rightarrow>
          (case CtyToNative_map w lib kvs of
             Err e \<Rightarrow> Err e
           | Panic p \<Rightarrow> Panic p
           | Ok u \<Rightarrow> Ok (if x = GNil then u else (GString k, x) # u)))"
| "CtyToNative_slice w lib [] = Ok []"
| "CtyToNative_slice w lib (v # vs) =
     (case CtyToNative w lib v of
        Err e \<Rightarrow> Err e
      | Panic p \<Rightarrow> Panic p
      | Ok x \<Rightarrow>
          (case CtyToNative_slice w lib vs of
             Err e \<Rightarrow> Err e
           | Panic p \<Rightarrow> Panic p
           | Ok u \<Rightarrow> Ok (if x = GNil then u else x # u)))"

text \<open>
  The parameters of a decode call that come from outside the repository or that the
  caller chooses: the width of the platform's int, the conversion library, the
  evaluator of expressions, which of the two forms of \<open>clone\<close> is linked, and the
  types that implement \<open>Unmarshaler\<close>, each with its method \<open>UnmarshalHCL\<close> as a
  function of what the bytes parse to, of the labels and of the receiver.
\<close>

record config =
  cfg_w :: nat
  cfg_lib :: gocty_lib
  cfg_ev :: evaluator
  cfg_clone :: "heap \<Rightarrow> nat \<Rightarrow> (heap \<times> nat) option"
  cfg_Unmarshaler :: "gotype \<Rightarrow> ((gerror + body) \<Rightarrow> string list \<Rightarrow> gvalue \<Rightarrow> outcome \<times> gvalue) option"

text \<open>
  \<open>expressionToNative\<close>, \<open>decodeSlice\<close> and \<open>decodeObjectConsExpr\<close> of
  \<open>dethcl/mapslice.go\<close>. A tuple and an object are decoded from their own bytes, that is
  from their elements and items; a call of \<open>null\<close> gives nil with no error; anything
  else is evaluated and converted with \<open>CtyToNative\<close>. These functions also record
  every evaluated value in the scope tree, where only the evaluation of variable
  references reads it: the embedding leaves those writes out and evaluates in the
  context \<open>ctx\<close> of the call.
\<close>

fun expressionToNative :: "config \<Rightarrow> EvalContext \<Rightarrow> expr \<Rightarrow> gvalue res"
  and decodeSlice_loop :: "config \<Rightarrow> EvalContext \<Rightarrow> expr list \<Rightarrow> gvalue list res"
  and decodeObject_loop ::
    "config \<Rightarrow> EvalContext \<Rightarrow> ObjectConsItem list \<Rightarrow> (gvalue \<times> gvalue) list
       \<Rightarrow> (gvalue \<times> gvalue) list res" where
  "expressionToNative c ctx (TupleConsExpr es) =
     (case decodeSlice_loop c ctx es of
        Ok object \<Rightarrow> Ok (if object = [] then GNilSlice else GSlice object)
      | Err e \<Rightarrow> Err e | Panic p \<Rightarrow> Panic p)"
| "expressionToNative c ctx (ObjectConsExpr items) =
     (case decodeObject_loop c ctx items [] of
        Ok object \<Rightarrow> Ok (GMap object) | Err e \<Rightarrow> Err e | Panic p \<Rightarrow> Panic p)"
| "expressionToNative c ctx (FunctionCallExpr name args) =
     (if name = ''null'' then Ok GNil
      else case ExpressionToCty (cfg_ev c) ctx (FunctionCallExpr name args) of
        Ok ctyValue \<Rightarrow> CtyToNative (cfg_w c) (cfg_lib c) ctyValue
      | Err e \<Rightarrow> Err e | Panic p \<Rightarrow> Panic p)"
| "expressionToNative c ctx (LiteralValueExpr v) =
     (case ExpressionToCty (cfg_ev c) ctx (LiteralValueExpr v) of
        Ok ctyValue \<Rightarrow> CtyToNative (cfg_w c) (cfg_lib c) ctyValue
      | Err e \<Rightarrow> Err e | Panic p \<Rightarrow> Panic p)"
| "expressionToNative c ctx (ScopeTraversalExpr t) =
     (case ExpressionToCty (cfg_ev c) ctx (ScopeTraversalExpr t) of
        Ok ctyValue \<Rightarrow> CtyToNative (cfg_w c) (cfg_lib c) ctyValue
      | Err e \<Rightarrow> Err e | Panic p \<Rightarrow> Panic p)"
| "expressionToNative c ctx (OtherExpr n) =
     (case ExpressionToCty (cfg_ev c) ctx (OtherExpr n) of
        Ok ctyValue \<Rightarrow> CtyToNative (cfg_w c) (cfg_lib c) ctyValue
      | Err e \<Rightarrow> Err e | Panic p \<Rightarrow> Panic p)"
| "decodeSlice_loop c ctx [] = Ok []"
| "decodeSlice_loop c ctx (item # rest) =
     (case expressionToNative c ctx item of
        Err e \<Rightarrow> Err e
      | Panic p \<Rightarrow> Panic p
      | Ok v \<Rightarrow> (case decodeSlice_loop c ctx rest of
                   Ok object \<Rightarrow> Ok (v # object) | Err e \<Rightarrow> Err e | Panic p \<Rightarrow> Panic p))"
| "decodeObject_loop c ctx [] object = Ok object"
| "decodeObject_loop c ctx (ObjectConsItem keyExpr valueExpr # rest) object =
     (case expr_Value (cfg_ev c) None keyExpr of
        Inl diags \<Rightarrow> Err diags
      | Inr (CtyString key) \<Rightarrow>
          (case expressionToNative c ctx valueExpr of
             Err e \<Rightarrow> Err e
           | Panic p \<Rightarrow> Panic p
           | Ok v \<Rightarrow> decodeObject_loop c ctx rest (put (GString key) v object))
      | Inr _ \<Rightarrow> Panic ''cty: AsString'')"

section \<open>Decoding a body into a generic map (dethcl/mapslice.go)\<close>

text \<open>
  \<open>decodeBody\<close>. Every attribute is decoded with \<open>expressionToNative\<close> and stored
  under its name, whatever the value is. The blocks are then grouped by type and by
  their number of labels (more than two labels is an error): the unlabelled blocks of a
  type become one map or, when there are several, a slice of maps; the blocks with one
  label become a map from the label; the blocks with two labels a map from the first
  label to a map from the second. Where two blocks have the same type and labels, the
  body of the later one is the one kept and decoded. A later group replaces what an
  earlier group or an attribute stored under the same name.

  The bodies of all blocks are decoded by structural recursion; the assembly of the
  groups then reads the results of the blocks it keeps, and no other.
\<close>

fun decodeAttributes ::
  "config \<Rightarrow> EvalContext \<Rightarrow> (string \<times> expr) list \<Rightarrow> (gvalue \<times> gvalue) list
     \<Rightarrow> (gvalue \<times> gvalue) list res" where
  "decodeAttributes c ctx [] object = Ok object"
| "decodeAttributes c ctx ((key, item) # rest) object =
     (case expressionToNative c ctx item of
        Err e \<Rightarrow> Err e
      | Panic p \<Rightarrow> Panic p
      | Ok v \<Rightarrow> decodeAttributes c ctx rest (put (GString key) v object))"

fun sequence_res :: "'a res list \<Rightarrow> 'a list res" where
  "sequence_res [] = Ok []"
| "sequence_res (r # rs) =
     (case r of
        Err e \<Rightarrow> Err e
      | Panic p \<Rightarrow> Panic p
      | Ok v \<Rightarrow> (case sequence_res rs of Ok vs \<Rightarrow> Ok (v # vs) | Err e \<Rightarrow> Err e | Panic p \<Rightarrow> Panic p))"

definition blocks_with :: "string \<Rightarrow> nat \<Rightarrow> (block \<times> 'a) list \<Rightarrow> (block \<times> 'a) list" where
  "blocks_with key n decoded =
     filter (\<lambda>(b, r). block_Type b = key \<and> length (block_Labels b) = n) decoded"

definition types_with :: "nat \<Rightarrow> (block \<times> 'a) list \<Rightarrow> string list" where
  "types_with n decoded =
     remdups (map (\<lambda>(b, r). block_Type b) (filter (\<lambda>(b, r). length (block_Labels b) = n) decoded))"

text \<open>The unlabelled blocks of type \<open>key\<close>.\<close>

definition decode_sliceBodies :: "string \<Rightarrow> (block \<times> gvalue res) list \<Rightarrow> gvalue res" where
  "decode_sliceBodies key decoded =
     (case sequence_res (map snd (blocks_with key 0 decoded)) of
        Err e \<Rightarrow> Err e
      | Panic p \<Rightarrow> Panic p
      | Ok values \<Rightarrow>
          (if length values > 1 then Ok (GSlice values)
           else case values of v # vs \<Rightarrow> Ok v | [] \<Rightarrow> Panic ''index out of range''))"

text \<open>The entries of a map of bodies: per key, the body stored last.\<close>

fun last_per_key :: "(string \<times> 'a) list \<Rightarrow> (string \<times> 'a) list \<Rightarrow> (string \<times> 'a) list" where
  "last_per_key [] acc = acc"
| "last_per_key ((k, v) # kvs) acc = last_per_key kvs (put k v acc)"

fun decode_entries :: "(string \<times> gvalue res) list \<Rightarrow> (gvalue \<times> gvalue) list res" where
  "decode_entries [] = Ok []"
| "decode_entries ((k, r) # rest) =
     (case r of
        Err e \<Rightarrow> Err e
      | Panic p \<Rightarrow> Panic p
      | Ok v \<Rightarrow> (case decode_entries rest of
                   Ok m \<Rightarrow> Ok ((GString k, v) # m) | Err e \<Rightarrow> Err e | Panic p \<Rightarrow> Panic p))"

text \<open>The blocks of type \<open>key\<close> with one label, and those with two.\<close>

definition decode_mapBodies :: "string \<Rightarrow> (block \<times> gvalue res) list \<Rightarrow> gvalue res" where
  "decode_mapBodies key decoded =
     (case decode_entries
             (last_per_key (map (\<lambda>(b, r). (block_Labels b ! 0, r)) (blocks_with key 1 decoded)) []) of
        Err e \<Rightarrow> Err e | Panic p \<Rightarrow> Panic p | Ok valueMap \<Rightarrow> Ok (GMap valueMap))"

definition decode_map2Bodies :: "string \<Rightarrow> (block \<times> gvalue res) list \<Rightarrow> gvalue res" where
  "decode_map2Bodies key decoded =
     (let bs = blocks_with key 2 decoded;
          firstKeys = remdups (map (\<lambda>(b, r). block_Labels b ! 0) bs);
          inner = (\<lambda>firstKey.
             (firstKey,
              case decode_entries
                     (last_per_key
                        (map (\<lambda>(b, r). (block_Labels b ! 1, r))
                           (filter (\<lambda>(b, r). block_Labels b ! 0 = firstKey) bs)) []) of
                Err e \<Rightarrow> Err e | Panic p \<Rightarrow> Panic p | Ok innerMap \<Rightarrow> Ok (GMap innerMap)))
      in case decode_entries (map inner firstKeys) of
           Err e \<Rightarrow> Err e | Panic p \<Rightarrow> Panic p | Ok outerMap \<Rightarrow> Ok (GMap outerMap))"

fun store_groups ::
  "(string \<Rightarrow> gvalue res) \<Rightarrow> string list \<Rightarrow> (gvalue \<times> gvalue) list \<Rightarrow> (gvalue \<times> gvalue) list res" where
  "store_groups f [] object = Ok object"
| "store_groups f (key # keys) object =
     (case f key of
        Err e \<Rightarrow> Err e
      | Panic p \<Rightarrow> Panic p
      | Ok v \<Rightarrow> store_groups f keys (put (GString key) v object))"

definition assemble_blocks ::
  "(block \<times> gvalue res) list \<Rightarrow> (gvalue \<times> gvalue) list \<Rightarrow> (gvalue \<times> gvalue) list res" where
  "assemble_blocks decoded object =
     (case store_groups (\<lambda>key. decode_sliceBodies key decoded) (types_with 0 decoded) object of
        Err e \<Rightarrow> Err e
      | Panic p \<Rightarrow> Panic p
      | Ok object1 \<Rightarrow>
          (case store_groups (\<lambda>key. decode_mapBodies key decoded) (types_with 1 decoded) object1 of
             Err e \<Rightarrow> Err e
           | Panic p \<Rightarrow> Panic p
           | Ok object2 \<Rightarrow>
               store_groups (\<lambda>key. decode_map2Bodies key decoded) (types_with 2 decoded) object2))"

fun decodeBody :: "config \<Rightarrow> EvalContext \<Rightarrow> body \<Rightarrow> gvalue res"
  and decodeBlocks :: "config \<Rightarrow> EvalContext \<Rightarrow> block list \<Rightarrow> gvalue res list" where
  "decodeBody c ctx (Body attrs blocks frags) =
     (case decodeAttributes c ctx attrs [] of
        Err e \<Rightarrow> Err e
      | Panic p \<Rightarrow> Panic p
      | Ok object \<Rightarrow>
          (if list_ex (\<lambda>b. length (block_Labels b) > 2) blocks
           then Err ''unsupported number of labels for block type: expected 0, 1, or 2''
           else case assemble_blocks (zip blocks (decodeBlocks c ctx blocks)) object of
             Err e \<Rightarrow> Err e | Panic p \<Rightarrow> Panic p | Ok object' \<Rightarrow> Ok (GMap object')))"
| "decodeBlocks c ctx [] = []"
| "decodeBlocks c ctx (Block t labels b # rest) = decodeBody c ctx b # decodeBlocks c ctx rest"

text \<open>
  What the bytes handed to \<open>decodeMap\<close> and \<open>decodeSlice\<close> are, as far as the code
  and the parser tell: blank; bytes that begin and end with a brace, with the
  expression they parse to after \<open>x = \<close>; or other bytes, with the body they parse
  to. \<open>Inl\<close> is a syntax error.
\<close>

datatype source = Blank | Braced "gerror + expr" | Text "gerror + body"

definition decodeMap :: "config \<Rightarrow> EvalContext \<Rightarrow> source \<Rightarrow> gvalue res" where
  "decodeMap c ctx src =
     (case src of
        Blank \<Rightarrow> Panic ''index out of range''
      | Braced (Inl diags) \<Rightarrow> Err (''failed to parse object expression: '' @ diags)
      | Braced (Inr (ObjectConsExpr items)) \<Rightarrow>
          (case decodeObject_loop c ctx items [] of
             Ok object \<Rightarrow> Ok (GMap object) | Err e \<Rightarrow> Err e | Panic p \<Rightarrow> Panic p)
      | Braced (Inr e) \<Rightarrow> Err ''expected object/map expression''
      | Text (Inl diags) \<Rightarrow> Err (''failed to parse map HCL: '' @ diags)
      | Text (Inr b) \<Rightarrow> decodeBody c ctx b)"

text \<open>\<open>decodeSlice\<close> on the expression the bytes parse to after \<open>x = \<close>.\<close>

definition decodeSlice :: "config \<Rightarrow> EvalContext \<Rightarrow> gerror + expr \<Rightarrow> gvalue res" where
  "decodeSlice c ctx parsed =
     (case parsed of
        Inl diags \<Rightarrow> Err (''failed to parse slice HCL: '' @ diags)
      | Inr (TupleConsExpr es) \<Rightarrow>
          (case decodeSlice_loop c ctx es of
             Ok object \<Rightarrow> Ok (if object = [] then GNilSlice else GSlice object)
           | Err e \<Rightarrow> Err e | Panic p \<Rightarrow> Panic p)
      | Inr e \<Rightarrow> Err ''expected array/tuple expression'')"

text \<open>\<open>unmarshalToMap\<close> and \<open>unmarshalToSlice\<close> decode with \<open>nil\<close> for the
  registry. The decoded entries are stored one by one into the map behind the pointer
  \<open>current\<close>; storing into a nil map panics.\<close>

fun store_entries :: "(gvalue \<times> gvalue) list \<Rightarrow> (gvalue \<times> gvalue) list \<Rightarrow> (gvalue \<times> gvalue) list" where
  "store_entries [] x = x"
| "store_entries ((k, v) # obj) x = store_entries obj (put k v x)"

definition unmarshalToMap ::
  "config \<Rightarrow> source \<Rightarrow> nat \<Rightarrow> heap \<Rightarrow> outcome \<times> heap" where
  "unmarshalToMap c dat current h =
     (case decodeMap c nil_ref_ctx dat of
        Err e \<Rightarrow> (Failed e, h)
      | Panic p \<Rightarrow> (Panicked p, h)
      | Ok obj \<Rightarrow>
          (if \<not> current < length h then (Panicked ''nil pointer'', h)
           else if fst (h ! current) \<noteq> TMap TString TInterface
           then (Panicked ''interface conversion'', h)
           else case (obj, snd (h ! current)) of
             (GMap entries, GMap x) \<Rightarrow> (Done, h[current := (fst (h ! current), GMap (store_entries entries x))])
           | (GMap [], GNilMap) \<Rightarrow> (Done, h)
           | (GMap entries, GNilMap) \<Rightarrow> (Panicked ''assignment to entry in nil map'', h)
           | _ \<Rightarrow> (Panicked ''interface conversion'', h)))"

definition unmarshalToSlice ::
  "config \<Rightarrow> gerror + expr \<Rightarrow> nat \<Rightarrow> heap \<Rightarrow> outcome \<times> heap" where
  "unmarshalToSlice c dat current h =
     (case decodeSlice c nil_ref_ctx dat of
        Err e \<Rightarrow> (Failed e, h)
      | Panic p \<Rightarrow> (Panicked p, h)
      | Ok obj \<Rightarrow>
          (if \<not> current < length h then (Panicked ''nil pointer'', h)
           else if fst (h ! current) \<noteq> TSlice TInterface
           then (Panicked ''interface conversion'', h)
           else case (obj, snd (h ! current)) of
             (GSlice vs, GSlice x) \<Rightarrow> (Done, h[current := (fst (h ! current), GSlice (x @ vs))])
           | (GSlice vs, GNilSlice) \<Rightarrow> (Done, h[current := (fst (h ! current), GSlice vs)])
           | (GNilSlice, x) \<Rightarrow> (Done, h)
           | _ \<Rightarrow> (Panicked ''interface conversion'', h)))"

section \<open>Label fields (dethcl/unmarshal\_helpers.go)\<close>

text \<open>
  \<open>processLabels\<close>. \<open>oriTobe\<close> is a pointer: the fields are written into the struct
  at that address. \<open>labelExprs\<close> is \<open>None\<close> for the nil map. A nil and an empty
  slice differ only where both lengths are zero, and there the second loop has nothing
  to do: \<open>labels\<close> and \<open>labelFields\<close> are lists. \<open>cv.AsString()\<close> panics on a value
  that is not a string, and \<open>f.Set\<close> panics on a field that does not exist or is not a
  string.
\<close>

fun processLabels_exprs ::
  "evaluator \<Rightarrow> StructField list \<Rightarrow> nat \<Rightarrow> (string \<times> expr) list \<Rightarrow> heap \<Rightarrow> outcome \<times> heap" where
  "processLabels_exprs ev [] oriTobe labelExprs h = (Done, h)"
| "processLabels_exprs ev (field # rest) oriTobe labelExprs h =
     (let name = field_Name field;
          tag = fst (parseHCLTag (field_Tag field))
      in case lookup labelExprs tag of
           None \<Rightarrow> processLabels_exprs ev rest oriTobe labelExprs h
         | Some e \<Rightarrow>
             (case expr_Value ev None e of
                Inl diags \<Rightarrow> (Failed (''failed to evaluate label '' @ tag @ '': '' @ diags), h)
              | Inr (CtyString label) \<Rightarrow>
                  (case get_field h oriTobe name of
                     Some (GString old) \<Rightarrow>
                       (case set_field h oriTobe name (GString label) of
                          Some h' \<Rightarrow> processLabels_exprs ev rest oriTobe labelExprs h'
                        | None \<Rightarrow> (Panicked ''reflect: Set'', h))
                   | _ \<Rightarrow> (Panicked ''reflect: Set'', h))
              | Inr _ \<Rightarrow> (Panicked ''cty: AsString'', h)))"

fun processLabels_parent ::
  "(string \<times> StructField) list \<Rightarrow> nat \<Rightarrow> heap \<Rightarrow> outcome \<times> heap" where
  "processLabels_parent [] oriTobe h = (Done, h)"
| "processLabels_parent ((label, field) # rest) oriTobe h =
     (let name = field_Name field
      in case get_field h oriTobe name of
           Some f \<Rightarrow>
             (if Value_String f = []
              then (case set_field h oriTobe name (GString label) of
                      Some h' \<Rightarrow> processLabels_parent rest oriTobe h'
                    | None \<Rightarrow> (Panicked ''reflect: Set'', h))
              else processLabels_parent rest oriTobe h)
         | None \<Rightarrow> processLabels_parent rest oriTobe h)"

definition processLabels ::
  "evaluator \<Rightarrow> StructField list \<Rightarrow> nat \<Rightarrow> (string \<times> expr) list option \<Rightarrow> string list \<Rightarrow> heap
     \<Rightarrow> outcome \<times> heap" where
  "processLabels ev labelFields oriTobe labelExprs labels h =
     (case (case labelExprs of
              None \<Rightarrow> (Done, h)
            | Some exprs \<Rightarrow> processLabels_exprs ev labelFields oriTobe exprs h) of
        (Done, h1) \<Rightarrow>
          (if length labels = length labelFields
           then processLabels_parent (zip labels labelFields) oriTobe h1
           else (Done, h1))
      | (err, h1) \<Rightarrow> (err, h1))"

text \<open>The struct of the test \<open>TestProcessLabels\<close>: two label fields.\<close>

definition TestStruct :: gotype where
  "TestStruct = TStruct ''TestStruct''
     [(''Type'', hcl_tag ''type,label'', False, TString),
      (''Name'', hcl_tag ''name,label'', False, TString)]"

text \<open>A store holding one \<open>TestStruct\<close> with the two label fields set to \<open>t\<close> and
  \<open>n\<close>.\<close>

definition labels_heap :: "string \<Rightarrow> string \<Rightarrow> heap" where
  "labels_heap t n = [(TestStruct, GStruct ''TestStruct'' [(''Type'', GString t), (''Name'', GString n)])]"

text \<open>What the loop over the positional labels leaves in the field \<open>name\<close>: the label
  paired with the field if the field was the empty string, and the old value otherwise.\<close>

definition label_target :: "(string \<times> gvalue) list \<Rightarrow> (string \<times> StructField) list \<Rightarrow> string \<Rightarrow> gvalue option" where
  "label_target fvs pairs name =
     (case map_of (map (\<lambda>(l, f). (field_Name f, l)) pairs) name of
        Some l \<Rightarrow> (if lookup fvs name = Some (GString []) then Some (GString l) else lookup fvs name)
      | None \<Rightarrow> lookup fvs name)"

section \<open>Decoding into a struct: attributes and fields\<close>

text \<open>
  \<open>evaluateExpressions\<close>: every attribute is evaluated, replaced by the expression of
  its value and stored in the scope tree at \<open>node\<close>; the names of the attributes whose
  value is null are collected. The result is those names with the attributes as they
  are after the replacement. A nil \<open>node\<close> (\<open>None\<close>) panics at the first store.
\<close>

fun evaluateExpressions ::
  "config \<Rightarrow> nat option \<Rightarrow> (string \<times> expr) list \<Rightarrow> string list \<Rightarrow> (string \<times> expr) list \<Rightarrow> dstate
     \<Rightarrow> (string list \<times> (string \<times> expr) list) res \<times> dstate" where
  "evaluateExpressions c node [] kNulls done st = (Ok (kNulls, done), st)"
| "evaluateExpressions c node ((k, v) # rest) kNulls done st =
     (case ExpressionToCty (cfg_ev c) (make_ctx st) v of
        Err err \<Rightarrow> (Err (''failed to evaluate expression for '' @ k @ '': '' @ err), st)
      | Panic p \<Rightarrow> (Panic p, st)
      | Ok cv \<Rightarrow>
          (case (case node of None \<Rightarrow> None | Some n \<Rightarrow> AddItem (trees st) n k cv) of
             None \<Rightarrow> (Panic ''nil pointer dereference'', st)
           | Some t \<Rightarrow>
               evaluateExpressions c node rest
                 (if IsNull cv then kNulls @ [k] else kNulls)
                 (done @ [(k, CtyToExpression cv)])
                 (st\<lparr>trees := t\<rparr>)))"

fun addBlocksToTree :: "nat option \<Rightarrow> block list \<Rightarrow> dstate \<Rightarrow> unit res \<times> dstate" where
  "addBlocksToTree node [] st = (Ok (), st)"
| "addBlocksToTree node (b # blocks) st =
     (case (case node of None \<Rightarrow> None
                       | Some n \<Rightarrow> AddNodes (trees st) n (block_Type b) (block_Labels b)) of
        None \<Rightarrow> (Panic ''nil pointer dereference'', st)
      | Some (t, leaf) \<Rightarrow> addBlocksToTree node blocks (st\<lparr>trees := t\<rparr>))"

text \<open>\<open>structFieldCategories\<close>, and \<open>categorizeStructFields\<close>. The map \<open>objectMap\<close> of
  the shape specification and the registry are written while the fields are walked, so
  both are threaded through.\<close>

record structFieldCategories =
  Labels :: "StructField list"
  SimpleFields :: "StructField list"
  BlockFields :: "StructField list"
  InterfaceFields :: "StructField list"

definition no_categories :: structFieldCategories where
  "no_categories = \<lparr>Labels = [], SimpleFields = [], BlockFields = [], InterfaceFields = []\<rparr>"

definition append_categories :: "structFieldCategories \<Rightarrow> structFieldCategories \<Rightarrow> structFieldCategories" where
  "append_categories a b =
     \<lparr>Labels = Labels a @ Labels b, SimpleFields = SimpleFields a @ SimpleFields b,
      BlockFields = BlockFields a @ BlockFields b, InterfaceFields = InterfaceFields a @ InterfaceFields b\<rparr>"

text \<open>A slice or map field, or a map field with keys of type \<open>[2]string\<close>: what the
  element type decides. \<open>make_spec\<close> is the call of \<open>NewValue\<close> for the field.\<close>

definition categorize_collection ::
  "StructField \<Rightarrow> gotype \<Rightarrow> (string \<Rightarrow> gerror + Value) \<Rightarrow> structFieldCategories
     \<Rightarrow> (string \<times> Value) list \<Rightarrow> dstate
     \<Rightarrow> (structFieldCategories \<times> (string \<times> Value) list) res \<times> dstate" where
  "categorize_collection field fieldType make_spec categories objectMap st =
     (let elemType = Elem fieldType;
          typeName = type_name elemType
      in case Kind elemType of
           Kind_Interface \<Rightarrow>
             (Ok (categories\<lparr>InterfaceFields := InterfaceFields categories @ [field]\<rparr>, objectMap), st)
         | Kind_Struct \<Rightarrow>
             (case register_type st typeName elemType of
                None \<Rightarrow> (Panic ''assignment to entry in nil map'', st)
              | Some st' \<Rightarrow>
                  (case make_spec typeName of
                     Inl err \<Rightarrow> (Err err, st')
                   | Inr valueSpec \<Rightarrow>
                       (Ok (categories\<lparr>BlockFields := BlockFields categories @ [field]\<rparr>,
                            put (field_Name field) valueSpec objectMap), st')))
         | Kind_Pointer \<Rightarrow>
             (case register_type st typeName (Elem elemType) of
                None \<Rightarrow> (Panic ''assignment to entry in nil map'', st)
              | Some st' \<Rightarrow>
                  (case make_spec typeName of
                     Inl err \<Rightarrow> (Err err, st')
                   | Inr valueSpec \<Rightarrow>
                       (Ok (categories\<lparr>BlockFields := BlockFields categories @ [field]\<rparr>,
                            put (field_Name field) valueSpec objectMap), st')))
         | _ \<Rightarrow> (Ok (categories\<lparr>SimpleFields := SimpleFields categories @ [field]\<rparr>, objectMap), st))"

fun is_array2 :: "gotype \<Rightarrow> bool" where
  "is_array2 (TArray n t) = (n = 2)"
| "is_array2 _ = False"

fun map_Key :: "gotype \<Rightarrow> gotype" where
  "map_Key (TMap k t) = k"
| "map_Key t = t"

fun deref_type :: "gotype \<Rightarrow> gotype" where
  "deref_type (TPtr t) = t"
| "deref_type t = t"

fun categorizeStructFields ::
  "StructField list \<Rightarrow> string list \<Rightarrow> structFieldCategories \<Rightarrow> (string \<times> Value) list \<Rightarrow> dstate
     \<Rightarrow> (structFieldCategories \<times> (string \<times> Value) list) res \<times> dstate" where
  "categorizeStructFields [] nullAttrs categories objectMap st = (Ok (categories, objectMap), st)"
| "categorizeStructFields ((name, rawTag, anon, t) # fs) nullAttrs categories objectMap st =
     (let field = (name, rawTag, anon, t);
          fieldType = deref_type t;
          tag = fst (parseHCLTag rawTag);
          tagModifier = snd (parseHCLTag rawTag)
      in if name = [] then (Panic ''index out of range'', st)
         else if \<not> exported name then categorizeStructFields fs nullAttrs categories objectMap st
         else if tag \<in> set nullAttrs then categorizeStructFields fs nullAttrs categories objectMap st
         else if strings_ToLower tagModifier = tagModifierLabel
         then categorizeStructFields fs nullAttrs
                (categories\<lparr>Labels := Labels categories @ [field]\<rparr>) objectMap st
         else if tag = tagIgnore \<or> (length tag \<ge> 2 \<and> drop (length tag - 2) tag = tagIgnoreSuffix)
         then categorizeStructFields fs nullAttrs categories objectMap st
         else if lookup objectMap name \<noteq> None
         then categorizeStructFields fs nullAttrs
                (categories\<lparr>BlockFields := BlockFields categories @ [field]\<rparr>) objectMap st
         else if tag = []
         then (case t of
                 TStruct n nestedFields \<Rightarrow>
                   (case categorizeStructFields nestedFields nullAttrs no_categories objectMap st of
                      (Ok (nested, objectMap'), st') \<Rightarrow>
                        categorizeStructFields fs nullAttrs (append_categories categories nested) objectMap' st'
                    | r \<Rightarrow> r)
               | TPtr (TStruct n nestedFields) \<Rightarrow>
                   (case categorizeStructFields nestedFields nullAttrs no_categories objectMap st of
                      (Ok (nested, objectMap'), st') \<Rightarrow>
                        categorizeStructFields fs nullAttrs (append_categories categories nested) objectMap' st'
                    | r \<Rightarrow> r)
               | _ \<Rightarrow> categorizeStructFields fs nullAttrs categories objectMap st)
         else if Kind fieldType = Kind_Struct
         then (case register_type st (type_name fieldType) fieldType of
                 None \<Rightarrow> (Panic ''assignment to entry in nil map'', st)
               | Some st' \<Rightarrow>
                   (case NewValue_string (type_name fieldType) of
                      Inl err \<Rightarrow> (Err err, st')
                    | Inr valueSpec \<Rightarrow>
                        categorizeStructFields fs nullAttrs
                          (categories\<lparr>BlockFields := BlockFields categories @ [field]\<rparr>)
                          (put name valueSpec objectMap) st'))
         else if Kind fieldType = Kind_Map \<and> is_array2 (map_Key fieldType)
         then (case categorize_collection field fieldType NewValue_map2 categories objectMap st of
                 (Ok (categories', objectMap'), st') \<Rightarrow>
                   categorizeStructFields fs nullAttrs categories' objectMap' st'
               | r \<Rightarrow> r)
         else if Kind fieldType = Kind_Slice \<or> Kind fieldType = Kind_Map
         then (case categorize_collection field fieldType NewValue_strings1 categories objectMap st of
                 (Ok (categories', objectMap'), st') \<Rightarrow>
                   categorizeStructFields fs nullAttrs categories' objectMap' st'
               | r \<Rightarrow> r)
         else categorizeStructFields fs nullAttrs
                (categories\<lparr>SimpleFields := SimpleFields categories @ [field]\<rparr>) objectMap st)"





section \<open>Decoding into a struct: the partition of the body and the simple fields\<close>

text \<open>
  A block as the later steps see it: its type, its labels, and what the bytes between
  its braces parse to. A block of the document parses to its body; a block cut out of
  an attribute has no labels and parses to the piece's body or to a syntax error.
\<close>

type_synonym blockdata = "string \<times> string list \<times> (gerror + body)"

definition of_block :: "block \<Rightarrow> blockdata" where
  "of_block b = (block_Type b, block_Labels b, Inr (block_Body b))"

definition of_fragment :: "string \<Rightarrow> body option \<Rightarrow> blockdata" where
  "of_fragment attrName piece =
     (attrName, [], (case piece of None \<Rightarrow> Inl ''syntax error'' | Some b \<Rightarrow> Inr b))"

record hclBodyParseResult =
  LabelExprs :: "(string \<times> expr) list option"
  ExistingAttrs :: "string list"
  SimpleFieldsValue :: "gvalue list"
  InterfaceAttrs :: "(string \<times> expr) list"
  InterfaceBlocks :: "(string \<times> block list) list"
  BlockData :: "(string \<times> blockdata list) list"

definition buildTagIndex :: "StructField list \<Rightarrow> string list" where
  "buildTagIndex fs = map (\<lambda>field. fst (parseHCLTag (field_Tag field))) fs"

text \<open>\<open>Value.CanIterateElements\<close> of a value that is not null.\<close>

fun CanIterateElements :: "cty \<Rightarrow> bool" where
  "CanIterateElements (CtyTuple vs) = True"
| "CanIterateElements (CtyList t vs) = True"
| "CanIterateElements (CtyObject kvs) = True"
| "CanIterateElements (CtyMap t kvs) = True"
| "CanIterateElements _ = False"

definition append_at :: "string \<Rightarrow> 'a list \<Rightarrow> (string \<times> 'a list) list \<Rightarrow> (string \<times> 'a list) list" where
  "append_at k xs m = put k ((case lookup m k of None \<Rightarrow> [] | Some ys \<Rightarrow> ys) @ xs) m"

text \<open>
  The loop of \<open>categorizeHCLBody\<close> over the attributes. \<open>attrs\<close> are the attributes
  after evaluation, \<open>originals\<close> the expressions as they stand in the bytes of the
  file, \<open>frags\<close> the pieces cut out of the attributes written with braces.
\<close>

fun categorize_attributes ::
  "(string \<times> expr) list \<Rightarrow> (string \<times> expr) list \<Rightarrow> (string \<times> body option list) list
     \<Rightarrow> string list \<Rightarrow> string list \<Rightarrow> string list \<Rightarrow> string list \<Rightarrow> nat option
     \<Rightarrow> hclBodyParseResult \<Rightarrow> dstate \<Rightarrow> hclBodyParseResult res \<times> dstate" where
  "categorize_attributes [] originals frags nullAttrs blockTags interfaceTags labelTags node result st =
     (Ok result, st)"
| "categorize_attributes ((attrName, e) # attrs) originals frags nullAttrs blockTags interfaceTags
       labelTags node result st =
     (if attrName \<in> set nullAttrs
      then categorize_attributes attrs originals frags nullAttrs blockTags interfaceTags labelTags
             node result st
      else if attrName \<in> set interfaceTags
      then categorize_attributes attrs originals frags nullAttrs blockTags interfaceTags labelTags node
             (result\<lparr>InterfaceAttrs :=
                 put attrName (case lookup originals attrName of Some orig \<Rightarrow> orig | None \<Rightarrow> e)
                   (InterfaceAttrs result)\<rparr>) st
      else if attrName \<in> set labelTags
      then categorize_attributes attrs originals frags nullAttrs blockTags interfaceTags labelTags node
             (result\<lparr>LabelExprs :=
                 Some (put attrName e (case LabelExprs result of None \<Rightarrow> [] | Some m \<Rightarrow> m))\<rparr>) st
      else if attrName \<in> set blockTags
      then (case e of
              LiteralValueExpr v \<Rightarrow>
                (if \<not> CanIterateElements v
                 then (Err ''unknown expression type *hclsyntax.LiteralValueExpr'', st)
                 else case (case node of None \<Rightarrow> None | Some n \<Rightarrow> AddNode (trees st) n attrName) of
                   None \<Rightarrow> (Panic ''nil pointer dereference'', st)
                 | Some (t, child) \<Rightarrow>
                     categorize_attributes attrs originals frags nullAttrs blockTags interfaceTags
                       labelTags node
                       (result\<lparr>BlockData :=
                           append_at attrName
                             (map (of_fragment attrName)
                                (case lookup frags attrName of None \<Rightarrow> [] | Some pieces \<Rightarrow> pieces))
                             (BlockData result)\<rparr>)
                       (st\<lparr>trees := t\<rparr>))
            | _ \<Rightarrow> (Err ''unknown expression type'', st))
      else categorize_attributes attrs originals frags nullAttrs blockTags interfaceTags labelTags node
             (result\<lparr>ExistingAttrs := ExistingAttrs result @ [attrName]\<rparr>) st)"

fun categorize_blocks ::
  "block list \<Rightarrow> string list \<Rightarrow> string list \<Rightarrow> hclBodyParseResult \<Rightarrow> hclBodyParseResult" where
  "categorize_blocks [] blockTags interfaceTags result = result"
| "categorize_blocks (b # blocks) blockTags interfaceTags result =
     (let tag = block_Type b
      in if tag \<in> set blockTags
         then categorize_blocks blocks blockTags interfaceTags
                (result\<lparr>BlockData := append_at tag [of_block b] (BlockData result)\<rparr>)
         else if tag \<in> set interfaceTags
         then categorize_blocks blocks blockTags interfaceTags
                (result\<lparr>InterfaceBlocks := append_at tag [b] (InterfaceBlocks result)\<rparr>)
         else categorize_blocks blocks blockTags interfaceTags result)"

text \<open>The loop over the simple fields: each field whose tag has a value in the scope
  tree at \<open>node\<close> is converted to the field's type; the others stay at zero. The
  first field panics on a nil \<open>node\<close>.\<close>

fun convert_simple_fields ::
  "config \<Rightarrow> nat option \<Rightarrow> StructField list \<Rightarrow> dstate \<Rightarrow> gvalue list res" where
  "convert_simple_fields c node [] st = Ok []"
| "convert_simple_fields c node (field # newFields) st =
     (let tag = fst (parseHCLTag (field_Tag field))
      in case node of
           None \<Rightarrow> Panic ''nil pointer dereference''
         | Some n \<Rightarrow>
             (case (case Data_Load (trees st) n tag of
                      None \<Rightarrow> Ok (Zero (field_Type field))
                    | Some ctyVal \<Rightarrow>
                        (case ConvertCtyToFieldType (cfg_w c) (cfg_lib c) ctyVal (field_Type field) of
                           (nativeVal, None) \<Rightarrow> Ok nativeVal
                         | (nativeVal, Some err) \<Rightarrow>
                             Err (''Type conversion error: Field '' @ tag @ '': '' @ err))) of
                Err e \<Rightarrow> Err e
              | Panic p \<Rightarrow> Panic p
              | Ok v \<Rightarrow>
                  (case convert_simple_fields c node newFields st of
                     Ok vs \<Rightarrow> Ok (v # vs) | Err e \<Rightarrow> Err e | Panic p \<Rightarrow> Panic p)))"

definition categorizeHCLBody ::
  "config \<Rightarrow> nat option \<Rightarrow> body \<Rightarrow> (string \<times> expr) list \<Rightarrow> string list \<Rightarrow> StructField list
     \<Rightarrow> StructField list \<Rightarrow> StructField list \<Rightarrow> StructField list \<Rightarrow> dstate
     \<Rightarrow> hclBodyParseResult res \<times> dstate" where
  "categorizeHCLBody c node hclBody evaluated nullAttrs blockFields interfaceFields newFields newLabels st =
     (let result = \<lparr>LabelExprs = None, ExistingAttrs = [], SimpleFieldsValue = [],
                     InterfaceAttrs = [], InterfaceBlocks = [], BlockData = []\<rparr>;
          blockTags = buildTagIndex blockFields;
          interfaceTags = buildTagIndex interfaceFields;
          labelTags = buildTagIndex newLabels
      in case categorize_attributes evaluated (Attributes hclBody) (Fragments hclBody) nullAttrs
                blockTags interfaceTags labelTags node result st of
           (Ok result1, st1) \<Rightarrow>
             (let result2 = categorize_blocks (Blocks hclBody) blockTags interfaceTags result1
              in case convert_simple_fields c node newFields st1 of
                   Ok rawValue \<Rightarrow> (Ok (result2\<lparr>SimpleFieldsValue := rawValue\<rparr>), st1)
                 | Err e \<Rightarrow> (Err e, st1)
                 | Panic p \<Rightarrow> (Panic p, st1))
         | (r, st1) \<Rightarrow> (r, st1))"

text \<open>\<open>processSimpleFields\<close>: the converted value of every simple field whose attribute
  exists in the body is written into the struct behind \<open>oriTobe\<close>.\<close>

fun processSimpleFields ::
  "(StructField \<times> gvalue) list \<Rightarrow> nat \<Rightarrow> string list \<Rightarrow> heap \<Rightarrow> outcome \<times> heap" where
  "processSimpleFields [] oriTobe existingAttrs h = (Done, h)"
| "processSimpleFields ((field, rawField) # rest) oriTobe existingAttrs h =
     (let name = field_Name field;
          tag = fst (parseHCLTag (field_Tag field))
      in if tag \<in> set existingAttrs
         then (case set_field h oriTobe name rawField of
                 None \<Rightarrow> (Panicked ''reflect: Set'', h)
               | Some h' \<Rightarrow> processSimpleFields rest oriTobe existingAttrs h')
         else processSimpleFields rest oriTobe existingAttrs h)"

text \<open>
  \<open>processMapOrSliceFields\<close>. The bytes of an attribute are its expression as
  written: for a map they begin and end with a brace when the expression is an object,
  and are otherwise not a body; for a slice they are parsed after \<open>x = \<close>. The bytes of
  a block are its body; a body with no attribute and no block is taken to be blank.
  Only the first block of a field is decoded.
\<close>

definition attr_source :: "expr \<Rightarrow> source" where
  "attr_source e = (case e of ObjectConsExpr items \<Rightarrow> Braced (Inr e) | _ \<Rightarrow> Text (Inl ''syntax error''))"

definition block_source :: "body \<Rightarrow> source" where
  "block_source b = (if b = Body [] [] [] then Blank else Text (Inr b))"

fun processMapOrSliceFields ::
  "config \<Rightarrow> StructField list \<Rightarrow> (string \<times> expr) list \<Rightarrow> (string \<times> block list) list \<Rightarrow> nat
     \<Rightarrow> dstate \<Rightarrow> outcome \<times> dstate" where
  "processMapOrSliceFields c [] decattrs decblock oriTobe st = (Done, st)"
| "processMapOrSliceFields c (field # decFields) decattrs decblock oriTobe st =
     (let tag = fst (parseHCLTag (field_Tag field));
          name = field_Name field;
          typ = field_Type field;
          bs = (case lookup decattrs tag of
                  Some e \<Rightarrow> Some (attr_source e, Inr e)
                | None \<Rightarrow>
                    (case lookup decblock tag of
                       Some (blk # blkd) \<Rightarrow> Some (block_source (block_Body blk), Inl ''syntax error'')
                     | Some [] \<Rightarrow> Some (Blank, Inl ''syntax error'')
                     | None \<Rightarrow> None))
      in case bs of
           None \<Rightarrow> processMapOrSliceFields c decFields decattrs decblock oriTobe st
         | Some (asMap, asSlice) \<Rightarrow>
             (case (if Kind typ = Kind_Slice
                    then (case decodeSlice c (make_ctx st) asSlice of
                            Err err \<Rightarrow> Err (''field '' @ name @ '': failed to decode slice: '' @ err)
                          | r \<Rightarrow> r)
                    else (case decodeMap c (make_ctx st) asMap of
                            Err err \<Rightarrow> Err (''field '' @ name @ '': failed to decode map: '' @ err)
                          | r \<Rightarrow> r)) of
                Err e \<Rightarrow> (Failed e, st)
              | Panic p \<Rightarrow> (Panicked p, st)
              | Ok obj \<Rightarrow>
                  (if typ \<noteq> (if Kind typ = Kind_Slice then TSlice TInterface else TMap TString TInterface)
                   then (Panicked ''reflect: Set'', st)
                   else case set_field (heap st) oriTobe name obj of
                     None \<Rightarrow> (Panicked ''reflect: Set'', st)
                   | Some h' \<Rightarrow>
                       processMapOrSliceFields c decFields decattrs decblock oriTobe (st\<lparr>heap := h'\<rparr>))))"

section \<open>Decoding into a struct: the block fields and the whole call\<close>

text \<open>The decoder of a nested block, as the functions of the block fields call it: the
  node of the scope tree, what the bytes of the block parse to, the pointer to decode
  into, the specification, the labels and the state.\<close>

type_synonym nested_decoder =
  "nat option \<Rightarrow> (gerror + body) \<Rightarrow> nat \<Rightarrow> Struct option \<Rightarrow> string list \<Rightarrow> dstate \<Rightarrow> outcome \<times> dstate"

definition quote :: "string \<Rightarrow> string" where
  "quote s = [CHR 0x22] @ s @ [CHR 0x22]"

function string_of_nat :: "nat \<Rightarrow> string" where
  "string_of_nat n =
     (if n < 10 then [char_of (48 + n)] else string_of_nat (n div 10) @ [char_of (48 + n mod 10)])"
  by pat_completeness auto
termination
  by (relation "measure id") auto

text \<open>\<open>tryUnmarshalWithCustom\<close>: the method of a type that implements \<open>Unmarshaler\<close>,
  and the decoder otherwise.\<close>

definition tryUnmarshalWithCustom ::
  "nested_decoder \<Rightarrow> config \<Rightarrow> nat option \<Rightarrow> (gerror + body) \<Rightarrow> nat \<Rightarrow> Struct option \<Rightarrow> string list
     \<Rightarrow> dstate \<Rightarrow> outcome \<times> dstate" where
  "tryUnmarshalWithCustom dec c subnode hclData trial nextStruct labels st =
     (if \<not> trial < length (heap st) then (Panicked ''nil pointer dereference'', st)
      else case cfg_Unmarshaler c (fst (heap st ! trial)) of
        Some unmarshalHCL \<Rightarrow>
          (case unmarshalHCL hclData labels (snd (heap st ! trial)) of
             (r, v) \<Rightarrow> (r, st\<lparr>heap := (heap st)[trial := (fst (heap st ! trial), v)]\<rparr>))
      | None \<Rightarrow> dec subnode hclData trial nextStruct labels st)"

text \<open>What the four functions share for one block: the node of the block in the scope
  tree (\<open>GetNode\<close> on a nil node returns it when the tag is empty and panics
  otherwise), the prototype of the class in the registry (an error if the class is
  absent), its clone, and the decoding of the block into the clone. The result is the
  address of the clone.\<close>

definition materialize ::
  "nested_decoder \<Rightarrow> config \<Rightarrow> nat option \<Rightarrow> string \<Rightarrow> blockdata \<Rightarrow> Struct option
     \<Rightarrow> gerror \<Rightarrow> nat \<Rightarrow> gerror \<Rightarrow> gerror \<Rightarrow> dstate \<Rightarrow> nat res \<times> dstate" where
  "materialize dec c node tag block nextStruct missing maxLabels tooMany failed st =
     (case block of (typ, labels, parsed) \<Rightarrow>
        (case (case node of
                 None \<Rightarrow> (if tag = [] then Some None else None)
               | Some n \<Rightarrow> Some (GetNode (trees st) n tag labels)) of
           None \<Rightarrow> (Panic ''nil pointer dereference'', st)
         | Some subnode \<Rightarrow>
             (case nextStruct of
                None \<Rightarrow> (Panic ''nil pointer dereference'', st)
              | Some next \<Rightarrow>
                  (case ref_lookup st (ClassName next) of
                     None \<Rightarrow> (Err missing, st)
                   | Some proto \<Rightarrow>
                       (case cfg_clone c (heap st) proto of
                          None \<Rightarrow> (Panic ''reflect: clone'', st)
                        | Some (h1, trial) \<Rightarrow>
                            (if length labels > maxLabels then (Err tooMany, st\<lparr>heap := h1\<rparr>)
                             else case tryUnmarshalWithCustom dec c subnode parsed trial
                                         (Some next) labels (st\<lparr>heap := h1\<rparr>) of
                               (Done, st2) \<Rightarrow> (Ok trial, st2)
                             | (Failed err, st2) \<Rightarrow> (Err (failed @ err), st2)
                             | (Panicked p, st2) \<Rightarrow> (Panic p, st2)))))))"

text \<open>The value a field, a map entry or a slice element receives: the pointer where the
  kind is an interface or a pointer, and the struct behind it otherwise.\<close>

definition installed :: "dstate \<Rightarrow> kind \<Rightarrow> nat \<Rightarrow> gvalue" where
  "installed st knd trial =
     (if knd = Kind_Interface \<or> knd = Kind_Pointer then GPtr trial else snd (heap st ! trial))"

definition set_field_st :: "dstate \<Rightarrow> nat \<Rightarrow> string \<Rightarrow> gvalue \<Rightarrow> outcome \<times> dstate" where
  "set_field_st st oriTobe name v =
     (case set_field (heap st) oriTobe name v of
        None \<Rightarrow> (Panicked ''reflect: Set'', st)
      | Some h' \<Rightarrow> (Done, st\<lparr>heap := h'\<rparr>))"

text \<open>\<open>oriTobe.Elem().FieldByName(name)\<close>, which each of the four functions evaluates
  before it looks at a block, panics unless \<open>oriTobe\<close> points to a struct.\<close>

definition target_is_struct :: "dstate \<Rightarrow> nat \<Rightarrow> bool" where
  "target_is_struct st oriTobe =
     (oriTobe < length (heap st) \<and> Kind (fst (heap st ! oriTobe)) = Kind_Struct)"

definition processSingleStructField ::
  "nested_decoder \<Rightarrow> config \<Rightarrow> nat option \<Rightarrow> StructField \<Rightarrow> blockdata \<Rightarrow> Struct \<Rightarrow> nat \<Rightarrow> dstate
     \<Rightarrow> outcome \<times> dstate" where
  "processSingleStructField dec c node field block singleSpec oriTobe st =
     (let name = field_Name field;
          tag = fst (parseHCLTag (field_Tag field))
      in if \<not> target_is_struct st oriTobe
         then (Panicked ''reflect: call of reflect.Value.FieldByName on zero Value'', st)
         else case materialize dec c node tag block (Some singleSpec)
                (''field '' @ name @ '': struct type '' @ quote (ClassName singleSpec)
                   @ '' not found in ref map'')
                (length (fst (snd block))) []
                (''field '' @ name @ '': unmarshal failed: '') st of
           (Err e, st') \<Rightarrow> (Failed e, st')
         | (Panic p, st') \<Rightarrow> (Panicked p, st')
         | (Ok trial, st') \<Rightarrow>
             set_field_st st' oriTobe name (installed st' (Kind (field_Type field)) trial))"

text \<open>
  The specification each of the three loops selects for a block (\<open>nextStruct\<close>).
  For a map it is the entry at the block's label, and otherwise the default
  \<open>first\<close>, the entry the iteration over the map meets first: here the first entry
  of the list; it is nil (\<open>None\<close>) for an empty map. For a list on a slice field it
  is the specification at the block's index \<open>k\<close> where there is one, and the first
  otherwise. For a map of maps the two labels are looked up in turn, an absent label
  being the empty string, with the defaults \<open>first\<close> and \<open>firstFirst\<close>.
\<close>

definition select_MapStruct :: "(string \<times> Struct) list \<Rightarrow> string \<Rightarrow> Struct option" where
  "select_MapStruct nextMapStructs keystring =
     (case lookup nextMapStructs keystring of
        Some s \<Rightarrow> Some s
      | None \<Rightarrow> (case nextMapStructs of [] \<Rightarrow> None | (k, first) # ms \<Rightarrow> Some first))"

definition select_ListStruct :: "Struct list \<Rightarrow> gotype \<Rightarrow> nat \<Rightarrow> Struct" where
  "select_ListStruct nextListStructs typ k =
     (if k < length nextListStructs \<and> (Kind typ = Kind_Slice \<or> Kind typ = Kind_Array)
      then nextListStructs ! k else nextListStructs ! 0)"

definition select_Map2Struct ::
  "(string \<times> (string \<times> Struct) list) list \<Rightarrow> string list \<Rightarrow> Struct option" where
  "select_Map2Struct nextMap2Structs labels =
     (let keystring0 = (case labels of [] \<Rightarrow> [] | l0 # ls \<Rightarrow> l0);
          keystring1 = (case labels of l0 # l1 # ls \<Rightarrow> l1 | _ \<Rightarrow> []);
          first = (case nextMap2Structs of [] \<Rightarrow> None | (k, m) # ms \<Rightarrow> Some m);
          firstFirst = (case first of Some ((k, s) # ss) \<Rightarrow> Some s | _ \<Rightarrow> None);
          nextMapStruct = (case lookup nextMap2Structs keystring0 of Some m \<Rightarrow> Some m | None \<Rightarrow> first)
      in case (case nextMapStruct of None \<Rightarrow> None | Some m \<Rightarrow> lookup m keystring1) of
           Some s \<Rightarrow> Some s
         | None \<Rightarrow> firstFirst)"

text \<open>\<open>processMapStructField\<close>: first what the loop does with one block, then the
  loop.\<close>

definition processMapStructField_block ::
  "nested_decoder \<Rightarrow> config \<Rightarrow> nat option \<Rightarrow> StructField \<Rightarrow> blockdata \<Rightarrow> (string \<times> Struct) list
     \<Rightarrow> (gvalue \<times> gvalue) list \<Rightarrow> dstate \<Rightarrow> (gvalue \<times> gvalue) list res \<times> dstate" where
  "processMapStructField_block dec c node field block nextMapStructs fMap st =
     (let name = field_Name field;
          tag = fst (parseHCLTag (field_Tag field));
          typ = field_Type field
      in case fst (snd block) of
           [] \<Rightarrow> (Panic (if node = None \<and> tag \<noteq> [] then ''nil pointer dereference''
                        else ''index out of range''), st)
         | keystring # ls \<Rightarrow>
             (let nextStruct = select_MapStruct nextMapStructs keystring
              in case materialize dec c node tag block nextStruct
                        (''field '' @ name @ '': struct type ''
                           @ quote (case nextStruct of Some s \<Rightarrow> ClassName s | None \<Rightarrow> [])
                           @ '' not found in ref map'')
                        1 (''field '' @ name @ '': MapStruct supports maximum 1 label'')
                        (''field '' @ name @ ''['' @ keystring @ '']: unmarshal failed: '') st of
                   (Ok trial, st') \<Rightarrow>
                     (Ok (put (GString keystring) (installed st' (Kind (Elem typ)) trial) fMap), st')
                 | (Err e, st') \<Rightarrow> (Err e, st')
                 | (Panic p, st') \<Rightarrow> (Panic p, st')))"

fun processMapStructField_loop ::
  "nested_decoder \<Rightarrow> config \<Rightarrow> nat option \<Rightarrow> StructField \<Rightarrow> blockdata list \<Rightarrow> (string \<times> Struct) list
     \<Rightarrow> (gvalue \<times> gvalue) list \<Rightarrow> dstate \<Rightarrow> (gvalue \<times> gvalue) list res \<times> dstate" where
  "processMapStructField_loop dec c node field [] nextMapStructs fMap st = (Ok fMap, st)"
| "processMapStructField_loop dec c node field (block # blocks) nextMapStructs fMap st =
     (case processMapStructField_block dec c node field block nextMapStructs fMap st of
        (Ok fMap', st') \<Rightarrow> processMapStructField_loop dec c node field blocks nextMapStructs fMap' st'
      | (Err e, st') \<Rightarrow> (Err e, st')
      | (Panic p, st') \<Rightarrow> (Panic p, st'))"

definition processMapStructField ::
  "nested_decoder \<Rightarrow> config \<Rightarrow> nat option \<Rightarrow> StructField \<Rightarrow> blockdata list \<Rightarrow> (string \<times> Struct) list
     \<Rightarrow> nat \<Rightarrow> dstate \<Rightarrow> outcome \<times> dstate" where
  "processMapStructField dec c node field blocks mapSpec oriTobe st =
     (let name = field_Name field;
          typ = field_Type field
      in if Kind typ \<noteq> Kind_Map
         then (Failed (''field '' @ name @ '': expected map type for MapStruct''), st)
         else if \<not> target_is_struct st oriTobe
         then (Panicked ''reflect: call of reflect.Value.FieldByName on zero Value'', st)
         else case processMapStructField_loop dec c node field blocks mapSpec [] st of
           (Ok fMap, st') \<Rightarrow> set_field_st st' oriTobe name (GMap fMap)
         | (Err e, st') \<Rightarrow> (Failed e, st')
         | (Panic p, st') \<Rightarrow> (Panicked p, st'))"

text \<open>\<open>processListStructField\<close>: the field is a slice or a map.\<close>

definition processListStructField_block ::
  "nested_decoder \<Rightarrow> config \<Rightarrow> nat option \<Rightarrow> StructField \<Rightarrow> nat \<Rightarrow> blockdata \<Rightarrow> Struct list
     \<Rightarrow> gvalue list \<Rightarrow> (gvalue \<times> gvalue) list \<Rightarrow> dstate
     \<Rightarrow> (gvalue list \<times> (gvalue \<times> gvalue) list) res \<times> dstate" where
  "processListStructField_block dec c node field k block nextListStructs fSlice fMap st =
     (let name = field_Name field;
          tag = fst (parseHCLTag (field_Tag field));
          typ = field_Type field;
          nextStruct = select_ListStruct nextListStructs typ k
      in case materialize dec c node tag block (Some nextStruct)
                (''field '' @ name @ '': struct type '' @ quote (ClassName nextStruct)
                   @ '' not found in ref map (list index '' @ string_of_nat k @ '')'')
                (length (fst (snd block))) []
                (''field '' @ name @ ''['' @ string_of_nat k @ '']: unmarshal failed: '') st of
           (Ok trial, st') \<Rightarrow>
             (if Kind typ = Kind_Map
              then (case fst (snd block) of
                      [] \<Rightarrow> (Panic ''index out of range'', st')
                    | l # ls \<Rightarrow>
                        (Ok (fSlice, put (GString l) (installed st' (Kind (Elem typ)) trial) fMap), st'))
              else (Ok (fSlice @ [installed st' (Kind (Elem typ)) trial], fMap), st'))
         | (Err e, st') \<Rightarrow> (Err e, st')
         | (Panic p, st') \<Rightarrow> (Panic p, st'))"

fun processListStructField_loop ::
  "nested_decoder \<Rightarrow> config \<Rightarrow> nat option \<Rightarrow> StructField \<Rightarrow> nat \<Rightarrow> blockdata list \<Rightarrow> Struct list
     \<Rightarrow> gvalue list \<Rightarrow> (gvalue \<times> gvalue) list \<Rightarrow> dstate
     \<Rightarrow> (gvalue list \<times> (gvalue \<times> gvalue) list) res \<times> dstate" where
  "processListStructField_loop dec c node field k [] nextListStructs fSlice fMap st =
     (Ok (fSlice, fMap), st)"
| "processListStructField_loop dec c node field k (block # blocks) nextListStructs fSlice fMap st =
     (case processListStructField_block dec c node field k block nextListStructs fSlice fMap st of
        (Ok (fSlice', fMap'), st') \<Rightarrow>
          processListStructField_loop dec c node field (Suc k) blocks nextListStructs fSlice' fMap' st'
      | (Err e, st') \<Rightarrow> (Err e, st')
      | (Panic p, st') \<Rightarrow> (Panic p, st'))"

definition processListStructField ::
  "nested_decoder \<Rightarrow> config \<Rightarrow> nat option \<Rightarrow> StructField \<Rightarrow> blockdata list \<Rightarrow> Struct list
     \<Rightarrow> nat \<Rightarrow> dstate \<Rightarrow> outcome \<times> dstate" where
  "processListStructField dec c node field blocks listSpec oriTobe st =
     (let name = field_Name field;
          typ = field_Type field
      in if \<not> target_is_struct st oriTobe
         then (Panicked ''reflect: call of reflect.Value.FieldByName on zero Value'', st)
         else if listSpec = [] then (Panicked ''index out of range'', st)
         else if Kind typ \<noteq> Kind_Map \<and> Kind typ \<noteq> Kind_Slice
         then (Panicked ''reflect.MakeSlice of non-slice type'', st)
         else case processListStructField_loop dec c node field 0 blocks listSpec [] [] st of
           (Ok (fSlice, fMap), st') \<Rightarrow>
             set_field_st st' oriTobe name (if Kind typ = Kind_Map then GMap fMap else GSlice fSlice)
         | (Err e, st') \<Rightarrow> (Failed e, st')
         | (Panic p, st') \<Rightarrow> (Panicked p, st'))"

text \<open>\<open>getLabels\<close>: of the struct's own fields with the modifier \<open>label\<close>, the value of
  the first and the value of the last of the others.\<close>

fun getLabels_loop :: "StructField list \<Rightarrow> (string \<times> gvalue) list \<Rightarrow> nat \<Rightarrow> string \<times> string \<Rightarrow> string \<times> string" where
  "getLabels_loop [] fvs labelCount keys = keys"
| "getLabels_loop (field # fs) fvs labelCount (key0, key1) =
     (if strings_ToLower (snd (parseHCLTag (field_Tag field))) = tagModifierLabel
      then (let s = (case lookup fvs (field_Name field) of Some v \<Rightarrow> Value_String v | None \<Rightarrow> ''<Value>'')
            in getLabels_loop fs fvs (Suc labelCount)
                 (if labelCount = 0 then (s, key1) else (key0, s)))
      else getLabels_loop fs fvs labelCount (key0, key1))"

definition getLabels :: "heap \<Rightarrow> nat \<Rightarrow> (string \<times> string) option" where
  "getLabels h current =
     (if \<not> current < length h then None
      else case h ! current of
        (TStruct n fs, GStruct n' fvs) \<Rightarrow> Some (getLabels_loop fs fvs 0 ([], []))
      | _ \<Rightarrow> None)"

text \<open>\<open>processMap2StructField\<close>.\<close>

definition processMap2StructField_block ::
  "nested_decoder \<Rightarrow> config \<Rightarrow> nat option \<Rightarrow> StructField \<Rightarrow> blockdata
     \<Rightarrow> (string \<times> (string \<times> Struct) list) list
     \<Rightarrow> (gvalue \<times> gvalue) list \<Rightarrow> dstate \<Rightarrow> (gvalue \<times> gvalue) list res \<times> dstate" where
  "processMap2StructField_block dec c node field block nextMap2Structs fMap st =
     (let name = field_Name field;
          tag = fst (parseHCLTag (field_Tag field));
          typ = field_Type field;
          labels = fst (snd block);
          keystring0 = (case labels of [] \<Rightarrow> [] | l0 # ls \<Rightarrow> l0);
          keystring1 = (case labels of l0 # l1 # ls \<Rightarrow> l1 | _ \<Rightarrow> []);
          nextStruct = select_Map2Struct nextMap2Structs labels
      in case materialize dec c node tag block nextStruct
                (''field '' @ name @ '': struct type ''
                   @ quote (case nextStruct of Some s \<Rightarrow> ClassName s | None \<Rightarrow> [])
                   @ '' not found in ref map'')
                2 (''field '' @ name @ '': Map2Struct supports maximum 2 labels'')
                (''field '' @ name @ ''['' @ keystring0 @ ''][''  @ keystring1 @ '']: unmarshal failed: '') st of
           (Ok trial, st') \<Rightarrow>
             (case getLabels (heap st') trial of
                None \<Rightarrow> (Panic ''reflect: NumField of non-struct type'', st')
              | Some (key0, key1) \<Rightarrow>
                  (let keys = (if keystring0 = [] then (key0, key1)
                               else if keystring1 = []
                               then (if key1 \<noteq> [] then (keystring0, key1)
                                     else if key0 \<noteq> [] then (keystring0, key0)
                                     else (keystring0, keystring1))
                               else (keystring0, keystring1));
                       strKey = GArray [GString (fst keys), GString (snd keys)]
                   in (Ok (put strKey (installed st' (Kind (Elem typ)) trial) fMap), st')))
         | (Err e, st') \<Rightarrow> (Err e, st')
         | (Panic p, st') \<Rightarrow> (Panic p, st'))"

fun processMap2StructField_loop ::
  "nested_decoder \<Rightarrow> config \<Rightarrow> nat option \<Rightarrow> StructField \<Rightarrow> blockdata list
     \<Rightarrow> (string \<times> (string \<times> Struct) list) list
     \<Rightarrow> (gvalue \<times> gvalue) list \<Rightarrow> dstate \<Rightarrow> (gvalue \<times> gvalue) list res \<times> dstate" where
  "processMap2StructField_loop dec c node field [] nextMap2Structs fMap st = (Ok fMap, st)"
| "processMap2StructField_loop dec c node field (block # blocks) nextMap2Structs fMap st =
     (case processMap2StructField_block dec c node field block nextMap2Structs fMap st of
        (Ok fMap', st') \<Rightarrow> processMap2StructField_loop dec c node field blocks nextMap2Structs fMap' st'
      | (Err e, st') \<Rightarrow> (Err e, st')
      | (Panic p, st') \<Rightarrow> (Panic p, st'))"

definition processMap2StructField ::
  "nested_decoder \<Rightarrow> config \<Rightarrow> nat option \<Rightarrow> StructField \<Rightarrow> blockdata list
     \<Rightarrow> (string \<times> (string \<times> Struct) list) list \<Rightarrow> nat \<Rightarrow> dstate \<Rightarrow> outcome \<times> dstate" where
  "processMap2StructField dec c node field blocks mapSpec oriTobe st =
     (let name = field_Name field;
          typ = field_Type field
      in if Kind typ \<noteq> Kind_Map
         then (Failed (''field '' @ name @ '': expected map type for Map2Struct''), st)
         else if \<not> target_is_struct st oriTobe
         then (Panicked ''reflect: call of reflect.Value.FieldByName on zero Value'', st)
         else case processMap2StructField_loop dec c node field blocks mapSpec [] st of
           (Ok fMap, st') \<Rightarrow> set_field_st st' oriTobe name (GMap fMap)
         | (Err e, st') \<Rightarrow> (Failed e, st')
         | (Panic p, st') \<Rightarrow> (Panicked p, st'))"

text \<open>\<open>processBlockFields\<close>: every block field that has blocks in the body and an entry
  in the specification is decoded by the function of the entry's shape.\<close>

fun processBlockFields ::
  "nested_decoder \<Rightarrow> config \<Rightarrow> nat option \<Rightarrow> StructField list \<Rightarrow> (string \<times> blockdata list) list
     \<Rightarrow> (string \<times> Value) list \<Rightarrow> nat \<Rightarrow> dstate \<Rightarrow> outcome \<times> dstate" where
  "processBlockFields dec c node [] oriblock objectMap oriTobe st = (Done, st)"
| "processBlockFields dec c node (field # oriFields) oriblock objectMap oriTobe st =
     (let tag = fst (parseHCLTag (field_Tag field));
          blocks = (case lookup oriblock tag of None \<Rightarrow> [] | Some bs \<Rightarrow> bs);
          name = field_Name field
      in if length blocks = 0 then processBlockFields dec c node oriFields oriblock objectMap oriTobe st
         else case lookup objectMap name of
           None \<Rightarrow> processBlockFields dec c node oriFields oriblock objectMap oriTobe st
         | Some result \<Rightarrow>
             (case (case result of
                      Map2Struct x \<Rightarrow> processMap2StructField dec c node field blocks x oriTobe st
                    | MapStruct x \<Rightarrow> processMapStructField dec c node field blocks x oriTobe st
                    | ListStruct x \<Rightarrow> processListStructField dec c node field blocks x oriTobe st
                    | SingleStruct x \<Rightarrow> processSingleStructField dec c node field (hd blocks) x oriTobe st) of
                (Done, st') \<Rightarrow> processBlockFields dec c node oriFields oriblock objectMap oriTobe st'
              | r \<Rightarrow> r))"

text \<open>
  \<open>UnmarshalSpecTree\<close> on a struct, from the evaluation of the attributes to the map
  and slice fields. The copy the code makes of the target is a copy of the pointer
  \<open>current\<close>: \<open>updatedValue\<close> is a new variable of the pointer's type that is set to
  the pointer, so \<open>updatedValue.Elem()\<close> is the caller's struct, and every field the
  steps write is written there. The result is the fields classified as blocks, what the
  body holds for them, and the specification's map as the classification left it.
\<close>

definition decode_fields ::
  "config \<Rightarrow> nat option \<Rightarrow> body \<Rightarrow> nat \<Rightarrow> gotype \<Rightarrow> Struct option \<Rightarrow> string list \<Rightarrow> dstate
     \<Rightarrow> (StructField list \<times> (string \<times> blockdata list) list \<times> (string \<times> Value) list \<times> nat) res
          \<times> dstate" where
  "decode_fields c node hclBody current structType spec labels st =
     (let objectMap = (case spec of None \<Rightarrow> [] | Some s \<Rightarrow> GetFields s)
      in case evaluateExpressions c node (Attributes hclBody) [] [] st of
           (Err e, st1) \<Rightarrow> (Err e, st1)
         | (Panic p, st1) \<Rightarrow> (Panic p, st1)
         | (Ok (nullAttrs, evaluated), st1) \<Rightarrow>
         (case addBlocksToTree node (Blocks hclBody) st1 of
           (Err e, st2) \<Rightarrow> (Err e, st2)
         | (Panic p, st2) \<Rightarrow> (Panic p, st2)
         | (Ok u, st2) \<Rightarrow>
         (case categorizeStructFields (struct_fields structType) nullAttrs no_categories objectMap st2 of
           (Err e, st3) \<Rightarrow> (Err e, st3)
         | (Panic p, st3) \<Rightarrow> (Panic p, st3)
         | (Ok (fieldCategories, objectMap'), st3) \<Rightarrow>
         (case categorizeHCLBody c node hclBody evaluated nullAttrs (BlockFields fieldCategories)
                 (InterfaceFields fieldCategories) (SimpleFields fieldCategories)
                 (Labels fieldCategories) st3 of
           (Err e, st4) \<Rightarrow> (Err e, st4)
         | (Panic p, st4) \<Rightarrow> (Panic p, st4)
         | (Ok parseResult, st4) \<Rightarrow>
         (let updatedValue = current
          in case processLabels (cfg_ev c) (Labels fieldCategories) updatedValue
                    (LabelExprs parseResult) labels (heap st4) of
           (Failed e, h5) \<Rightarrow> (Err e, st4\<lparr>heap := h5\<rparr>)
         | (Panicked p, h5) \<Rightarrow> (Panic p, st4\<lparr>heap := h5\<rparr>)
         | (Done, h5) \<Rightarrow>
         (case processSimpleFields (zip (SimpleFields fieldCategories) (SimpleFieldsValue parseResult))
                 updatedValue (ExistingAttrs parseResult) h5 of
           (Failed e, h6) \<Rightarrow> (Err e, st4\<lparr>heap := h6\<rparr>)
         | (Panicked p, h6) \<Rightarrow> (Panic p, st4\<lparr>heap := h6\<rparr>)
         | (Done, h6) \<Rightarrow>
         (case processMapOrSliceFields c (InterfaceFields fieldCategories) (InterfaceAttrs parseResult)
                 (InterfaceBlocks parseResult) updatedValue (st4\<lparr>heap := h6\<rparr>) of
           (Failed e, st7) \<Rightarrow> (Err e, st7)
         | (Panicked p, st7) \<Rightarrow> (Panic p, st7)
         | (Done, st7) \<Rightarrow>
             (Ok (BlockFields fieldCategories, BlockData parseResult, objectMap', updatedValue), st7))))))))"

text \<open>What \<open>UnmarshalSpecTree\<close> returns on bytes with a syntax error, by the kind of the
  target.\<close>

definition syntax_error_outcome :: "gotype \<Rightarrow> gerror \<Rightarrow> outcome" where
  "syntax_error_outcome cellType diags =
     (if Kind cellType = Kind_Map then Failed (''failed to parse map HCL: '' @ diags)
      else if Kind cellType = Kind_Slice then Failed (''failed to parse slice HCL: '' @ diags)
      else if Kind (deref_type cellType) \<noteq> Kind_Struct then Failed ''non-struct object''
      else Failed (''failed to parse HCL: '' @ diags))"

definition lift_heap :: "dstate \<Rightarrow> outcome \<times> heap \<Rightarrow> outcome \<times> dstate" where
  "lift_heap st r = (fst r, st\<lparr>heap := snd r\<rparr>)"

text \<open>
  \<open>UnmarshalSpecTree\<close> on the body the bytes parse to. The decoder of a nested block is
  the function itself, on what the bytes of the block parse to. A nested body is a part
  of \<open>hclBody\<close> and so smaller; the comparison of the sizes says so where the
  recursive call stands, and is always true there.
\<close>

function UnmarshalSpecTree_body ::
  "config \<Rightarrow> nat option \<Rightarrow> body \<Rightarrow> nat \<Rightarrow> Struct option \<Rightarrow> string list \<Rightarrow> dstate \<Rightarrow> outcome \<times> dstate" where
  "UnmarshalSpecTree_body c node hclBody current spec labels st =
     (if \<not> current < length (heap st) then (Panicked ''nil pointer dereference'', st)
      else if Kind (fst (heap st ! current)) = Kind_Map
      then lift_heap st (unmarshalToMap c (block_source hclBody) current (heap st))
      else if Kind (fst (heap st ! current)) = Kind_Slice
      then lift_heap st (unmarshalToSlice c (Inl ''syntax error'') current (heap st))
      else if Kind (deref_type (fst (heap st ! current))) \<noteq> Kind_Struct
      then (Failed ''non-struct object'', st)
      else case decode_fields c node hclBody current (deref_type (fst (heap st ! current)))
                  spec labels st of
        (Err e, st') \<Rightarrow> (Failed e, st')
      | (Panic p, st') \<Rightarrow> (Panicked p, st')
      | (Ok (blockFields, blockData, objectMap, updatedValue), st') \<Rightarrow>
          processBlockFields
            (\<lambda>subnode parsed trial nextStruct lbls s.
               case parsed of
                 Inl diags \<Rightarrow>
                   (if \<not> trial < length (heap s) then (Panicked ''nil pointer dereference'', s)
                    else (syntax_error_outcome (fst (heap s ! trial)) diags, s))
               | Inr b \<Rightarrow>
                   (if size b < size hclBody
                    then UnmarshalSpecTree_body c subnode b trial nextStruct lbls s
                    else (Panicked ''not a block of this body'', s)))
            c node blockFields blockData objectMap updatedValue st')"
  by pat_completeness auto
termination
  by (relation "measure (\<lambda>(c, node, hclBody, current, spec, labels, st). size hclBody)") auto

text \<open>
  The bytes of a document, as the three parsers of the code read them: as the argument
  of \<open>decodeMap\<close>, as the expression after \<open>x = \<close> for \<open>decodeSlice\<close>, and as a
  body for \<open>parseHCLFile\<close>.
\<close>

record document =
  doc_map :: source
  doc_slice :: "gerror + expr"
  doc_body :: "gerror + body"

text \<open>\<open>UnmarshalSpecTree\<close>. The target \<open>current\<close> is a pointer into the store; an
  address outside the store stands for no value of the program.\<close>

definition UnmarshalSpecTree ::
  "config \<Rightarrow> nat option \<Rightarrow> document \<Rightarrow> nat \<Rightarrow> Struct option \<Rightarrow> string list \<Rightarrow> dstate \<Rightarrow> outcome \<times> dstate" where
  "UnmarshalSpecTree c node hclData current spec labels st =
     (if \<not> current < length (heap st) then (Panicked ''nil pointer dereference'', st)
      else if Kind (fst (heap st ! current)) = Kind_Map
      then lift_heap st (unmarshalToMap c (doc_map hclData) current (heap st))
      else if Kind (fst (heap st ! current)) = Kind_Slice
      then lift_heap st (unmarshalToSlice c (doc_slice hclData) current (heap st))
      else if Kind (deref_type (fst (heap st ! current))) \<noteq> Kind_Struct
      then (Failed ''non-struct object'', st)
      else case doc_body hclData of
        Inl diags \<Rightarrow> (Failed (''failed to parse HCL: '' @ diags), st)
      | Inr hclBody \<Rightarrow> UnmarshalSpecTree_body c node hclBody current spec labels st)"

text \<open>\<open>NewTreeCtyFunction\<close>: the registry is made if it is nil, the root of the scope
  tree is the one the registry holds or a new one, and the table of functions is set.\<close>

definition NewTreeCtyFunction :: "dstate \<Rightarrow> nat \<times> dstate" where
  "NewTreeCtyFunction st =
     (let r = (case ref st of
                 None \<Rightarrow> \<lparr>classes = [], ATTRIBUTES = None, FUNCTIONS = False\<rparr>
               | Some r \<Rightarrow> r)
      in case ATTRIBUTES r of
           Some node \<Rightarrow> (node, st\<lparr>ref := Some (r\<lparr>FUNCTIONS := True\<rparr>)\<rparr>)
         | None \<Rightarrow>
             (length (trees st),
              st\<lparr>trees := trees st @ [NewTree ''var''],
                 ref := Some (r\<lparr>ATTRIBUTES := Some (length (trees st)), FUNCTIONS := True\<rparr>)\<rparr>))"

definition UnmarshalSpec ::
  "config \<Rightarrow> document \<Rightarrow> nat \<Rightarrow> Struct option \<Rightarrow> string list \<Rightarrow> dstate \<Rightarrow> outcome \<times> dstate" where
  "UnmarshalSpec c hclData current spec labels st =
     (case NewTreeCtyFunction st of
        (node, st') \<Rightarrow> UnmarshalSpecTree c (Some node) hclData current spec labels st')"

text \<open>\<open>Unmarshal\<close> on a pointer: the method of a type that implements \<open>Unmarshaler\<close>,
  and \<open>UnmarshalSpec\<close> with no specification and no registry otherwise.\<close>

definition Unmarshal :: "config \<Rightarrow> document \<Rightarrow> nat \<Rightarrow> string list \<Rightarrow> dstate \<Rightarrow> outcome \<times> dstate" where
  "Unmarshal c hclData current labels st =
     (if \<not> current < length (heap st) then (Panicked ''nil pointer dereference'', st)
      else case cfg_Unmarshaler c (fst (heap st ! current)) of
        Some unmarshalHCL \<Rightarrow>
          (case unmarshalHCL (doc_body hclData) labels (snd (heap st ! current)) of
             (r, v) \<Rightarrow> (r, st\<lparr>heap := (heap st)[current := (fst (heap st ! current), v)]\<rparr>))
      | None \<Rightarrow> UnmarshalSpec c hclData current None labels (st\<lparr>ref := None\<rparr>))"

text \<open>The error of the four functions for a class that is absent from the registry:
  \<open>fmt.Errorf("field %s: struct type %q not found in ref map", name, className)\<close>.\<close>

definition not_found :: "string \<Rightarrow> string \<Rightarrow> gerror" where
  "not_found name className =
     ''field '' @ name @ '': struct type '' @ quote className @ '' not found in ref map''"

section \<open>Encoding generic values (dethcl/encoding.go)\<close>

text \<open>
  The encoder of maps, slices and scalars, as \<open>Marshal\<close> runs it on the result of a
  decode into a generic map. Bytes are a string, \<open>None\<close> being the nil slice of bytes.
  A map is a \<open>map[string]interface{}\<close>; its entries are visited in the order of the
  list. The encoder of structs and pointers, \<open>marshal\<close>, is not embedded: the functions
  below stop with a panic at a struct or a pointer, which a decode into a generic map
  never produces.
\<close>

text \<open>\<open>strings.Repeat("  ", level)\<close> and \<open>strings.Join\<close>.\<close>

definition indent :: "nat \<Rightarrow> string" where
  "indent level = concat (replicate level ''  '')"

fun strings_Join :: "string list \<Rightarrow> string \<Rightarrow> string" where
  "strings_Join [] sep = []"
| "strings_Join [x] sep = x"
| "strings_Join (x # y # xs) sep = x @ sep @ strings_Join (y # xs) sep"

text \<open>The verbs \<open>%d\<close>, \<open>%t\<close> and \<open>%f\<close> of \<open>fmt.Sprintf\<close>. \<open>%f\<close> prints six
  decimals, the number rounded to the nearest multiple of \<open>10^-6\<close>, a tie to the even
  one.\<close>

definition string_of_int :: "int \<Rightarrow> string" where
  "string_of_int n = (if n < 0 then ''-'' @ string_of_nat (nat (- n)) else string_of_nat (nat n))"

definition round_half_even :: "rat \<Rightarrow> int" where
  "round_half_even x =
     (let n = \<lfloor>x\<rfloor>; r = x - of_int n
      in if r < 1 / 2 then n else if r > 1 / 2 then n + 1 else if even n then n else n + 1)"

definition format_f :: "rat \<Rightarrow> string" where
  "format_f x =
     (let n = nat (round_half_even (\<bar>x\<bar> * 1000000));
          frac = string_of_nat (n mod 1000000)
      in (if x < 0 then ''-'' else []) @ string_of_nat (n div 1000000) @ ''.''
           @ replicate (6 - length frac) CHR ''0'' @ frac)"

text \<open>\<open>reflect.Value.IsZero\<close>.\<close>

fun IsZero :: "gvalue \<Rightarrow> bool"
  and IsZero_list :: "gvalue list \<Rightarrow> bool"
  and IsZero_fields :: "(string \<times> gvalue) list \<Rightarrow> bool" where
  "IsZero GNil = True"
| "IsZero (GBool b) = (\<not> b)"
| "IsZero (GString s) = (s = [])"
| "IsZero (GInt k n) = (n = 0)"
| "IsZero (GFloat k x) = (x = 0)"
| "IsZero GNilSlice = True"
| "IsZero (GSlice vs) = False"
| "IsZero (GArray vs) = IsZero_list vs"
| "IsZero GNilMap = True"
| "IsZero (GMap entries) = False"
| "IsZero (GStruct n fvs) = IsZero_fields fvs"
| "IsZero (GPtr a) = False"
| "IsZero_list [] = True"
| "IsZero_list (v # vs) = (IsZero v \<and> IsZero_list vs)"
| "IsZero_fields [] = True"
| "IsZero_fields ((n, v) # fvs) = (IsZero v \<and> IsZero_fields fvs)"

text \<open>\<open>classifyMapStructure\<close>: the value is no map, a map with a value that is not a
  map (or an empty map), or a map all of whose values are maps.\<close>

datatype mapStructureType = notAMap | shallowMap | nestedMap

fun is_map :: "gvalue \<Rightarrow> bool" where
  "is_map (GMap entries) = True"
| "is_map GNilMap = True"
| "is_map _ = False"

fun classifyMapStructure :: "gvalue \<Rightarrow> mapStructureType \<times> (gvalue \<times> gvalue) list" where
  "classifyMapStructure (GMap m) =
     (if m = [] then (shallowMap, m)
      else if list_all (\<lambda>(k, v). is_map v) m then (nestedMap, m) else (shallowMap, m))"
| "classifyMapStructure GNilMap = (shallowMap, [])"
| "classifyMapStructure _ = (notAMap, [])"

text \<open>\<open>sort.Strings\<close> on the keys of a map, as the order of its entries: an insertion
  sort by the bytes of the keys.\<close>

fun string_le :: "string \<Rightarrow> string \<Rightarrow> bool" where
  "string_le [] t = True"
| "string_le (a # s) [] = False"
| "string_le (a # s) (b # t) =
     ((of_char a :: nat) < of_char b \<or> ((of_char a :: nat) = of_char b \<and> string_le s t))"

fun insert_entry :: "gvalue \<times> gvalue \<Rightarrow> (gvalue \<times> gvalue) list \<Rightarrow> (gvalue \<times> gvalue) list" where
  "insert_entry e [] = [e]"
| "insert_entry e (x # xs) =
     (if string_le (Value_String (fst e)) (Value_String (fst x)) then e # x # xs
      else x # insert_entry e xs)"

fun sort_entries :: "(gvalue \<times> gvalue) list \<Rightarrow> (gvalue \<times> gvalue) list" where
  "sort_entries [] = []"
| "sort_entries (e # es) = insert_entry e (sort_entries es)"

text \<open>\<open>matchlast\<close>: the last of the pieces of \<open>keyname\<close> between spaces is
  \<open>name\<close>.\<close>

fun last_piece :: "string \<Rightarrow> string \<Rightarrow> string" where
  "last_piece [] cur = cur"
| "last_piece (c # cs) cur = (if c = CHR '' '' then last_piece cs [] else last_piece cs (cur @ [c]))"

definition matchlast :: "string \<Rightarrow> string \<Rightarrow> bool" where
  "matchlast keyname name = (last_piece keyname [] = name)"

definition markerNoBrackets :: string where
  "markerNoBrackets = ''NMRBRCKTNDTRMND''"

text \<open>The scalar cases of \<open>encodePrimitiveOrRecurse\<close>: a string between quotes, with
  no escaping; a boolean; an integer; a float, printed as an integer when
  \<open>CtyNumberToNative\<close> makes it one and with \<open>%f\<close> otherwise. \<open>None\<close> for a value
  that is no scalar.\<close>

fun encodePrimitive :: "config \<Rightarrow> gvalue \<Rightarrow> string res option" where
  "encodePrimitive c (GString s) = Some (Ok (quote s))"
| "encodePrimitive c (GBool b) = Some (Ok (if b then ''true'' else ''false''))"
| "encodePrimitive c (GInt k n) = Some (Ok (string_of_int n))"
| "encodePrimitive c (GFloat k x) =
     Some (case CtyNumberToNative (cfg_w c) (cfg_lib c) x of
             (n, Some err) \<Rightarrow> Err err
           | (GInt k' n, None) \<Rightarrow> Ok (string_of_int n)
           | (GFloat k' y, None) \<Rightarrow> Ok (format_f y)
           | (n, None) \<Rightarrow> Panic ''unreachable'')"
| "encodePrimitive c _ = None"

text \<open>\<open>%s\<close> of a slice of bytes: nothing for nil.\<close>

fun bytes_string :: "string option \<Rightarrow> string" where
  "bytes_string None = []"
| "bytes_string (Some s) = s"

text \<open>
  \<open>marshalLevel\<close>, \<open>encoding\<close>, \<open>encodeMap\<close>, \<open>encodeSlice\<close>,
  \<open>encodePrimitiveOrRecurse\<close> and \<open>loopHash\<close>, with the loops of \<open>encodeMap\<close>,
  \<open>encodeSlice\<close> and \<open>loopHash\<close> as functions of their own. A value in a map is an
  interface, so only the nil interface is written \<open>null()\<close>. \<open>loopHash\<close> takes the
  lines so far and returns them with its own.
\<close>

function (sequential) marshalLevel :: "config \<Rightarrow> gvalue \<Rightarrow> bool \<Rightarrow> nat \<Rightarrow> string list \<Rightarrow> string option res"
  and encoding :: "config \<Rightarrow> gvalue \<Rightarrow> bool \<Rightarrow> nat \<Rightarrow> string list \<Rightarrow> string option res"
  and encodeMap :: "config \<Rightarrow> (gvalue \<times> gvalue) list \<Rightarrow> bool \<Rightarrow> nat \<Rightarrow> string list \<Rightarrow> string option res"
  and encodeMap_loop ::
    "config \<Rightarrow> (gvalue \<times> gvalue) list \<Rightarrow> bool \<Rightarrow> nat \<Rightarrow> string list \<Rightarrow> string list \<Rightarrow> string list res"
  and encodeSlice :: "config \<Rightarrow> gvalue list \<Rightarrow> nat \<Rightarrow> string option res"
  and encodeSlice_loop :: "config \<Rightarrow> gvalue list \<Rightarrow> nat \<Rightarrow> string list res"
  and encodePrimitiveOrRecurse :: "config \<Rightarrow> gvalue \<Rightarrow> bool \<Rightarrow> nat \<Rightarrow> (string \<times> string option) res"
  and loopHash ::
    "config \<Rightarrow> string list \<Rightarrow> string \<Rightarrow> gvalue \<Rightarrow> bool \<Rightarrow> nat \<Rightarrow> nat \<Rightarrow> string list \<Rightarrow> string list res"
  and loopHash_keys ::
    "config \<Rightarrow> string list \<Rightarrow> string \<Rightarrow> (gvalue \<times> gvalue) list \<Rightarrow> nat \<Rightarrow> nat \<Rightarrow> string list res" where
  "marshalLevel c current equal level keyname =
     (if current \<noteq> GNil \<and> IsZero current then Ok None
      else case current of
        GPtr a \<Rightarrow> Panic ''marshal of a pointer is not embedded''
      | GStruct n fvs \<Rightarrow> Panic ''marshal of a struct is not embedded''
      | _ \<Rightarrow> encoding c current equal level keyname)"
| "encoding c current equal level keyname =
     (case current of
        GNil \<Rightarrow> Ok None
      | GPtr a \<Rightarrow> Panic ''marshal of a pointer is not embedded''
      | GStruct n fvs \<Rightarrow> Panic ''marshal of a struct is not embedded''
      | GMap m \<Rightarrow> encodeMap c m equal level keyname
      | GNilMap \<Rightarrow> encodeMap c [] equal level keyname
      | GSlice vs \<Rightarrow> encodeSlice c vs level
      | GNilSlice \<Rightarrow> encodeSlice c [] level
      | GArray vs \<Rightarrow> encodeSlice c vs level
      | _ \<Rightarrow> (case encodePrimitive c current of
                Some (Ok str) \<Rightarrow> Ok (Some str)
              | Some (Err e) \<Rightarrow> Err e
              | Some (Panic p) \<Rightarrow> Panic p
              | None \<Rightarrow> Err ''data type not supported''))"
| "encodeMap c m equal level keyname =
     (case encodeMap_loop c m equal level keyname [] of
        Err e \<Rightarrow> Err e
      | Panic p \<Rightarrow> Panic p
      | Ok arr \<Rightarrow>
          (let leading = indent (level + 1);
               lessLeading = indent level;
               body = leading @ strings_Join arr ([CHR 0x0A] @ leading)
           in Ok (Some (if level = 0 then [CHR 0x0A] @ body @ [CHR 0x0A] @ lessLeading
                        else ''{'' @ [CHR 0x0A] @ body @ [CHR 0x0A] @ lessLeading @ ''}''))))"
| "encodeMap_loop c [] equal level keyname arr = Ok arr"
| "encodeMap_loop c ((key, val) # rest) equal level keyname arr =
     (case key of
        GString k \<Rightarrow>
          (if val = GNil then encodeMap_loop c rest equal level keyname (arr @ [k @ '' = null()''])
           else if keyname \<noteq> [] \<and> hd keyname = markerNoBrackets
           then (case encodePrimitiveOrRecurse c val equal level of
                   Err e \<Rightarrow> Err e
                 | Panic p \<Rightarrow> Panic p
                 | Ok (str, bs) \<Rightarrow>
                     encodeMap_loop c rest equal level keyname
                       (arr @ [k @ '' = '' @ (if str \<noteq> [] then str else bytes_string bs)]))
           else (case loopHash c arr k val equal 0 level keyname of
                   Err e \<Rightarrow> Err e
                 | Panic p \<Rightarrow> Panic p
                 | Ok arr2 \<Rightarrow> encodeMap_loop c rest equal level keyname arr2))
      | _ \<Rightarrow> Err ''map key must be string'')"
| "encodeSlice c vs level =
     (case encodeSlice_loop c vs level of
        Err e \<Rightarrow> Err e
      | Panic p \<Rightarrow> Panic p
      | Ok arr \<Rightarrow>
          (let leading = indent (level + 1);
               lessLeading = indent level
           in Ok (Some (''['' @ [CHR 0x0A] @ leading @ strings_Join arr ('','' @ [CHR 0x0A] @ leading)
                          @ [CHR 0x0A] @ lessLeading @ '']''))))"
| "encodeSlice_loop c [] level = Ok []"
| "encodeSlice_loop c (v # vs) level =
     (case marshalLevel c v True (level + 1) [markerNoBrackets] of
        Err e \<Rightarrow> Err e
      | Panic p \<Rightarrow> Panic p
      | Ok bs \<Rightarrow>
          (case encodeSlice_loop c vs level of
             Err e \<Rightarrow> Err e
           | Panic p \<Rightarrow> Panic p
           | Ok arr \<Rightarrow> Ok ((case bs of None \<Rightarrow> ''[]'' | Some item \<Rightarrow> item) # arr)))"
| "encodePrimitiveOrRecurse c item equal level =
     (case encodePrimitive c item of
        Some (Ok str) \<Rightarrow> Ok (str, None)
      | Some (Err e) \<Rightarrow> Err e
      | Some (Panic p) \<Rightarrow> Panic p
      | None \<Rightarrow>
          (case marshalLevel c item equal (level + 1) [] of
             Err e \<Rightarrow> Err e
           | Panic p \<Rightarrow> Panic p
           | Ok bs \<Rightarrow> Ok ([], bs)))"
| "loopHash c lines header item equal depth level keyname =
     (let mapType = (if depth \<ge> 2 \<and> fst (classifyMapStructure item) = nestedMap then shallowMap
                     else fst (classifyMapStructure item))
      in case mapType of
           nestedMap \<Rightarrow>
             (case item of
                GMap nextMap \<Rightarrow> loopHash_keys c lines header (sort_entries nextMap) depth level
              | _ \<Rightarrow> Ok lines)
         | shallowMap \<Rightarrow>
             (case marshalLevel c item equal (level + 1) [header] of
                Err e \<Rightarrow> Err e
              | Panic p \<Rightarrow> Panic p
              | Ok bs \<Rightarrow> Ok (lines @ [header @ '' '' @ bytes_string bs]))
         | notAMap \<Rightarrow>
             (case encodePrimitiveOrRecurse c item equal level of
                Err e \<Rightarrow> Err e
              | Panic p \<Rightarrow> Panic p
              | Ok (str, bs) \<Rightarrow>
                  (if bs \<noteq> None \<and> keyname \<noteq> [] \<and> matchlast (hd keyname) (bytes_string bs)
                   then Ok lines
                   else Ok (lines @ [header @ '' = '' @ (if str \<noteq> [] then str else bytes_string bs)]))))"
| "loopHash_keys c lines header [] depth level = Ok lines"
| "loopHash_keys c lines header ((key, val) # rest) depth level =
     (case loopHash c lines (header @ '' '' @ quote (Value_String key)) val False (Suc depth) level [] of
        Err e \<Rightarrow> Err e
      | Panic p \<Rightarrow> Panic p
      | Ok lines2 \<Rightarrow> loopHash_keys c lines2 header rest depth level)"

  by pat_completeness auto
termination
proof -
  have ins: "size_list f (insert_entry e xs) = f e + size_list f xs + 1" for f e xs
    by (induction xs) auto
  have srt: "size_list f (sort_entries xs) = size_list f xs" for f xs
    by (induction xs) (auto simp: ins)
  show ?thesis
    by (relation "measure
          (case_sum
            (case_sum
              (case_sum (\<lambda>(c, current, r). 8 * size current + 3)
                        (\<lambda>(c, current, r). 8 * size current + 2))
              (case_sum (\<lambda>(c, m, r). 8 * size_list (size_prod size size) m + 1)
                        (\<lambda>(c, m, r). 8 * size_list (size_prod size size) m)))
            (case_sum
              (case_sum (\<lambda>(c, vs, r). 8 * size_list size vs + 1)
                        (\<lambda>(c, vs, r). 8 * size_list size vs))
              (case_sum (\<lambda>(c, item, r). 8 * size item + 4)
                (case_sum (\<lambda>(c, lines, header, item, r). 8 * size item + 5)
                          (\<lambda>(c, lines, header, m, r). 8 * size_list (size_prod size size) m)))))")
       (auto simp: srt)
qed

text \<open>\<open>Marshal\<close> and \<open>MarshalLevel\<close>.\<close>

definition MarshalLevel :: "config \<Rightarrow> gvalue \<Rightarrow> nat \<Rightarrow> string option res" where
  "MarshalLevel c current level = marshalLevel c current False level []"

definition Marshal :: "config \<Rightarrow> gvalue \<Rightarrow> string option res" where
  "Marshal c current = (if current = GNil then Ok None else MarshalLevel c current 0)"

section \<open>Types, documents and registries to run the decoder on\<close>

text \<open>
  The structs of the test \<open>TestProcessBlockFieldsErrorMissingRef\<close>, with one more
  field \<open>Name\<close> in the outer struct:

  \<^verbatim>\<open>type Inner struct { Value string `hcl:"value"` }\<close>

  \<^verbatim>\<open>type Outer struct { Name string `hcl:"name"`; Nested Inner `hcl:"nested"` }\<close>
\<close>

definition Inner :: gotype where
  "Inner = TStruct ''Inner'' [(''Value'', hcl_tag ''value'', False, TString)]"

definition Outer :: gotype where
  "Outer = TStruct ''Outer''
     [(''Name'', hcl_tag ''name'', False, TString), (''Nested'', hcl_tag ''nested'', False, Inner)]"

text \<open>A conversion library that also converts strings and booleans to their Go types,
  and a configuration around it: a 64-bit platform, no variables and no functions
  beyond \<open>null\<close>, no type with a method \<open>UnmarshalHCL\<close>. The form of \<open>clone\<close> is
  the argument.\<close>

definition decode_lib :: gocty_lib where
  "decode_lib =
     example_lib\<lparr>FromCtyValue_other :=
       (\<lambda>v t. case (v, t) of
                 (CtyString s, TString) \<Rightarrow> Inr (GString s)
               | (CtyBool b, TBool) \<Rightarrow> Inr (GBool b)
               | _ \<Rightarrow> Inl ''unsupported'')\<rparr>"

definition example_config :: "(heap \<Rightarrow> nat \<Rightarrow> (heap \<times> nat) option) \<Rightarrow> config" where
  "example_config cl =
     \<lparr>cfg_w = 64, cfg_lib = decode_lib, cfg_ev = no_evaluator, cfg_clone = cl,
      cfg_Unmarshaler = (\<lambda>t. None)\<rparr>"

text \<open>A document that parses to the body \<open>b\<close>: it is not blank, does not begin with a
  brace, and is not an expression.\<close>

definition as_document :: "body \<Rightarrow> document" where
  "as_document b = \<lparr>doc_map = Text (Inr b), doc_slice = Inl ''syntax error'', doc_body = Inr b\<rparr>"

text \<open>The document

  \<^verbatim>\<open>name = "x"\<close>

  \<^verbatim>\<open>nested { value = "test" }\<close>

  and the same document without the attribute of the block.\<close>

definition outer_body :: body where
  "outer_body =
     Body [(''name'', LiteralValueExpr (CtyString ''x''))]
          [Block ''nested'' [] (Body [(''value'', LiteralValueExpr (CtyString ''test''))] [] [])] []"

definition outer_body_unset :: body where
  "outer_body_unset =
     Body [(''name'', LiteralValueExpr (CtyString ''x''))] [Block ''nested'' [] (Body [] [] [])] []"

text \<open>The specification \<open>NewStruct("Outer", {"Nested": "Inner"})\<close>.\<close>

definition outer_spec :: Struct where
  "outer_spec = Struct ''Outer'' [(''Nested'', SingleStruct (Struct ''Inner'' []))]"

text \<open>The state before a call: the target \<open>&Outer{}\<close> at address 0, followed by the
  cells \<open>h\<close> of the prototypes, and a registry with the classes \<open>cls\<close>.\<close>

definition outer_state :: "(string \<times> nat) list \<Rightarrow> heap \<Rightarrow> dstate" where
  "outer_state cls h =
     \<lparr>trees = [], heap = (Outer, Zero Outer) # h,
      ref = Some \<lparr>classes = cls, ATTRIBUTES = None, FUNCTIONS = False\<rparr>\<rparr>"

text \<open>The value of the struct at an address after a call, and the outcome of the call.\<close>

definition struct_at :: "nat \<Rightarrow> outcome \<times> dstate \<Rightarrow> gvalue" where
  "struct_at a r = snd (heap (snd r) ! a)"



definition empty_registry_state :: dstate where
  "empty_registry_state =
     \<lparr>trees = [NewTree ''var''], heap = [(Outer, Zero Outer)],
      ref = Some \<lparr>classes = [], ATTRIBUTES = Some 0, FUNCTIONS = True\<rparr>\<rparr>"


text \<open>A state whose registry holds, for the class \<open>Inner\<close>, the prototype
  \<open>&Inner{Value: "preset"}\<close> at address 1.\<close>

definition preset_registry :: dstate where
  "preset_registry =
     \<lparr>trees = [NewTree ''var''],
      heap = [(Outer, Zero Outer), (Inner, GStruct ''Inner'' [(''Value'', GString ''preset'')])],
      ref = Some \<lparr>classes = [(''Inner'', 1)], ATTRIBUTES = Some 0, FUNCTIONS = True\<rparr>\<rparr>"


definition generic_map_state :: dstate where
  "generic_map_state = \<lparr>trees = [], heap = [(TMap TString TInterface, GMap [])], ref = None\<rparr>"


text \<open>The document \<open>a = [0]\<close>; the bytes \<open>Marshal\<close> returns for what it decodes to,
  which are the lines \<open>a = [\<close>, \<open>[]\<close> and \<open>]\<close>; the body these bytes are, the
  attribute \<open>a\<close> with a list that holds one empty list; and the document
  \<open>a = []\<close>.\<close>

definition zero_list_body :: body where
  "zero_list_body = Body [(''a'', TupleConsExpr [LiteralValueExpr (CtyNumber 0)])] [] []"

definition zero_list_marshalled :: string where
  "zero_list_marshalled =
     [CHR 0x0A] @ ''  a = ['' @ [CHR 0x0A] @ ''    []'' @ [CHR 0x0A] @ ''  ]'' @ [CHR 0x0A]"

definition zero_list_reparsed :: body where
  "zero_list_reparsed = Body [(''a'', TupleConsExpr [TupleConsExpr []])] [] []"

definition empty_list_body :: body where
  "empty_list_body = Body [(''a'', TupleConsExpr [])] [] []"

section \<open>Scope tree: sibling names stay distinct\<close>

lemma findNodeByName_None:
  "findNodeByName h downs name = None \<longleftrightarrow> name \<notin> set (map (\<lambda>c. Name (h ! c)) downs)"
  by (induction downs) auto

lemma findNodeByName_Some:
  "findNodeByName h downs name = Some c \<Longrightarrow> c \<in> set downs \<and> Name (h ! c) = name"
  by (induction downs) (auto split: if_splits)

lemma AddNode_new:
  assumes "self < length h" "findNodeByName h (Downs (h ! self)) name = None"
  shows "\<exists>h'. AddNode h self name = Some (h', length h) \<and> length h' = Suc (length h)
     \<and> (\<forall>a. a \<le> length h \<longrightarrow> Name (h' ! a) = (if a = length h then name else Name (h ! a)))
     \<and> (\<forall>a. a \<le> length h \<longrightarrow> Downs (h' ! a) =
            (if a = length h then [] else if a = self then Downs (h ! self) @ [length h] else Downs (h ! a)))"
  using assms
  by (auto simp: AddNode_def Let_def NewTree_def nth_append nth_list_update)

lemma AddNode_old:
  assumes "self < length h" "findNodeByName h (Downs (h ! self)) name = Some c"
  shows "AddNode h self name = Some (h, c)"
  using assms by (simp add: AddNode_def)

lemma AddNode_inv:
  assumes "tree_inv h" "AddNode h self name = Some (h', c)"
  shows "tree_inv h' \<and> c < length h' \<and> length h \<le> length h'"
proof -
  from assms(2) have self: "self < length h" by (auto simp: AddNode_def split: if_splits)
  show ?thesis
  proof (cases "findNodeByName h (Downs (h ! self)) name")
    case (Some d)
    with self assms(2) have "h' = h" "c = d" by (auto simp: AddNode_def)
    moreover from Some have "d \<in> set (Downs (h ! self))" by (auto dest: findNodeByName_Some)
    ultimately show ?thesis using assms(1) self by (auto simp: tree_inv_def children_allocated_def)
  next
    case None
    from AddNode_new[OF self None] assms(2) obtain 
      len: "length h' = Suc (length h)" and c: "c = length h"
      and nm: "\<And>a. a \<le> length h \<Longrightarrow> Name (h' ! a) = (if a = length h then name else Name (h ! a))"
      and dn: "\<And>a. a \<le> length h \<Longrightarrow> Downs (h' ! a) =
            (if a = length h then [] else if a = self then Downs (h ! self) @ [length h] else Downs (h ! a))"
      by auto
    from assms(1) have alloc: "\<And>a x. a < length h \<Longrightarrow> x \<in> set (Downs (h ! a)) \<Longrightarrow> x < length h"
      and dist: "\<And>a. a < length h \<Longrightarrow> distinct (child_names h a)"
      by (auto simp: tree_inv_def children_allocated_def siblings_distinct_def)
    have A: "children_allocated h'"
      unfolding children_allocated_def using len dn alloc self
      by (auto simp: less_Suc_eq_le split: if_splits dest!: alloc[rotated] ) 
    have names_old: "\<And>a. a < length h \<Longrightarrow> map (\<lambda>c. Name (h' ! c)) (Downs (h ! a)) = child_names h a"
      unfolding child_names_def using alloc nm by (auto simp: less_imp_le)
    have B: "siblings_distinct h'"
      unfolding siblings_distinct_def
    proof (intro allI impI)
      fix a assume "a < length h'"
      then have a: "a \<le> length h" using len by simp
      show "distinct (child_names h' a)"
      proof (cases "a = length h")
        case True then show ?thesis using dn[OF a] by (simp add: child_names_def)
      next
        case False
        then have al: "a < length h" using a by simp
        show ?thesis
        proof (cases "a = self")
          case True
          have "child_names h' a = child_names h self @ [name]"
            using dn[OF a] True False names_old[OF self] nm[of "length h"] by (simp add: child_names_def)
          moreover have "name \<notin> set (child_names h self)"
            using None by (simp add: findNodeByName_None child_names_def)
          ultimately show ?thesis using dist[OF self] by simp
        next
          case False
          then have "child_names h' a = child_names h a"
            using dn[OF a] \<open>a \<noteq> length h\<close> names_old[OF al] by (simp add: child_names_def)
          then show ?thesis using dist[OF al] by simp
        qed
      qed
    qed
    show ?thesis using A B len c by (simp add: tree_inv_def)
  qed
qed

lemma AddNodes_loop_inv:
  "tree_inv h \<Longrightarrow> AddNodes_loop h node names = Some (h', c) \<Longrightarrow> tree_inv h'"
proof (induction names arbitrary: h node)
  case Nil
  then show ?case by simp
next
  case (Cons name names)
  from Cons.prems(2) obtain h1 n1 where s: "AddNode h node name = Some (h1, n1)"
    and r: "AddNodes_loop h1 n1 names = Some (h', c)"
    by (auto split: option.splits)
  from AddNode_inv[OF Cons.prems(1) s] have "tree_inv h1" by simp
  then show ?case using Cons.IH r by blast
qed

lemma AddNodes_inv:
  "tree_inv h \<Longrightarrow> AddNodes h self tag names = Some (h', c) \<Longrightarrow> tree_inv h'"
  unfolding AddNodes_def
  by (auto split: option.splits dest: AddNode_inv AddNodes_loop_inv)

lemma distinct_remove_index:
  "distinct xs \<Longrightarrow> distinct (take i xs @ drop (Suc i) xs)"
  by (simp add: set_take_disj_set_drop_if_distinct)

lemma DeleteNode_Downs:
  assumes "DeleteNode h self name = Some h'"
  shows "self < length h \<and> length h' = length h \<and>
    (\<forall>a < length h. Name (h' ! a) = Name (h ! a)) \<and>
    (\<forall>a < length h. a \<noteq> self \<longrightarrow> Downs (h' ! a) = Downs (h ! a)) \<and>
    (\<exists>i. Downs (h' ! self) = take i (Downs (h ! self)) @ drop (Suc i) (Downs (h ! self))
       \<or> Downs (h' ! self) = Downs (h ! self))"
proof -
  from assms have self: "self < length h" by (auto simp: DeleteNode_def split: if_splits)
  show ?thesis
  proof (cases "first_index h (Downs (h ! self)) name")
    case None
    then show ?thesis using assms self by (auto simp: DeleteNode_def)
  next
    case (Some i)
    then have h': "h' = h[self := (h ! self)\<lparr>Downs := take i (Downs (h ! self)) @ drop (Suc i) (Downs (h ! self))\<rparr>]"
      using assms self by (auto simp: DeleteNode_def Let_def split: if_splits)
    have "Downs (h' ! self) = take i (Downs (h ! self)) @ drop (Suc i) (Downs (h ! self))"
      using self by (simp add: h')
    then show ?thesis using self by (auto simp: h' nth_list_update)
  qed
qed

lemma DeleteNode_inv:
  assumes "tree_inv h" "DeleteNode h self name = Some h'"
  shows "tree_inv h'"
proof -
  from DeleteNode_Downs[OF assms(2)] obtain i where
    self: "self < length h" and len: "length h' = length h"
    and nm: "\<And>a. a < length h \<Longrightarrow> Name (h' ! a) = Name (h ! a)"
    and other: "\<And>a. a < length h \<Longrightarrow> a \<noteq> self \<Longrightarrow> Downs (h' ! a) = Downs (h ! a)"
    and dn: "Downs (h' ! self) = take i (Downs (h ! self)) @ drop (Suc i) (Downs (h ! self))
       \<or> Downs (h' ! self) = Downs (h ! self)"
    by blast
  from assms(1) have alloc: "\<And>a x. a < length h \<Longrightarrow> x \<in> set (Downs (h ! a)) \<Longrightarrow> x < length h"
    and dist: "\<And>a. a < length h \<Longrightarrow> distinct (child_names h a)"
    by (auto simp: tree_inv_def children_allocated_def siblings_distinct_def)
  have sub: "\<And>a. a < length h \<Longrightarrow> set (Downs (h' ! a)) \<subseteq> set (Downs (h ! a))"
  proof -
    fix a assume a: "a < length h"
    show "set (Downs (h' ! a)) \<subseteq> set (Downs (h ! a))"
    proof (cases "a = self")
      case True
      then show ?thesis using dn by (auto dest: in_set_takeD in_set_dropD)
    next
      case False
      then show ?thesis using other[OF a] by simp
    qed
  qed
  have A: "children_allocated h'"
    unfolding children_allocated_def using len sub alloc by auto
  have names: "\<And>a ds. a < length h \<Longrightarrow> set ds \<subseteq> set (Downs (h ! a)) \<Longrightarrow>
      map (\<lambda>c. Name (h' ! c)) ds = map (\<lambda>c. Name (h ! c)) ds"
    using alloc nm by auto
  have B: "siblings_distinct h'"
    unfolding siblings_distinct_def
  proof (intro allI impI)
    fix a assume "a < length h'"
    then have a: "a < length h" using len by simp
    have eq: "child_names h' a = map (\<lambda>c. Name (h ! c)) (Downs (h' ! a))"
      unfolding child_names_def using names[OF a sub[OF a]] .
    show "distinct (child_names h' a)"
    proof (cases "a = self")
      case False
      then show ?thesis unfolding eq using other[OF a] dist[OF a] by (simp add: child_names_def)
    next
      case True
      from dn show ?thesis
      proof
        assume "Downs (h' ! self) = Downs (h ! self)"
        then show ?thesis unfolding eq using True dist[OF a] by (simp add: child_names_def)
      next
        assume d: "Downs (h' ! self) = take i (Downs (h ! self)) @ drop (Suc i) (Downs (h ! self))"
        have "child_names h' a = take i (child_names h self) @ drop (Suc i) (child_names h self)"
          unfolding eq using True d by (simp add: child_names_def take_map drop_map)
        then show ?thesis using distinct_remove_index[OF dist[OF self]] by simp
      qed
    qed
  qed
  show ?thesis using A B by (simp add: tree_inv_def)
qed

lemma apply_tree_op_inv:
  "tree_inv h \<Longrightarrow> apply_tree_op h op = Some h' \<Longrightarrow> tree_inv h'"
  by (cases op) (auto dest: AddNode_inv AddNodes_inv DeleteNode_inv)

lemma run_tree_ops_inv:
  "tree_inv h \<Longrightarrow> run_tree_ops h ops = Some h' \<Longrightarrow> tree_inv h'"
proof (induction ops arbitrary: h)
  case Nil
  then show ?case by simp
next
  case (Cons op ops)
  then show ?case by (auto split: option.splits dest: apply_tree_op_inv)
qed

lemma tree_inv_NewTree: "tree_inv [NewTree name]"
  by (simp add: tree_inv_def children_allocated_def siblings_distinct_def child_names_def NewTree_def)

lemma AddNode_existing:
  assumes "tree_inv h" "self < length h" "d \<in> set (Downs (h ! self))" "Name (h ! d) = name"
  shows "AddNode h self name = Some (h, d)"
proof -
  have "name \<in> set (map (\<lambda>c. Name (h ! c)) (Downs (h ! self)))"
    using assms(3,4) by force
  then obtain c where c: "findNodeByName h (Downs (h ! self)) name = Some c"
    using findNodeByName_None[of h "Downs (h ! self)" name] by (cases "findNodeByName h (Downs (h ! self)) name") auto
  then have cin: "c \<in> set (Downs (h ! self))" and cn: "Name (h ! c) = name"
    by (auto dest: findNodeByName_Some)
  have "distinct (map (\<lambda>c. Name (h ! c)) (Downs (h ! self)))"
    using assms(1,2) by (simp add: tree_inv_def siblings_distinct_def child_names_def)
  then have "inj_on (\<lambda>c. Name (h ! c)) (set (Downs (h ! self)))"
    by (simp add: distinct_map)
  then have "c = d" using cin cn assms(3,4) by (auto dest: inj_onD)
  then show ?thesis using c assms(2) by (simp add: AddNode_def)
qed

lemma AddNode_total:
  assumes "self < length h"
  shows "\<exists>h1 c. AddNode h self name = Some (h1, c) \<and> c \<in> set (Downs (h1 ! self)) \<and> Name (h1 ! c) = name"
proof (cases "findNodeByName h (Downs (h ! self)) name")
  case None
  from AddNode_new[OF assms None] show ?thesis using assms by auto
next
  case (Some c)
  then show ?thesis using assms by (auto simp: AddNode_def dest: findNodeByName_Some)
qed

text \<open>
  C9. From a fresh root, and from any store whose nodes have pairwise distinct child
  names, every sequence of \<open>AddNode\<close>, \<open>AddNodes\<close> and \<open>DeleteNode\<close> that runs
  (no receiver is nil) ends in a store where the names of every node's children are
  pairwise distinct. On an allocated node \<open>AddNode\<close> always returns a child of that
  node with the requested name, and when a child of that name exists it returns that
  child and leaves the store as it was: no second sibling of the name is created.
\<close>

theorem scope_tree_sibling_names_distinct:
  "tree_inv ([NewTree nm] :: 'v store) \<and>
   (\<forall>(h :: 'v store) ops h'. tree_inv h \<and> run_tree_ops h ops = Some h'
       \<longrightarrow> tree_inv h' \<and> siblings_distinct h') \<and>
   (\<forall>(h :: 'v store) self name. tree_inv h \<and> self < length h \<longrightarrow>
       (\<exists>h1 c. AddNode h self name = Some (h1, c) \<and> tree_inv h1
           \<and> c \<in> set (Downs (h1 ! self)) \<and> Name (h1 ! c) = name) \<and>
       (\<forall>d. d \<in> set (Downs (h ! self)) \<and> Name (h ! d) = name
           \<longrightarrow> AddNode h self name = Some (h, d)))"
proof (intro conjI allI impI)
  show "tree_inv ([NewTree nm] :: 'v store)" by (rule tree_inv_NewTree)
next
  fix h :: "'v store" and ops h'
  assume "tree_inv h \<and> run_tree_ops h ops = Some h'"
  then show "tree_inv h'" by (auto dest: run_tree_ops_inv)
  then show "siblings_distinct h'" by (simp add: tree_inv_def)
next
  fix h :: "'v store" and self name
  assume a: "tree_inv h \<and> self < length h"
  then obtain h1 c where r: "AddNode h self name = Some (h1, c)"
    "c \<in> set (Downs (h1 ! self))" "Name (h1 ! c) = name"
    using AddNode_total[of self h name] by blast
  moreover have "tree_inv h1" using AddNode_inv[of h self name h1 c] a r(1) by simp
  ultimately show "\<exists>h1 c. AddNode h self name = Some (h1, c) \<and> tree_inv h1
           \<and> c \<in> set (Downs (h1 ! self)) \<and> Name (h1 ! c) = name" by blast
next
  fix h :: "'v store" and self name d
  assume "tree_inv h \<and> self < length h" "d \<in> set (Downs (h ! self)) \<and> Name (h ! d) = name"
  then show "AddNode h self name = Some (h, d)" by (auto intro: AddNode_existing)
qed

lemma example_run: "run_tree_ops [NewTree ''var''] example_tree_ops = Some example_tree_store"
  by (simp add: example_tree_ops_def example_tree_store_def AddNode_def AddNodes_def
      DeleteNode_def NewTree_def Let_def)

theorem scope_tree_sibling_names_distinct_witness:
  "run_tree_ops [NewTree ''var''] example_tree_ops = Some example_tree_store \<and>
   siblings_distinct example_tree_store \<and>
   child_names example_tree_store 0 = [''b'', ''d''] \<and>
   AddNode example_tree_store 0 ''b'' = Some (example_tree_store, 2)"
proof -
  have run: "run_tree_ops [NewTree ''var''] example_tree_ops = Some example_tree_store"
    by (rule example_run)
  have inv: "tree_inv example_tree_store \<and> siblings_distinct example_tree_store"
    using scope_tree_sibling_names_distinct[of "''var''"] run by blast
  have "AddNode example_tree_store 0 ''b'' = Some (example_tree_store, 2)"
    by (simp add: example_tree_store_def AddNode_def)
  then show ?thesis using run inv by (simp add: child_names_def example_tree_store_def)
qed

section \<open>Format conversion: empty input and partial output\<close>

lemma convertFormat_empty:
  "convertFormat [] unmarshal marshal = (None, Some ''input is empty'')"
  by (simp add: convertFormat_def)

lemma convertFormat_output:
  assumes "convertFormat raw unmarshal marshal = (Some out, err)"
  shows "err = None \<and> raw \<noteq> [] \<and>
    (\<exists>obj. unmarshal raw (GMap []) = (obj, None) \<and> marshal obj = (Some out, None))"
  using assms
  by (auto simp: convertFormat_def Let_def split: if_splits prod.splits option.splits)

lemma convertFormat_error_nil:
  assumes "convertFormat raw unmarshal marshal = (out, Some e)"
  shows "out = None"
  using assms
  by (auto simp: convertFormat_def Let_def split: if_splits prod.splits option.splits)

text \<open>
  C10. Each of the six public conversion functions returns nil bytes and the error
  \<open>input is empty\<close> on a zero-length input; whenever it returns an error the bytes are
  nil; and it returns bytes only when its unmarshal step and its marshal step both
  returned no error, the bytes being those of the marshal step.
\<close>

theorem conversion_empty_input_and_no_partial_output:
  assumes "(f, unmarshal, marshal) \<in> set (converters c)"
  shows "f [] = (None, Some ''input is empty'') \<and>
    (\<forall>raw out e. f raw = (out, Some e) \<longrightarrow> out = None) \<and>
    (\<forall>raw out err. f raw = (Some out, err) \<longrightarrow> err = None \<and> raw \<noteq> [] \<and>
        (\<exists>obj. unmarshal raw (GMap []) = (obj, None) \<and> marshal obj = (Some out, None)))"
proof -
  have hcl: "hclUnmarshal c = dethcl_Unmarshal c"
    by (rule ext, rule ext) (simp add: hclUnmarshal_def)
  have f: "f raw = convertFormat raw unmarshal marshal" for raw
    using assms
    by (auto simp: converters_def JSONToYAML_def YAMLToJSON_def JSONToHCL_def HCLToJSON_def
        YAMLToHCL_def HCLToYAML_def hcl)
  show ?thesis
    unfolding f
    by (auto simp: convertFormat_empty dest: convertFormat_output convertFormat_error_nil)
qed

theorem conversion_empty_input_and_no_partial_output_witness:
  "HCLToJSON example_codecs [] = (None, Some ''input is empty'') \<and>
   HCLToJSON example_codecs ''{}'' = (Some ''{}'', None) \<and>
   HCLToJSON example_codecs ''{'' = (None, Some ''failed to unmarshal input: syntax error'') \<and>
   (\<exists>obj. dethcl_Unmarshal example_codecs ''{}'' (GMap []) = (obj, None)
      \<and> json_Marshal example_codecs obj = (Some ''{}'', None))"
proof -
  have m: "(HCLToJSON example_codecs, dethcl_Unmarshal example_codecs, json_Marshal example_codecs)
      \<in> set (converters example_codecs)"
    by (simp add: converters_def)
  have r: "HCLToJSON example_codecs ''{}'' = (Some ''{}'', None)"
    by (simp add: HCLToJSON_def hclUnmarshal_def convertFormat_def example_codecs_def Let_def)
  have e: "HCLToJSON example_codecs ''{'' = (None, Some ''failed to unmarshal input: syntax error'')"
    by (simp add: HCLToJSON_def hclUnmarshal_def convertFormat_def example_codecs_def Let_def)
  from conversion_empty_input_and_no_partial_output[OF m] r e show ?thesis by blast
qed

section \<open>Value conversion: integers\<close>

lemma is_integral_of_int [simp]: "is_integral (of_int n)"
  by (simp add: is_integral_def)

lemma is_integralE: "is_integral x \<Longrightarrow> (\<And>n. x = of_int n \<Longrightarrow> P) \<Longrightarrow> P"
  by (metis is_integral_def)

lemma trunc_of_int [simp]: "trunc (of_int n) = n"
  by (simp add: trunc_def)

lemma int_bounds:
  assumes "w = 32 \<or> w = 64"
  shows "MinInt64 \<le> int_min w k" "int_max w k \<le> MaxUint64" 
    "is_signed k \<Longrightarrow> int_max w k \<le> MaxInt64" "int_min w k \<le> 0"
  using assms by (cases k; auto simp: int_min_def int_max_def MinInt64_def MaxInt64_def MaxUint64_def)+

lemma fromCtyNumberInt_of_int:
  assumes "w = 32 \<or> w = 64" "is_signed k"
  shows "fromCtyNumberInt w k (of_int n) =
     (if int_min w k \<le> n \<and> n \<le> int_max w k then Inr n
      else Inl ''value must be a whole number, between min and max'')"
  using int_bounds(1)[OF assms(1), of k] int_bounds(3)[OF assms]
  by (auto simp: fromCtyNumberInt_def Float_Int64_def Let_def)

lemma fromCtyNumberInt_nonint:
  assumes "\<not> is_integral x"
  shows "fromCtyNumberInt w k x = Inl ''value must be a whole number, between min and max''"
  using assms by (auto simp: fromCtyNumberInt_def Float_Int64_def Let_def)

lemma fromCtyNumberUInt_of_int:
  assumes "w = 32 \<or> w = 64" "\<not> is_signed k"
  shows "fromCtyNumberUInt w k (of_int n) =
     (if int_min w k \<le> n \<and> n \<le> int_max w k then Inr n
      else Inl ''value must be a whole number, between 0 and max inclusive'')"
  using int_bounds(2)[OF assms(1), of k] assms(2)
  by (auto simp: fromCtyNumberUInt_def Float_Uint64_def Let_def int_min_def)

lemma fromCtyNumberUInt_nonint:
  assumes "\<not> is_integral x"
  shows "fromCtyNumberUInt w k x = Inl ''value must be a whole number, between 0 and max inclusive''"
  using assms by (auto simp: fromCtyNumberUInt_def Float_Uint64_def Let_def)

lemma FromCtyValue_integer:
  assumes "w = 32 \<or> w = 64"
  shows "FromCtyValue w lib (CtyNumber x) (TInteger k) =
     (if fits w k x then Inr (GInt k \<lfloor>x\<rfloor>)
      else Inl (if is_signed k then ''value must be a whole number, between min and max''
                else ''value must be a whole number, between 0 and max inclusive''))"
proof (cases "is_integral x")
  case True
  then obtain n where x: "x = of_int n" by (rule is_integralE)
  show ?thesis
    by (simp add: x fits_def fromCtyNumberInt_of_int[OF assms] fromCtyNumberUInt_of_int[OF assms])
next
  case False
  then show ?thesis
    by (simp add: fits_def fromCtyNumberInt_nonint fromCtyNumberUInt_nonint)
qed

lemma ConvertCtyToFieldType_integer:
  "ConvertCtyToFieldType w lib (CtyNumber x) (TInteger k) =
     (case FromCtyValue w lib (CtyNumber x) (TInteger k) of
        Inl err \<Rightarrow> (GNil, Some (''failed to convert cty.Value to '' @ int_kind_name k @ '': '' @ err))
      | Inr g \<Rightarrow> (g, None))"
  by (simp add: ConvertCtyToFieldType_def del: FromCtyValue.simps split: sum.split)

lemma fits_floor: "fits w k x \<Longrightarrow> of_int \<lfloor>x\<rfloor> = x \<and> int_min w k \<le> \<lfloor>x\<rfloor> \<and> \<lfloor>x\<rfloor> \<le> int_max w k"
  unfolding fits_def is_integral_def by blast

text \<open>
  C3. For every number and every integer target type, \<open>ConvertCtyToFieldType\<close> returns
  nil with an error that begins \<open>failed to convert cty.Value to\<close> followed by the name
  of the target type whenever the number is not a whole number between the least and the
  greatest value of the target's width and sign; when the number fits it returns that
  number in the target type; and a value it returns without an error is always the
  number itself, never a truncated or wrapped one.
\<close>

theorem convert_integer_exact_or_error:
  assumes "w = 32 \<or> w = 64"
  shows "(\<not> fits w k x \<longrightarrow>
            (\<exists>msg. ConvertCtyToFieldType w lib (CtyNumber x) (TInteger k) =
               (GNil, Some (''failed to convert cty.Value to '' @ type_name (TInteger k) @ '': '' @ msg)))) \<and>
         (fits w k x \<longrightarrow>
            ConvertCtyToFieldType w lib (CtyNumber x) (TInteger k) = (GInt k \<lfloor>x\<rfloor>, None)) \<and>
         (\<forall>g. ConvertCtyToFieldType w lib (CtyNumber x) (TInteger k) = (g, None) \<longrightarrow>
            g = GInt k \<lfloor>x\<rfloor> \<and> of_int \<lfloor>x\<rfloor> = x \<and> int_min w k \<le> \<lfloor>x\<rfloor> \<and> \<lfloor>x\<rfloor> \<le> int_max w k)"
proof (cases "fits w k x")
  case True
  then have "ConvertCtyToFieldType w lib (CtyNumber x) (TInteger k) = (GInt k \<lfloor>x\<rfloor>, None)"
    unfolding ConvertCtyToFieldType_integer FromCtyValue_integer[OF assms] by simp
  then show ?thesis using True fits_floor[OF True] by simp
next
  case False
  then have "ConvertCtyToFieldType w lib (CtyNumber x) (TInteger k) =
     (GNil, Some (''failed to convert cty.Value to '' @ type_name (TInteger k) @ '': '' @
        (if is_signed k then ''value must be a whole number, between min and max''
                else ''value must be a whole number, between 0 and max inclusive'')))"
    unfolding ConvertCtyToFieldType_integer FromCtyValue_integer[OF assms] by simp
  then show ?thesis using False by simp
qed

theorem convert_integer_exact_or_error_witness:
  "\<not> fits 64 KUint8 300 \<and>
   ConvertCtyToFieldType 64 example_lib (CtyNumber 300) (TInteger KUint8) =
     (GNil, Some ''failed to convert cty.Value to uint8: value must be a whole number, between 0 and max inclusive'') \<and>
   fits 64 KUint8 255 \<and>
   ConvertCtyToFieldType 64 example_lib (CtyNumber 255) (TInteger KUint8) = (GInt KUint8 255, None)"
proof -
  have w: "(64::nat) = 32 \<or> (64::nat) = 64" by simp
  have a: "\<not> fits 64 KUint8 300" by (simp add: fits_def int_max_def)
  have b: "fits 64 KUint8 255" by (simp add: fits_def int_max_def int_min_def is_integral_def)
  have c: "ConvertCtyToFieldType 64 example_lib (CtyNumber 300) (TInteger KUint8) =
     (GNil, Some ''failed to convert cty.Value to uint8: value must be a whole number, between 0 and max inclusive'')"
    by (simp add: ConvertCtyToFieldType_def fromCtyNumberUInt_def Float_Uint64_def MaxUint64_def int_max_def
         trunc_def)
  have d: "ConvertCtyToFieldType 64 example_lib (CtyNumber 255) (TInteger KUint8) = (GInt KUint8 \<lfloor>255 :: rat\<rfloor>, None)"
    by (rule mp[OF convert_integer_exact_or_error[OF w, of KUint8 255 example_lib, THEN conjunct2, THEN conjunct1] b])
  have e: "\<lfloor>255 :: rat\<rfloor> = 255" by simp
  show ?thesis using a b c d unfolding e by (intro conjI)
qed

section \<open>Value conversion: the native kind of a number\<close>

lemma to_int_small:
  assumes "w = 32 \<or> w = 64" "- (2 ^ 31) \<le> x" "x \<le> 2 ^ 31 - 1"
  shows "to_int w x = x"
  using assms by (auto simp: to_int_def)

lemma Float_Int64_of_int:
  "Float_Int64 (of_int n) =
     (if n < MinInt64 then (MinInt64, Above) else if n > MaxInt64 then (MaxInt64, Below) else (n, Exact))"
  by (simp add: Float_Int64_def)

lemma fromCtyNumberInt_int64:
  assumes "w = 32 \<or> w = 64" "MinInt64 \<le> n" "n \<le> MaxInt64"
  shows "fromCtyNumberInt w KInt64 (of_int n) = Inr n"
  using assms by (simp add: fromCtyNumberInt_of_int int_min_def int_max_def MinInt64_def MaxInt64_def)

lemma CtyNumberToNative_int:
  assumes w: "w = 32 \<or> w = 64" and lo: "- (2 ^ 31) \<le> n" and hi: "n \<le> 2 ^ 31 - 1"
  shows "CtyNumberToNative w lib (of_int n) = (GInt KInt n, None)"
proof -
  have r: "MinInt64 \<le> n" "n \<le> MaxInt64" using lo hi by (simp_all add: MinInt64_def MaxInt64_def)
  have acc: "snd (Float_Int64 (of_int n)) = Exact" using r by (simp add: Float_Int64_of_int)
  show ?thesis
    using lo hi by (simp add: CtyNumberToNative_def acc fromCtyNumberInt_int64[OF w r] to_int_small[OF w lo hi])
qed

lemma CtyNumberToNative_int64:
  assumes w: "w = 32 \<or> w = 64" and r: "MinInt64 \<le> n" "n \<le> MaxInt64"
    and out: "n > 2 ^ 31 - 1 \<or> n < - (2 ^ 31)"
  shows "CtyNumberToNative w lib (of_int n) = (GInt KInt64 n, None)"
proof -
  have acc: "snd (Float_Int64 (of_int n)) = Exact" using r by (simp add: Float_Int64_of_int)
  show ?thesis
    using out by (auto simp add: CtyNumberToNative_def acc fromCtyNumberInt_int64[OF w r])
qed

lemma CtyNumberToNative_positive_fraction:
  assumes "\<not> is_integral v" "0 < v"
  shows "CtyNumberToNative w lib v =
     (if Float32_accuracy lib v = Exact \<or> Float32_accuracy lib v = Above
      then (case fromCtyNumberFloat lib KFloat32 v of
              Inl e \<Rightarrow> (GFloat KFloat32 0, Some e) | Inr fv \<Rightarrow> (GFloat KFloat32 fv, None))
      else (case fromCtyNumberFloat lib KFloat64 v of
              Inl e \<Rightarrow> (GFloat KFloat64 0, Some e) | Inr fv \<Rightarrow> (GFloat KFloat64 fv, None)))"
proof -
  have a: "snd (Float_Int64 v) = Below"
    using assms by (auto simp: Float_Int64_def MinInt64_def)
  have b: "snd (Float_Int v) = Below"
    using assms by (auto simp: Float_Int_def)
  show ?thesis by (simp add: CtyNumberToNative_def a b)
qed

text \<open>
  C4, as the code has it. The bound of \<open>CtyNumberToNative\<close> between \<open>int\<close> and
  \<open>int64\<close> is the 32-bit range, whatever the width of the platform's \<open>int\<close>: a whole
  number between \<open>-2^31\<close> and \<open>2^31 - 1\<close> becomes an \<open>int\<close> of that value; a
  whole number of the 64-bit range outside those bounds becomes an \<open>int64\<close> of that
  value. A positive number that is not whole and whose float64 is finite becomes a
  \<open>float32\<close>, the number rounded to 32 bits and with no error, when it is exactly
  representable as one (\<open>big.Float.Float32\<close> reports \<open>Exact\<close>), and a \<open>float64\<close>,
  the number rounded to 64 bits and with no error, when the nearest float32 is smaller
  (\<open>Below\<close>).
\<close>

theorem number_to_native_kinds:
  assumes "w = 32 \<or> w = 64"
  shows "(is_integral v \<and> - (2 ^ 31) \<le> \<lfloor>v\<rfloor> \<and> \<lfloor>v\<rfloor> \<le> 2 ^ 31 - 1 \<longrightarrow>
            CtyNumberToNative w lib v = (GInt KInt \<lfloor>v\<rfloor>, None)) \<and>
         (is_integral v \<and> MinInt64 \<le> \<lfloor>v\<rfloor> \<and> \<lfloor>v\<rfloor> \<le> MaxInt64 \<and>
            (\<lfloor>v\<rfloor> > 2 ^ 31 - 1 \<or> \<lfloor>v\<rfloor> < - (2 ^ 31)) \<longrightarrow>
            CtyNumberToNative w lib v = (GInt KInt64 \<lfloor>v\<rfloor>, None)) \<and>
         (\<not> is_integral v \<and> 0 < v \<and> \<not> float64_IsInf lib v \<and> Float32_accuracy lib v = Exact \<longrightarrow>
            CtyNumberToNative w lib v = (GFloat KFloat32 (to_float32 lib (to_float64 lib v)), None)) \<and>
         (\<not> is_integral v \<and> 0 < v \<and> \<not> float64_IsInf lib v \<and> Float32_accuracy lib v = Below \<longrightarrow>
            CtyNumberToNative w lib v = (GFloat KFloat64 (to_float64 lib v), None))"
proof (intro conjI impI)
  assume a: "is_integral v \<and> - (2 ^ 31) \<le> \<lfloor>v\<rfloor> \<and> \<lfloor>v\<rfloor> \<le> 2 ^ 31 - 1"
  then have v: "v = of_int \<lfloor>v\<rfloor>" unfolding is_integral_def by (rule_tac sym) blast
  show "CtyNumberToNative w lib v = (GInt KInt \<lfloor>v\<rfloor>, None)"
    using CtyNumberToNative_int[OF assms, of "\<lfloor>v\<rfloor>" lib] a v by simp
next
  assume a: "is_integral v \<and> MinInt64 \<le> \<lfloor>v\<rfloor> \<and> \<lfloor>v\<rfloor> \<le> MaxInt64 \<and>
            (\<lfloor>v\<rfloor> > 2 ^ 31 - 1 \<or> \<lfloor>v\<rfloor> < - (2 ^ 31))"
  then have v: "v = of_int \<lfloor>v\<rfloor>" unfolding is_integral_def by (rule_tac sym) blast
  show "CtyNumberToNative w lib v = (GInt KInt64 \<lfloor>v\<rfloor>, None)"
    using CtyNumberToNative_int64[OF assms, of "\<lfloor>v\<rfloor>" lib] a v by simp
next
  assume a: "\<not> is_integral v \<and> 0 < v \<and> \<not> float64_IsInf lib v \<and> Float32_accuracy lib v = Exact"
  then show "CtyNumberToNative w lib v = (GFloat KFloat32 (to_float32 lib (to_float64 lib v)), None)"
    using CtyNumberToNative_positive_fraction[of v w lib]
    by (simp add: fromCtyNumberFloat_def)
next
  assume a: "\<not> is_integral v \<and> 0 < v \<and> \<not> float64_IsInf lib v \<and> Float32_accuracy lib v = Below"
  then show "CtyNumberToNative w lib v = (GFloat KFloat64 (to_float64 lib v), None)"
    using CtyNumberToNative_positive_fraction[of v w lib]
    by (simp add: fromCtyNumberFloat_def)
qed

text \<open>On a platform whose \<open>int\<close> has 64 bits the whole number \<open>2^31\<close> fits the
  \<open>int\<close> range and is returned as an \<open>int64\<close>.\<close>

theorem number_to_native_kinds_counterexample:
  "is_integral 2147483648 \<and> int_min 64 KInt \<le> \<lfloor>2147483648 :: rat\<rfloor> \<and>
   \<lfloor>2147483648 :: rat\<rfloor> \<le> int_max 64 KInt \<and>
   CtyNumberToNative 64 example_lib 2147483648 = (GInt KInt64 2147483648, None)"
  by code_simp

text \<open>A negative number that is not whole takes the first branch, since \<open>Int64\<close>
  reports \<open>Above\<close> for it: the integer conversion fails and the zero \<open>int\<close> comes
  back with the error.\<close>

lemma number_to_native_negative_fraction:
  "CtyNumberToNative 64 example_lib (- 3 / 2) =
     (GInt KInt 0, Some ''value must be a whole number, between min and max'')"
  by code_simp

text \<open>A positive number that is not whole and not a float32, but whose nearest float32
  is greater, takes the float32 branch as well, since the test accepts \<open>Above\<close>:
  \<open>1/10\<close> comes back as the float32 \<open>13421773 / 2^27\<close>.\<close>

lemma number_to_native_fraction_above:
  "CtyNumberToNative 64 float_lib (1 / 10) = (GFloat KFloat32 (13421773 / 134217728), None)"
  by code_simp

theorem number_to_native_kinds_witness:
  "CtyNumberToNative 64 float_lib 42 = (GInt KInt 42, None) \<and>
   CtyNumberToNative 64 float_lib 4294967296 = (GInt KInt64 4294967296, None) \<and>
   CtyNumberToNative 64 float_lib (1 / 2) = (GFloat KFloat32 (1 / 2), None) \<and>
   CtyNumberToNative 64 float_lib (7 / 10) = (GFloat KFloat64 (3152519739159347 / 4503599627370496), None)"
proof -
  have w: "(64::nat) = 32 \<or> (64::nat) = 64" by simp
  note t = number_to_native_kinds[OF w, of _ float_lib]
  have i: "is_integral 42" "is_integral 4294967296" "\<not> is_integral (1 / 2)" "\<not> is_integral (7 / 10)"
    by code_simp+
  have f: "\<lfloor>42 :: rat\<rfloor> = 42" "\<lfloor>4294967296 :: rat\<rfloor> = 4294967296" by simp_all
  have a: "CtyNumberToNative 64 float_lib 42 = (GInt KInt \<lfloor>42 :: rat\<rfloor>, None)"
    by (rule mp[OF t[of 42, THEN conjunct1]]) (simp add: i)
  have b: "CtyNumberToNative 64 float_lib 4294967296 = (GInt KInt64 \<lfloor>4294967296 :: rat\<rfloor>, None)"
    by (rule mp[OF t[of 4294967296, THEN conjunct2, THEN conjunct1]]) (simp add: i MinInt64_def MaxInt64_def)
  have c: "CtyNumberToNative 64 float_lib (1 / 2)
             = (GFloat KFloat32 (to_float32 float_lib (to_float64 float_lib (1 / 2))), None)"
    by (rule mp[OF t[of "1 / 2", THEN conjunct2, THEN conjunct2, THEN conjunct1]])
       (simp add: i float_lib_def)
  have d: "CtyNumberToNative 64 float_lib (7 / 10)
             = (GFloat KFloat64 (to_float64 float_lib (7 / 10)), None)"
    by (rule mp[OF t[of "7 / 10", THEN conjunct2, THEN conjunct2, THEN conjunct2]])
       (simp add: i float_lib_def)
  have r: "to_float32 float_lib (to_float64 float_lib (1 / 2)) = 1 / 2"
    "to_float64 float_lib (7 / 10) = 3152519739159347 / 4503599627370496"
    by (simp_all add: float_lib_def)
  show ?thesis using a b c d unfolding f r by (intro conjI)
qed

section \<open>Label fields: positional labels\<close>

lemma lookup_put: "lookup (put k v xs) k' = (if k' = k then Some v else lookup xs k')"
  by (induction xs) auto

lemma get_field_direct:
  assumes "a < length h" "h ! a = (TStruct n fs, GStruct n' fvs)" "name \<in> set (map fst fs)"
  shows "get_field h a name = lookup fvs name"
  using assms by (simp add: get_field_def split: option.splits)

lemma set_field_direct:
  assumes "a < length h" "h ! a = (TStruct n fs, GStruct n' fvs)" "name \<in> set (map fst fs)"
    "lookup fvs name = Some old"
  shows "set_field h a name x = Some (h[a := (TStruct n fs, GStruct n' (put name x fvs))])"
  using assms by (simp add: set_field_def)

lemma Value_String_empty: "Value_String v = [] \<longleftrightarrow> v = GString []"
  by (cases v) auto

lemma processLabels_parent_fills:
  assumes "a < length h" "h ! a = (TStruct n fs, GStruct n' fvs)"
    "\<forall>(l, f) \<in> set pairs. field_Name f \<in> set (map fst fs)"
    "distinct (map (\<lambda>(l, f). field_Name f) pairs)"
  shows "\<exists>fvs'. processLabels_parent pairs a h = (Done, h[a := (TStruct n fs, GStruct n' fvs')])
           \<and> (\<forall>name. lookup fvs' name = label_target fvs pairs name)"
  using assms
proof (induction pairs arbitrary: h fvs)
  case Nil
  have "h[a := (TStruct n fs, GStruct n' fvs)] = h" using Nil(1,2) by (metis list_update_id)
  then show ?case by (auto simp: label_target_def intro!: exI[of _ fvs])
next
  case (Cons p pairs)
  obtain l f where p: "p = (l, f)" by (cases p)
  define name where "name = field_Name f"
  have nm: "name \<in> set (map fst fs)" using Cons.prems(3) p name_def by auto
  have gf: "get_field h a name = lookup fvs name"
    by (rule get_field_direct[OF Cons.prems(1,2) nm])
  have notin: "name \<notin> (\<lambda>(l, f). field_Name f) ` set pairs"
    using Cons.prems(4) p name_def by auto
  then have mo: "map_of (map (\<lambda>(l, f). (field_Name f, l)) pairs) name = None"
    by (force simp: map_of_eq_None_iff)
  have rest3: "\<forall>(l, f) \<in> set pairs. field_Name f \<in> set (map fst fs)" using Cons.prems(3) by auto
  have rest4: "distinct (map (\<lambda>(l, f). field_Name f) pairs)" using Cons.prems(4) by simp
  show ?case
  proof (cases "lookup fvs name = Some (GString [])")
    case True
    define h1 where "h1 = h[a := (TStruct n fs, GStruct n' (put name (GString l) fvs))]"
    have sf: "set_field h a name (GString l) = Some h1"
      unfolding h1_def by (rule set_field_direct[OF Cons.prems(1,2) nm True])
    have a1: "a < length h1" "h1 ! a = (TStruct n fs, GStruct n' (put name (GString l) fvs))"
      using Cons.prems(1) by (simp_all add: h1_def)
    from Cons.IH[OF a1 rest3 rest4] obtain fvs' where
      r: "processLabels_parent pairs a h1 = (Done, h1[a := (TStruct n fs, GStruct n' fvs')])"
      and t: "\<forall>nm. lookup fvs' nm = label_target (put name (GString l) fvs) pairs nm" by blast
    have step: "processLabels_parent (p # pairs) a h = (Done, h[a := (TStruct n fs, GStruct n' fvs')])"
      using r by (simp add: p name_def[symmetric] gf True sf h1_def)
    have "lookup fvs' nm = label_target fvs (p # pairs) nm" for nm
      using t[rule_format, of nm] mo True
      by (auto simp: label_target_def p name_def[symmetric] lookup_put split: option.splits)
    then show ?thesis using step by blast
  next
    case False
    have skip: "processLabels_parent (p # pairs) a h = processLabels_parent pairs a h"
      using False by (auto simp: p name_def[symmetric] gf Value_String_empty split: option.splits)
    from Cons.IH[OF Cons.prems(1,2) rest3 rest4] obtain fvs' where
      r: "processLabels_parent pairs a h = (Done, h[a := (TStruct n fs, GStruct n' fvs')])"
      and t: "\<forall>nm. lookup fvs' nm = label_target fvs pairs nm" by blast
    have "lookup fvs' nm = label_target fvs (p # pairs) nm" for nm
      using t[rule_format, of nm] mo False
      by (auto simp: label_target_def p name_def[symmetric] split: option.splits)
    then show ?thesis using r skip by auto
  qed
qed

lemma zip_swap_names:
  "length labels = length labelFields \<Longrightarrow>
   map (\<lambda>(l, f). (field_Name f, l)) (zip labels labelFields) = zip (map field_Name labelFields) labels"
  by (induction labels labelFields rule: list_induct2) auto

lemma zip_names:
  "length labels = length labelFields \<Longrightarrow>
   map (\<lambda>(l, f). field_Name f) (zip labels labelFields) = map field_Name labelFields"
  by (induction labels labelFields rule: list_induct2) auto

text \<open>
  C5, as the code has it. The positional labels passed down by the parent are applied
  only when their number equals the number of label fields. With a different number
  (one label and two label fields) no field is filled from the labels. With the same
  number, each label field that is still the empty string receives the label at its
  position, and a field that already holds a label keeps it: a positional label never
  overwrites it.
\<close>

theorem positional_labels_need_equal_counts:
  assumes "a < length h" "h ! a = (TStruct n fs, GStruct n' fvs)"
    "\<forall>f \<in> set labelFields. field_Name f \<in> set (map fst fs)"
    "distinct (map field_Name labelFields)"
  shows "(length labels \<noteq> length labelFields \<longrightarrow>
            processLabels ev labelFields a None labels h = (Done, h)) \<and>
         (length labels = length labelFields \<longrightarrow>
            (\<exists>h'. processLabels ev labelFields a None labels h = (Done, h') \<and>
               (\<forall>i < length labelFields.
                  get_field h' a (field_Name (labelFields ! i)) =
                    (if get_field h a (field_Name (labelFields ! i)) = Some (GString [])
                     then Some (GString (labels ! i))
                     else get_field h a (field_Name (labelFields ! i))))))"
proof (intro conjI impI)
  assume "length labels \<noteq> length labelFields"
  then show "processLabels ev labelFields a None labels h = (Done, h)"
    by (simp add: processLabels_def)
next
  assume len: "length labels = length labelFields"
  let ?pairs = "zip labels labelFields"
  have p3: "\<forall>(l, f) \<in> set ?pairs. field_Name f \<in> set (map fst fs)"
    using assms(3) by (auto dest: set_zip_rightD)
  have p4: "distinct (map (\<lambda>(l, f). field_Name f) ?pairs)"
    using assms(4) by (simp add: zip_names[OF len])
  from processLabels_parent_fills[OF assms(1,2) p3 p4] obtain fvs' where
    r: "processLabels_parent ?pairs a h = (Done, h[a := (TStruct n fs, GStruct n' fvs')])"
    and t: "\<forall>name. lookup fvs' name = label_target fvs ?pairs name" by blast
  let ?h' = "h[a := (TStruct n fs, GStruct n' fvs')]"
  have res: "processLabels ev labelFields a None labels h = (Done, ?h')"
    using r len by (simp add: processLabels_def)
  have a': "a < length ?h'" "?h' ! a = (TStruct n fs, GStruct n' fvs')"
    using assms(1) by simp_all
  have "get_field ?h' a (field_Name (labelFields ! i)) =
          (if get_field h a (field_Name (labelFields ! i)) = Some (GString [])
           then Some (GString (labels ! i))
           else get_field h a (field_Name (labelFields ! i)))"
    if i: "i < length labelFields" for i
  proof -
    let ?name = "field_Name (labelFields ! i)"
    have nm: "?name \<in> set (map fst fs)" using assms(3) i by auto
    have mo: "map_of (map (\<lambda>(l, f). (field_Name f, l)) ?pairs) ?name = Some (labels ! i)"
      unfolding zip_swap_names[OF len]
      using map_of_zip_nth[of "map field_Name labelFields" labels i] len assms(4) i by simp
    have "get_field ?h' a ?name = lookup fvs' ?name"
      by (rule get_field_direct[OF a' nm])
    also have "\<dots> = label_target fvs ?pairs ?name" using t by simp
    also have "\<dots> = (if lookup fvs ?name = Some (GString []) then Some (GString (labels ! i))
                      else lookup fvs ?name)"
      by (simp add: label_target_def mo)
    finally show ?thesis unfolding get_field_direct[OF assms(1,2) nm] .
  qed
  then show "\<exists>h'. processLabels ev labelFields a None labels h = (Done, h') \<and>
               (\<forall>i < length labelFields.
                  get_field h' a (field_Name (labelFields ! i)) =
                    (if get_field h a (field_Name (labelFields ! i)) = Some (GString [])
                     then Some (GString (labels ! i))
                     else get_field h a (field_Name (labelFields ! i))))"
    using res by blast
qed

text \<open>One positional label and two empty label fields: the first field stays empty.\<close>

theorem positional_labels_need_equal_counts_counterexample:
  "processLabels no_evaluator (struct_fields TestStruct) 0 None [''abc1''] (labels_heap [] []) =
     (Done, labels_heap [] []) \<and>
   get_field (labels_heap [] []) 0 ''Type'' = Some (GString [])"
  by (simp add: processLabels_def TestStruct_def labels_heap_def get_field_def)

theorem positional_labels_need_equal_counts_witness:
  "processLabels no_evaluator (struct_fields TestStruct) 0 None [''resource'', ''example'']
       (labels_heap ''existing'' []) = (Done, labels_heap ''existing'' ''example'') \<and>
   processLabels no_evaluator (struct_fields TestStruct) 0 None [''resource'', ''example'']
       (labels_heap ''a'' ''b'') = (Done, labels_heap ''a'' ''b'') \<and>
   processLabels no_evaluator (struct_fields TestStruct) 0 None [''resource'']
       (labels_heap [] []) = (Done, labels_heap [] [])"
proof -
  have c: "(0::nat) < length (labels_heap [] [])"
    "labels_heap [] [] ! 0 = (TStruct ''TestStruct'' (struct_fields TestStruct),
        GStruct ''TestStruct'' [(''Type'', GString []), (''Name'', GString [])])"
    "\<forall>f \<in> set (struct_fields TestStruct). field_Name f \<in> set (map fst (struct_fields TestStruct))"
    "distinct (map field_Name (struct_fields TestStruct))"
    by (simp_all add: labels_heap_def TestStruct_def field_Name_def)
  have one: "length [''resource''] \<noteq> length (struct_fields TestStruct)"
    by (simp add: TestStruct_def)
  have third: "processLabels no_evaluator (struct_fields TestStruct) 0 None [''resource'']
       (labels_heap [] []) = (Done, labels_heap [] [])"
    using positional_labels_need_equal_counts[OF c, of "[''resource'']" no_evaluator] one by blast
  have first: "processLabels no_evaluator (struct_fields TestStruct) 0 None [''resource'', ''example'']
       (labels_heap ''existing'' []) = (Done, labels_heap ''existing'' ''example'')"
    by (simp add: processLabels_def TestStruct_def labels_heap_def get_field_def set_field_def
        field_Name_def Let_def)
  have second: "processLabels no_evaluator (struct_fields TestStruct) 0 None [''resource'', ''example'']
       (labels_heap ''a'' ''b'') = (Done, labels_heap ''a'' ''b'')"
    by (simp add: processLabels_def TestStruct_def labels_heap_def get_field_def set_field_def
        field_Name_def Let_def)
  show ?thesis using first second third by (intro conjI)
qed

section \<open>Block fields: a class that is absent from the type registry\<close>










text \<open>\<open>processBlockFields\<close> passes over a field with no block or no specification,
  and returns the error of the first field whose function fails.\<close>

lemma processBlockFields_stops_at_an_error:
  assumes "lookup oriblock (fst (parseHCLTag (field_Tag field))) = Some blocks" and "blocks \<noteq> []"
    and "lookup objectMap (field_Name field) = Some result"
    and "(case result of
            Map2Struct x \<Rightarrow> processMap2StructField dec c node field blocks x oriTobe st
          | MapStruct x \<Rightarrow> processMapStructField dec c node field blocks x oriTobe st
          | ListStruct x \<Rightarrow> processListStructField dec c node field blocks x oriTobe st
          | SingleStruct x \<Rightarrow> processSingleStructField dec c node field (hd blocks) x oriTobe st)
         = (Failed e, st')"
  shows "processBlockFields dec c node (field # oriFields) oriblock objectMap oriTobe st = (Failed e, st')"
  using assms by (cases result) (simp_all add: Let_def)

lemma processBlockFields_skips:
  assumes "lookup oriblock (fst (parseHCLTag (field_Tag field))) = None
           \<or> lookup oriblock (fst (parseHCLTag (field_Tag field))) = Some []
           \<or> lookup objectMap (field_Name field) = None"
  shows "processBlockFields dec c node (field # oriFields) oriblock objectMap oriTobe st
           = processBlockFields dec c node oriFields oriblock objectMap oriTobe st"
  using assms by (auto simp add: Let_def split: option.splits)

text \<open>The test \<open>TestProcessBlockFieldsErrorMissingRef\<close>, run through \<open>UnmarshalSpec\<close>:
  the specification names the class \<open>Inner\<close> for the field \<open>Nested\<close> and the
  registry is empty.\<close>

lemma missing_class_fails_the_decode_call:
  "fst (UnmarshalSpec (example_config clone_zero) (as_document outer_body) 0 (Some outer_spec) []
          (outer_state [] []))
     = Failed (not_found ''Nested'' ''Inner'')"
  by code_simp

section \<open>Block fields: the instance a block is decoded into\<close>

lemma lookup_copy_fields:
  "lookup (copy_fields news olds) name =
     (case lookup news name of
        None \<Rightarrow> None
      | Some zero \<Rightarrow> (if exported name then (case lookup olds name of Some v \<Rightarrow> Some v | None \<Rightarrow> Some zero)
                      else Some zero))"
  by (induction news) (auto split: option.splits if_splits)

lemma lookup_zero_fields:
  "name \<in> set (map field_Name fs) \<Longrightarrow>
     \<exists>z. lookup (map (\<lambda>(fname, tag, anon, t). (fname, Zero t)) fs) name = Some z"
  by (induction fs) (force simp: field_Name_def)+

text \<open>The clone of \<open>dethcl/util.go\<close> holds, in every exported field, the value the
  prototype holds there; the clone of the other form is the zero value of the type.\<close>

lemma clone_copy_keeps_exported_fields:
  assumes "old < length h" and "h ! old = (TStruct n fs, GStruct n' olds)"
    and "exported name" and "lookup olds name = Some v" and "name \<in> set (map field_Name fs)"
  shows "\<exists>fvs. clone_copy h old = Some (h @ [(TStruct n fs, GStruct n fvs)], length h)
           \<and> lookup fvs name = Some v"
proof -
  obtain z where z: "lookup (map (\<lambda>(fname, tag, anon, t). (fname, Zero t)) fs) name = Some z"
    using lookup_zero_fields [OF assms(5)] by blast
  have "clone_copy h old =
          Some (h @ [(TStruct n fs,
                      GStruct n (copy_fields (map (\<lambda>(fname, tag, anon, t). (fname, Zero t)) fs) olds))],
                length h)"
    using assms(1,2) by (simp add: clone_copy_def)
  moreover have "lookup (copy_fields (map (\<lambda>(fname, tag, anon, t). (fname, Zero t)) fs) olds) name = Some v"
    using z assms(3,4) by (simp add: lookup_copy_fields)
  ultimately show ?thesis by blast
qed

lemma clone_zero_is_zero:
  assumes "old < length h"
  shows "clone_zero h old = Some (h @ [(fst (h ! old), Zero (fst (h ! old)))], length h)"
  using assms by (simp add: clone_zero_def)

text \<open>
  C7, at a failing input, with \<open>clone\<close> as \<open>dethcl/util.go\<close> has it. The registry
  holds the prototype \<open>&Inner{Value: "preset"}\<close> for the class \<open>Inner\<close>; the document
  is \<open>name = "x"\<close> followed by the block \<open>nested {}\<close>, which does not set
  \<open>value\<close>. The call succeeds, and the decoded \<open>Nested.Value\<close> is \<open>"preset"\<close>,
  the value of the prototype: the instance the block was decoded into was a copy of the
  prototype and not a zero value.
\<close>

theorem clone_copies_the_prototype:
  "fst (UnmarshalSpecTree (example_config clone_copy) (Some 0) (as_document outer_body_unset) 0
          (Some outer_spec) [] preset_registry) = Done
   \<and> struct_at 0 (UnmarshalSpecTree (example_config clone_copy) (Some 0) (as_document outer_body_unset) 0
          (Some outer_spec) [] preset_registry)
       = GStruct ''Outer''
           [(''Name'', GString ''x''),
            (''Nested'', GStruct ''Inner'' [(''Value'', GString ''preset'')])]"
  by code_simp

text \<open>The same call with the other form of \<open>clone\<close>, which allocates a zero value:
  \<open>Nested.Value\<close> is the empty string.\<close>

lemma clone_zero_example:
  "fst (UnmarshalSpecTree (example_config clone_zero) (Some 0) (as_document outer_body_unset) 0
          (Some outer_spec) [] preset_registry) = Done
   \<and> struct_at 0 (UnmarshalSpecTree (example_config clone_zero) (Some 0) (as_document outer_body_unset) 0
          (Some outer_spec) [] preset_registry)
       = GStruct ''Outer''
           [(''Name'', GString ''x''), (''Nested'', GStruct ''Inner'' [(''Value'', GString [])])]"
  by code_simp

section \<open>Attributes that evaluate to null\<close>







lemma ctx_Functions_trees [simp]: "ctx_Functions (make_ctx (st\<lparr>trees := t\<rparr>)) = ctx_Functions (make_ctx st)"
  by (simp add: make_ctx_def split: option.splits)























section \<open>The target of a decode call that fails\<close>

text \<open>Where the target is a generic map or slice, a call that does not succeed leaves the
  store as it was.\<close>

lemma unmarshalToMap_error_keeps_store:
  "fst (unmarshalToMap c dat current h) \<noteq> Done \<Longrightarrow> snd (unmarshalToMap c dat current h) = h"
  by (auto simp: unmarshalToMap_def split: res.splits gvalue.splits list.splits if_splits)

lemma unmarshalToSlice_error_keeps_store:
  "fst (unmarshalToSlice c dat current h) \<noteq> Done \<Longrightarrow> snd (unmarshalToSlice c dat current h) = h"
  by (auto simp: unmarshalToSlice_def split: res.splits gvalue.splits list.splits if_splits)

text \<open>
  C2, at a failing input. The target is \<open>&Outer{}\<close>, the document is
  \<open>name = "x"\<close> followed by the block \<open>nested { value = "test" }\<close>, the specification
  names the class \<open>Inner\<close> for the field \<open>Nested\<close>, and the registry holds no class.
  \<open>UnmarshalSpecTree\<close> returns the error of the missing class, and the caller's struct,
  which was the zero value before the call, holds \<open>Name = "x"\<close> after it: the simple
  fields were written through the copy of the pointer before the block failed.
\<close>

theorem failed_decode_writes_the_target:
  "snd (heap empty_registry_state ! 0)
       = GStruct ''Outer''
           [(''Name'', GString []), (''Nested'', GStruct ''Inner'' [(''Value'', GString [])])]
   \<and> fst (UnmarshalSpecTree (example_config clone_zero) (Some 0) (as_document outer_body) 0
             (Some outer_spec) [] empty_registry_state)
       = Failed (not_found ''Nested'' ''Inner'')
   \<and> struct_at 0 (UnmarshalSpecTree (example_config clone_zero) (Some 0) (as_document outer_body) 0
             (Some outer_spec) [] empty_registry_state)
       = GStruct ''Outer''
           [(''Name'', GString ''x''), (''Nested'', GStruct ''Inner'' [(''Value'', GString [])])]"
  by code_simp

section \<open>Decoding, encoding and decoding again\<close>

text \<open>
  C1, at a failing input. The document \<open>a = [0]\<close> holds a list and a scalar and no
  variable or function. \<open>Unmarshal\<close> into an empty generic map gives the map
  \<open>{"a": [0]}\<close>. \<open>Marshal\<close> of that map returns bytes in which the element is
  written \<open>[]\<close>: \<open>marshalLevel\<close> returns nil for a zero value and \<open>encodeSlice\<close>
  writes \<open>[]\<close> for nil. \<open>Unmarshal\<close> of those bytes gives a map whose list holds an
  empty list and not the number 0, so the second result is not equal to the first.
\<close>

theorem round_trip_changes_a_zero_in_a_list:
  "fst (Unmarshal (example_config clone_zero) (as_document zero_list_body) 0 [] generic_map_state) = Done
   \<and> struct_at 0 (Unmarshal (example_config clone_zero) (as_document zero_list_body) 0 []
                    generic_map_state)
       = GMap [(GString ''a'', GSlice [GInt KInt 0])]
   \<and> Marshal (example_config clone_zero) (GMap [(GString ''a'', GSlice [GInt KInt 0])])
       = Ok (Some zero_list_marshalled)
   \<and> fst (Unmarshal (example_config clone_zero) (as_document zero_list_reparsed) 0 []
             generic_map_state) = Done
   \<and> struct_at 0 (Unmarshal (example_config clone_zero) (as_document zero_list_reparsed) 0 []
                    generic_map_state)
       = GMap [(GString ''a'', GSlice [GNilSlice])]"
  by code_simp

text \<open>Every zero value in a list is written as an empty list, whatever its type.\<close>

lemma zero_elements_are_marshalled_as_empty_lists:
  "encodeSlice_loop c [GInt k 0, GString [], GBool False, GFloat fk 0] level
     = Ok [''[]'', ''[]'', ''[]'', ''[]'']"
  by simp

text \<open>The document \<open>a = []\<close> decodes to a map whose entry is the nil slice, and the
  bytes \<open>Marshal\<close> returns for it are the line \<open>a = \<close> with nothing after the equals
  sign, which is no attribute of the block syntax.\<close>

lemma empty_list_is_marshalled_without_a_value:
  "struct_at 0 (Unmarshal (example_config clone_zero) (as_document empty_list_body) 0 []
                  generic_map_state)
     = GMap [(GString ''a'', GNilSlice)]
   \<and> Marshal (example_config clone_zero) (GMap [(GString ''a'', GNilSlice)])
       = Ok (Some ([CHR 0x0A] @ ''  a = '' @ [CHR 0x0A]))"
  by code_simp

text \<open>A string is written between quotes as it is: the string \<open>x"y\<close> gives the line
  \<open>a = "x"y"\<close>.\<close>

lemma string_is_marshalled_unescaped:
  "Marshal (example_config clone_zero) (GMap [(GString ''a'', GString [CHR ''x'', CHR 0x22, CHR ''y''])])
     = Ok (Some ([CHR 0x0A] @ ''  a = '' @ [CHR 0x22, CHR ''x'', CHR 0x22, CHR ''y'', CHR 0x22, CHR 0x0A]))"
  by code_simp

end

